theory Spec2Isabelle
  imports Main "HOL-Library.Multiset" "HOL-Library.AList"
begin

section \<open>Values of the plugin framework\<close>

text \<open>
  \<open>types.String\<close> is a string that may be null: \<open>None\<close> is the null value.
  \<open>ValueString\<close> reads a null as the empty string, \<open>StringPointerValue\<close> turns a
  nil pointer into null, \<open>ValueStringPointer\<close> turns null into a nil pointer.
  Pointers to strings (\<open>*string\<close>) are \<open>string option\<close>, \<open>None\<close> being nil.
  A string of a plan can also be unknown (a computed identifier before the resource exists);
  the code reads such strings with \<open>ValueString\<close> only, which gives the empty string for
  unknown as for null, so \<open>None\<close> stands for both.
\<close>

type_synonym tfstring = "string option"

definition ValueString :: "tfstring \<Rightarrow> string" where
  "ValueString s = (case s of None \<Rightarrow> [] | Some v \<Rightarrow> v)"

definition StringPointerValue :: "string option \<Rightarrow> tfstring" where
  "StringPointerValue p = p"

definition ValueStringPointer :: "tfstring \<Rightarrow> string option" where
  "ValueStringPointer s = s"

definition StringValue :: "string \<Rightarrow> tfstring" where
  "StringValue v = Some v"

text \<open>
  \<open>types.Bool\<close> is null, unknown or a known value. An optional and computed attribute
  that the configuration leaves out is unknown in the plan of \<open>Create\<close>. \<open>IsNull\<close>
  holds of null only, \<open>ValueBool\<close> reads null and unknown as \<open>false\<close>,
  \<open>BoolPointerValue\<close> turns a nil pointer into null, and \<open>ValueBoolPointer\<close> gives nil
  for null and a pointer to \<open>false\<close> for unknown.
\<close>

datatype tfbool = BoolNull | BoolUnknown | BoolValue bool

definition BoolIsNull :: "tfbool \<Rightarrow> bool" where
  "BoolIsNull b = (case b of BoolNull \<Rightarrow> True | _ \<Rightarrow> False)"

definition ValueBool :: "tfbool \<Rightarrow> bool" where
  "ValueBool b = (case b of BoolValue v \<Rightarrow> v | _ \<Rightarrow> False)"

definition BoolPointerValue :: "bool option \<Rightarrow> tfbool" where
  "BoolPointerValue p = (case p of None \<Rightarrow> BoolNull | Some v \<Rightarrow> BoolValue v)"

definition ValueBoolPointer :: "tfbool \<Rightarrow> bool option" where
  "ValueBoolPointer b = (case b of BoolNull \<Rightarrow> None | BoolUnknown \<Rightarrow> Some False | BoolValue v \<Rightarrow> Some v)"

text \<open>
  \<open>types.Set\<close> of strings: null, or a collection of elements (kept as a list, in the
  order the framework holds them). \<open>ElementsAs\<close> into a \<open>[]string\<close> reads a null set as
  the nil slice.
\<close>

datatype tfset = SetNull | SetValue "string list"

definition IsNull :: "tfset \<Rightarrow> bool" where
  "IsNull s = (case s of SetNull \<Rightarrow> True | SetValue _ \<Rightarrow> False)"

definition ElementsAs :: "tfset \<Rightarrow> string list" where
  "ElementsAs s = (case s of SetNull \<Rightarrow> [] | SetValue xs \<Rightarrow> xs)"

text \<open>Diagnostics: the code only ever adds errors; warnings may come from the framework.\<close>

datatype diagnostic = ErrorDiagnostic string string | WarningDiagnostic string string

fun is_error :: "diagnostic \<Rightarrow> bool" where
  "is_error (ErrorDiagnostic _ _) = True"
| "is_error (WarningDiagnostic _ _) = False"

definition HasError :: "diagnostic list \<Rightarrow> bool" where
  "HasError ds = list_ex is_error ds"

definition AddError :: "string \<Rightarrow> string \<Rightarrow> diagnostic list \<Rightarrow> diagnostic list" where
  "AddError summary detail ds = ds @ [ErrorDiagnostic summary detail]"

text \<open>
  \<open>Diagnostics.Append\<close> adds each new diagnostic that the collection does not hold yet.
\<close>

definition Append :: "diagnostic list \<Rightarrow> diagnostic list \<Rightarrow> diagnostic list" where
  "Append ds new = fold (\<lambda>d acc. if d \<in> set acc then acc else acc @ [d]) new ds"

text \<open>
  \<open>types.SetValueFrom\<close> builds a set of strings from a \<open>[]string\<close> and returns it with
  diagnostics. The nil slice gives the null set. The framework validates the set it built:
  for every element that occurs more than once (taken in the order of their first
  occurrences) it reports one error, "Duplicate Set Element", naming the element in
  quotes. With an error the set it hands back is unknown and no caller looks at it: the
  result here is either the diagnostics (\<open>Inl\<close>) or the set (\<open>Inr\<close>).
\<close>

definition duplicated :: "string list \<Rightarrow> string list" where
  "duplicated xs = filter (\<lambda>x. 1 < count_list xs x) (rev (remdups (rev xs)))"

definition duplicateErrors :: "string list \<Rightarrow> diagnostic list" where
  "duplicateErrors xs =
     map (\<lambda>x. ErrorDiagnostic ''Duplicate Set Element''
                (''This attribute contains duplicate values of: '' @ [CHR 0x22] @ x @ [CHR 0x22]))
         (duplicated xs)"

definition SetValueFrom :: "string list \<Rightarrow> diagnostic list + tfset" where
  "SetValueFrom xs =
     (if xs = [] then Inr SetNull
      else if duplicated xs = [] then Inr (SetValue xs)
      else Inl (duplicateErrors xs))"

text \<open>
  A response (\<open>CreateResponse\<close>, \<open>ReadResponse\<close>, \<open>UpdateResponse\<close>, \<open>DeleteResponse\<close>)
  holds the tracked state the framework will store (\<open>None\<close>: no resource tracked) and
  the diagnostics. Every operation receives the response by pointer and updates it;
  here it is passed in and returned. \<open>RemoveResource\<close> empties the state.
\<close>

record 's response =
  State :: "'s option"
  Diagnostics :: "diagnostic list"

definition RemoveResource :: "'s response \<Rightarrow> 's response" where
  "RemoveResource resp = resp\<lparr>State := None\<rparr>"

definition State_Set :: "'s \<Rightarrow> 's response \<Rightarrow> 's response" where
  "State_Set v resp = resp\<lparr>State := Some v\<rparr>"

text \<open>A Go function either returns or panics (a nil pointer dereference here).\<close>

datatype 'a outcome = Panicked | Returned 'a

section \<open>The remote service as the SDK presents it\<close>

record ContentMetaGroupUser =
  cm_Id :: "string option"
  cm_ContentMetadataId :: "string option"
  cm_PermissionType :: "string option"
  cm_GroupId :: "string option"
  cm_UserId :: "string option"

record User =
  user_Id :: "string option"
  user_Email :: "string option"

record Group =
  group_Id :: "string option"
  group_Name :: "string option"

record Folder =
  folder_Id :: "string option"
  folder_Name :: string
  folder_ParentId :: "string option"
  folder_ContentMetadataId :: "string option"

record ContentMeta =
  meta_Inherits :: "bool option"

record PermissionSet =
  ps_Id :: "string option"
  ps_Name :: "string option"
  ps_Permissions :: "string list option"
  ps_BuiltIn :: "bool option"
  ps_AllAccess :: "bool option"
  ps_Url :: "string option"

record ModelSet =
  ms_Id :: "string option"
  ms_Name :: "string option"
  ms_Models :: "string list option"
  ms_BuiltIn :: "bool option"
  ms_AllAccess :: "bool option"
  ms_Url :: "string option"

record Role =
  role_Id :: "string option"
  role_Name :: "string option"
  role_Url :: "string option"
  role_PermissionSet :: "PermissionSet option"
  role_ModelSet :: "ModelSet option"

text \<open>
  Every request the code sends, with the arguments it sends. The trace of a run is the
  list of calls issued, each with the error the remote answered (if any).
\<close>

datatype call =
    AllContentMetadataAccessesCall string string
  | CreateContentMetadataAccessCall ContentMetaGroupUser bool
  | UpdateContentMetadataAccessCall string ContentMetaGroupUser
  | DeleteContentMetadataAccessCall string
  | SearchUsersCall "string option"
  | CreateGroupCall "string option"
  | GroupCall string string
  | UpdateGroupCall string "string option"
  | DeleteGroupCall string
  | AllGroupUsersCall string
  | AddGroupUserCall string "string option"
  | DeleteGroupUserCall string string
  | CreateFolderCall string string
  | FolderCall string string
  | UpdateFolderCall string "string option" "string option"
  | DeleteFolderCall string
  | ContentMetadataCall string string
  | UpdateContentMetadataCall string "bool option"
  | CreatePermissionSetCall "string option" "string list"
  | PermissionSetCall string string
  | UpdatePermissionSetCall string "string option" "string list"
  | DeletePermissionSetCall string
  | CreateModelSetCall "string option" "string list"
  | ModelSetCall string string
  | UpdateModelSetCall string "string option" "string list"
  | DeleteModelSetCall string
  | CreateRoleCall "string option" "string option" "string option"
  | RoleCall string
  | UpdateRoleCall string "string option" "string option" "string option"
  | DeleteRoleCall string
  | SetRoleGroupsCall string "string list"
  | RoleGroupsCall string string

fun mutating :: "call \<Rightarrow> bool" where
  "mutating (AllContentMetadataAccessesCall _ _) = False"
| "mutating (SearchUsersCall _) = False"
| "mutating (GroupCall _ _) = False"
| "mutating (AllGroupUsersCall _) = False"
| "mutating (FolderCall _ _) = False"
| "mutating (ContentMetadataCall _ _) = False"
| "mutating (PermissionSetCall _ _) = False"
| "mutating (ModelSetCall _ _) = False"
| "mutating (RoleCall _) = False"
| "mutating (RoleGroupsCall _ _) = False"
| "mutating _ = True"

type_synonym event = "call \<times> string option"

type_synonym 'a result = "string + 'a"

text \<open>
  The SDK client: one function per method the code calls, over an arbitrary remote
  state \<open>'r\<close>. A method answers an error message (\<open>Inl\<close>) or a value (\<open>Inr\<close>) and leaves
  the remote in a new state. Nothing is assumed about what the remote does.
\<close>

record 'r LookerSDK =
  AllContentMetadataAccesses :: "string \<Rightarrow> string \<Rightarrow> 'r \<Rightarrow> ContentMetaGroupUser list result \<times> 'r"
  CreateContentMetadataAccess :: "ContentMetaGroupUser \<Rightarrow> bool \<Rightarrow> 'r \<Rightarrow> ContentMetaGroupUser result \<times> 'r"
  UpdateContentMetadataAccess :: "string \<Rightarrow> ContentMetaGroupUser \<Rightarrow> 'r \<Rightarrow> ContentMetaGroupUser result \<times> 'r"
  DeleteContentMetadataAccess :: "string \<Rightarrow> 'r \<Rightarrow> unit result \<times> 'r"
  SearchUsers :: "string option \<Rightarrow> 'r \<Rightarrow> User list result \<times> 'r"
  CreateGroup :: "string option \<Rightarrow> 'r \<Rightarrow> Group result \<times> 'r"
  GetGroup :: "string \<Rightarrow> string \<Rightarrow> 'r \<Rightarrow> Group result \<times> 'r"
  UpdateGroup :: "string \<Rightarrow> string option \<Rightarrow> 'r \<Rightarrow> Group result \<times> 'r"
  DeleteGroup :: "string \<Rightarrow> 'r \<Rightarrow> unit result \<times> 'r"
  AllGroupUsers :: "string \<Rightarrow> 'r \<Rightarrow> User list result \<times> 'r"
  AddGroupUser :: "string \<Rightarrow> string option \<Rightarrow> 'r \<Rightarrow> User result \<times> 'r"
  DeleteGroupUser :: "string \<Rightarrow> string \<Rightarrow> 'r \<Rightarrow> unit result \<times> 'r"
  CreateFolder :: "string \<Rightarrow> string \<Rightarrow> 'r \<Rightarrow> Folder result \<times> 'r"
  GetFolder :: "string \<Rightarrow> string \<Rightarrow> 'r \<Rightarrow> Folder result \<times> 'r"
  UpdateFolder :: "string \<Rightarrow> string option \<Rightarrow> string option \<Rightarrow> 'r \<Rightarrow> Folder result \<times> 'r"
  DeleteFolder :: "string \<Rightarrow> 'r \<Rightarrow> unit result \<times> 'r"
  ContentMetadata :: "string \<Rightarrow> string \<Rightarrow> 'r \<Rightarrow> ContentMeta result \<times> 'r"
  UpdateContentMetadata :: "string \<Rightarrow> bool option \<Rightarrow> 'r \<Rightarrow> ContentMeta result \<times> 'r"
  CreatePermissionSet :: "string option \<Rightarrow> string list \<Rightarrow> 'r \<Rightarrow> PermissionSet result \<times> 'r"
  GetPermissionSet :: "string \<Rightarrow> string \<Rightarrow> 'r \<Rightarrow> PermissionSet result \<times> 'r"
  UpdatePermissionSet :: "string \<Rightarrow> string option \<Rightarrow> string list \<Rightarrow> 'r \<Rightarrow> PermissionSet result \<times> 'r"
  DeletePermissionSet :: "string \<Rightarrow> 'r \<Rightarrow> unit result \<times> 'r"
  CreateModelSet :: "string option \<Rightarrow> string list \<Rightarrow> 'r \<Rightarrow> ModelSet result \<times> 'r"
  GetModelSet :: "string \<Rightarrow> string \<Rightarrow> 'r \<Rightarrow> ModelSet result \<times> 'r"
  UpdateModelSet :: "string \<Rightarrow> string option \<Rightarrow> string list \<Rightarrow> 'r \<Rightarrow> ModelSet result \<times> 'r"
  DeleteModelSet :: "string \<Rightarrow> 'r \<Rightarrow> unit result \<times> 'r"
  CreateRole :: "string option \<Rightarrow> string option \<Rightarrow> string option \<Rightarrow> 'r \<Rightarrow> Role result \<times> 'r"
  GetRole :: "string \<Rightarrow> 'r \<Rightarrow> Role result \<times> 'r"
  UpdateRole :: "string \<Rightarrow> string option \<Rightarrow> string option \<Rightarrow> string option \<Rightarrow> 'r \<Rightarrow> Role result \<times> 'r"
  DeleteRole :: "string \<Rightarrow> 'r \<Rightarrow> unit result \<times> 'r"
  SetRoleGroups :: "string \<Rightarrow> string list \<Rightarrow> 'r \<Rightarrow> Group list result \<times> 'r"
  RoleGroups :: "string \<Rightarrow> string \<Rightarrow> 'r \<Rightarrow> Group list result \<times> 'r"

record 'r world =
  remote :: 'r
  trace :: "event list"

definition error_of :: "'a result \<Rightarrow> string option" where
  "error_of res = (case res of Inl e \<Rightarrow> Some e | Inr _ \<Rightarrow> None)"

definition invoke :: "call \<Rightarrow> ('r \<Rightarrow> 'a result \<times> 'r) \<Rightarrow> 'r world \<Rightarrow> 'a result \<times> 'r world" where
  "invoke c f w =
     (case f (remote w) of
        (res, r') \<Rightarrow> (res, \<lparr>remote = r', trace = trace w @ [(c, error_of res)]\<rparr>))"

definition emptyContentMetaGroupUser :: ContentMetaGroupUser where
  "emptyContentMetaGroupUser =
     \<lparr>cm_Id = None, cm_ContentMetadataId = None, cm_PermissionType = None,
      cm_GroupId = None, cm_UserId = None\<rparr>"

section \<open>Folder permission override\<close>

record folderPermissionOverrideResourceModel =
  fpo_ID :: tfstring
  fpo_FolderID :: tfstring
  fpo_GroupID :: tfstring
  fpo_AccessLevel :: tfstring

text \<open>The scan of \<open>findAccessGrant\<close>: the first grant of the list whose group is the one sought.\<close>

fun scanAccessGrants :: "string \<Rightarrow> ContentMetaGroupUser list \<Rightarrow> ContentMetaGroupUser option" where
  "scanAccessGrants groupID [] = None"
| "scanAccessGrants groupID (grant # rest) =
     (if cm_GroupId grant \<noteq> None \<and> the (cm_GroupId grant) = groupID then Some grant
      else scanAccessGrants groupID rest)"

definition folderPermissionOverride_findAccessGrant ::
  "'r LookerSDK \<Rightarrow> string \<Rightarrow> string \<Rightarrow> 'r world \<Rightarrow> ContentMetaGroupUser option result \<times> 'r world" where
  "folderPermissionOverride_findAccessGrant sdk folderID groupID w =
     (case invoke (AllContentMetadataAccessesCall folderID [])
             (AllContentMetadataAccesses sdk folderID []) w of
        (Inl err, w') \<Rightarrow>
          (Inl (''API error searching for access grants on folder '' @ folderID @ '': '' @ err), w')
      | (Inr results, w') \<Rightarrow> (Inr (scanAccessGrants groupID results), w'))"

definition folderPermissionOverride_Create ::
  "'r LookerSDK option \<Rightarrow> folderPermissionOverrideResourceModel \<Rightarrow>
   folderPermissionOverrideResourceModel response \<Rightarrow> 'r world \<Rightarrow>
   folderPermissionOverrideResourceModel response outcome \<times> 'r world" where
  "folderPermissionOverride_Create r_sdk plan resp w =
     (if HasError (Diagnostics resp) then (Returned resp, w)
      else case r_sdk of
        None \<Rightarrow> (Panicked, w)
      | Some sdk \<Rightarrow>
       (let folderID = ValueString (fpo_FolderID plan);
            groupID = ValueString (fpo_GroupID plan)
        in case folderPermissionOverride_findAccessGrant sdk folderID groupID w of
             (Inl err, w1) \<Rightarrow>
               (Returned (resp\<lparr>Diagnostics := AddError ''API Error on Find'' err (Diagnostics resp)\<rparr>), w1)
           | (Inr None, w1) \<Rightarrow>
               (Returned (resp\<lparr>Diagnostics := AddError ''Cannot Override Permission''
                  (''No inherited permission found for group '' @ groupID @ '' on folder '' @ folderID
                   @ '' to override. The group must have parent access first.'')
                  (Diagnostics resp)\<rparr>), w1)
           | (Inr (Some grant), w1) \<Rightarrow>
               (let accessLevelString = ValueString (fpo_AccessLevel plan);
                    permissionType = accessLevelString
                in case cm_Id grant of
                     None \<Rightarrow> (Panicked, w1)
                   | Some grantId \<Rightarrow>
                      (case invoke
                              (UpdateContentMetadataAccessCall grantId
                                 (emptyContentMetaGroupUser\<lparr>cm_PermissionType := Some permissionType\<rparr>))
                              (UpdateContentMetadataAccess sdk grantId
                                 (emptyContentMetaGroupUser\<lparr>cm_PermissionType := Some permissionType\<rparr>)) w1 of
                         (Inl err, w2) \<Rightarrow>
                           (Returned (resp\<lparr>Diagnostics := AddError ''API Error on Update''
                              (''Failed to update folder access grant '' @ grantId @ '': '' @ err)
                              (Diagnostics resp)\<rparr>), w2)
                       | (Inr updatedGrant, w2) \<Rightarrow>
                           (Returned (State_Set (plan\<lparr>fpo_ID := StringPointerValue (cm_Id updatedGrant)\<rparr>) resp),
                            w2)))))"

definition folderPermissionOverride_Read ::
  "'r LookerSDK option \<Rightarrow> folderPermissionOverrideResourceModel \<Rightarrow>
   folderPermissionOverrideResourceModel response \<Rightarrow> 'r world \<Rightarrow>
   folderPermissionOverrideResourceModel response outcome \<times> 'r world" where
  "folderPermissionOverride_Read r_sdk state resp w =
     (if HasError (Diagnostics resp) then (Returned resp, w)
      else case r_sdk of
        None \<Rightarrow> (Panicked, w)
      | Some sdk \<Rightarrow>
       (case folderPermissionOverride_findAccessGrant sdk
               (ValueString (fpo_FolderID state)) (ValueString (fpo_GroupID state)) w of
          (Inl err, w1) \<Rightarrow>
            (Returned (resp\<lparr>Diagnostics := AddError ''Read error'' err (Diagnostics resp)\<rparr>), w1)
        | (Inr None, w1) \<Rightarrow> (Returned (RemoveResource resp), w1)
        | (Inr (Some grant), w1) \<Rightarrow>
            (if cm_PermissionType grant = None
                \<or> the (cm_PermissionType grant) \<noteq> ValueString (fpo_AccessLevel state)
             then (Returned (RemoveResource resp), w1)
             else (Returned (State_Set (state\<lparr>fpo_ID := StringPointerValue (cm_Id grant)\<rparr>) resp), w1))))"

text \<open>
  \<open>Update\<close> calls \<open>Create\<close> on a fresh \<open>CreateResponse\<close> built from copies of its own
  state and diagnostics; what \<open>Create\<close> writes goes to that copy, and \<open>Update\<close>'s own
  response is left as it was.
\<close>

definition folderPermissionOverride_Update ::
  "'r LookerSDK option \<Rightarrow> folderPermissionOverrideResourceModel \<Rightarrow>
   folderPermissionOverrideResourceModel \<Rightarrow>
   folderPermissionOverrideResourceModel response \<Rightarrow> 'r world \<Rightarrow>
   folderPermissionOverrideResourceModel response outcome \<times> 'r world" where
  "folderPermissionOverride_Update r_sdk plan state resp w =
     (if HasError (Diagnostics resp) then (Returned resp, w)
      else case folderPermissionOverride_Create r_sdk plan
                  \<lparr>State = State resp, Diagnostics = Diagnostics resp\<rparr> w of
             (Panicked, w') \<Rightarrow> (Panicked, w')
           | (Returned _, w') \<Rightarrow> (Returned resp, w'))"

definition folderPermissionOverride_Delete ::
  "'r LookerSDK option \<Rightarrow> folderPermissionOverrideResourceModel \<Rightarrow>
   folderPermissionOverrideResourceModel response \<Rightarrow> 'r world \<Rightarrow>
   folderPermissionOverrideResourceModel response outcome \<times> 'r world" where
  "folderPermissionOverride_Delete r_sdk state resp w = (Returned resp, w)"


text \<open>
  The framework calls \<open>Create\<close> with an empty response, and \<open>Read\<close>, \<open>Update\<close> and
  \<open>Delete\<close> with a response that holds the tracked state. After a \<open>Delete\<close> that
  reported no error it drops the tracked state itself.
\<close>

definition emptyResponse :: "'s response" where
  "emptyResponse = \<lparr>State = None, Diagnostics = []\<rparr>"

definition trackedResponse :: "'s \<Rightarrow> 's response" where
  "trackedResponse st = \<lparr>State = Some st, Diagnostics = []\<rparr>"

definition afterDelete :: "'s response \<Rightarrow> 's response" where
  "afterDelete resp = (if HasError (Diagnostics resp) then resp else RemoveResource resp)"

text \<open>The calls a run has issued: what it appended to the trace.\<close>

definition issued :: "'r world \<Rightarrow> 'r world \<Rightarrow> event list" where
  "issued w w' = drop (length (trace w)) (trace w')"

fun creates_grant :: "call \<Rightarrow> bool" where
  "creates_grant (CreateContentMetadataAccessCall _ _) = True"
| "creates_grant _ = False"

section \<open>Folder access\<close>

record folderAccessResourceModel =
  fa_ID :: tfstring
  fa_FolderID :: tfstring
  fa_GroupID :: tfstring
  fa_AccessLevel :: tfstring

definition folderAccess_Create ::
  "'r LookerSDK option \<Rightarrow> folderAccessResourceModel \<Rightarrow>
   folderAccessResourceModel response \<Rightarrow> 'r world \<Rightarrow>
   folderAccessResourceModel response outcome \<times> 'r world" where
  "folderAccess_Create r_sdk plan resp w =
     (if HasError (Diagnostics resp) then (Returned resp, w)
      else case r_sdk of
        None \<Rightarrow> (Panicked, w)
      | Some sdk \<Rightarrow>
       (let accessLevelString = ValueString (fa_AccessLevel plan);
            permissionType = accessLevelString;
            body = emptyContentMetaGroupUser
                     \<lparr>cm_ContentMetadataId := ValueStringPointer (fa_FolderID plan),
                      cm_PermissionType := Some permissionType,
                      cm_GroupId := ValueStringPointer (fa_GroupID plan)\<rparr>
        in case invoke (CreateContentMetadataAccessCall body False)
                  (CreateContentMetadataAccess sdk body False) w of
             (Inl err, w1) \<Rightarrow>
               (Returned (resp\<lparr>Diagnostics := AddError ''API error''
                  (''Failed to create folder access grant: '' @ err) (Diagnostics resp)\<rparr>), w1)
           | (Inr accessGrant, w1) \<Rightarrow>
               (Returned (State_Set (plan\<lparr>fa_ID := StringPointerValue (cm_Id accessGrant)\<rparr>) resp), w1)))"

definition folderAccess_findAccessGrant ::
  "'r LookerSDK \<Rightarrow> string \<Rightarrow> string \<Rightarrow> 'r world \<Rightarrow> ContentMetaGroupUser option result \<times> 'r world" where
  "folderAccess_findAccessGrant sdk folderID groupID w =
     (case invoke (AllContentMetadataAccessesCall folderID [])
             (AllContentMetadataAccesses sdk folderID []) w of
        (Inl err, w') \<Rightarrow>
          (Inl (''API error searching for access grants on folder '' @ folderID @ '': '' @ err), w')
      | (Inr results, w') \<Rightarrow> (Inr (scanAccessGrants groupID results), w'))"

definition folderAccess_Read ::
  "'r LookerSDK option \<Rightarrow> folderAccessResourceModel \<Rightarrow>
   folderAccessResourceModel response \<Rightarrow> 'r world \<Rightarrow>
   folderAccessResourceModel response outcome \<times> 'r world" where
  "folderAccess_Read r_sdk state resp w =
     (if HasError (Diagnostics resp) then (Returned resp, w)
      else case r_sdk of
        None \<Rightarrow> (Panicked, w)
      | Some sdk \<Rightarrow>
       (case folderAccess_findAccessGrant sdk
               (ValueString (fa_FolderID state)) (ValueString (fa_GroupID state)) w of
          (Inl err, w1) \<Rightarrow>
            (Returned (resp\<lparr>Diagnostics := AddError ''Read error'' err (Diagnostics resp)\<rparr>), w1)
        | (Inr None, w1) \<Rightarrow> (Returned (RemoveResource resp), w1)
        | (Inr (Some grant), w1) \<Rightarrow>
            (Returned (State_Set
               (state\<lparr>fa_ID := StringPointerValue (cm_Id grant),
                      fa_AccessLevel := (if cm_PermissionType grant \<noteq> None
                                         then StringValue (the (cm_PermissionType grant))
                                         else None)\<rparr>) resp), w1)))"

definition folderAccess_Update ::
  "'r LookerSDK option \<Rightarrow> folderAccessResourceModel \<Rightarrow> folderAccessResourceModel \<Rightarrow>
   folderAccessResourceModel response \<Rightarrow> 'r world \<Rightarrow>
   folderAccessResourceModel response outcome \<times> 'r world" where
  "folderAccess_Update r_sdk plan state resp w =
     (if HasError (Diagnostics resp) then (Returned resp, w)
      else case r_sdk of
        None \<Rightarrow> (Panicked, w)
      | Some sdk \<Rightarrow>
       (let accessLevelString = ValueString (fa_AccessLevel plan);
            permissionType = accessLevelString;
            body = emptyContentMetaGroupUser\<lparr>cm_PermissionType := Some permissionType\<rparr>
        in case invoke (UpdateContentMetadataAccessCall (ValueString (fa_ID state)) body)
                  (UpdateContentMetadataAccess sdk (ValueString (fa_ID state)) body) w of
             (Inl err, w1) \<Rightarrow>
               (Returned (resp\<lparr>Diagnostics := AddError ''API error''
                  (''Failed to update folder access grant '' @ ValueString (fa_ID state) @ '': '' @ err)
                  (Diagnostics resp)\<rparr>), w1)
           | (Inr _, w1) \<Rightarrow> (Returned (State_Set plan resp), w1)))"

definition folderAccess_Delete ::
  "'r LookerSDK option \<Rightarrow> folderAccessResourceModel \<Rightarrow>
   folderAccessResourceModel response \<Rightarrow> 'r world \<Rightarrow>
   folderAccessResourceModel response outcome \<times> 'r world" where
  "folderAccess_Delete r_sdk state resp w =
     (if HasError (Diagnostics resp) then (Returned resp, w)
      else case r_sdk of
        None \<Rightarrow> (Panicked, w)
      | Some sdk \<Rightarrow>
       (case invoke (DeleteContentMetadataAccessCall (ValueString (fa_ID state)))
               (DeleteContentMetadataAccess sdk (ValueString (fa_ID state))) w of
          (Inl err, w1) \<Rightarrow>
            (Returned (resp\<lparr>Diagnostics := AddError ''API error''
               (''Failed to delete folder access grant '' @ ValueString (fa_ID state) @ '': '' @ err)
               (Diagnostics resp)\<rparr>), w1)
        | (Inr _, w1) \<Rightarrow> (Returned resp, w1)))"


section \<open>Groups\<close>

record groupResourceModel =
  g_ID :: tfstring
  g_Name :: tfstring
  g_UserIDs :: tfset
  g_UserEmails :: tfset

text \<open>
  The loop of \<open>resolveUserEmailsToIDs\<close>: one search per email, in order, stopping at
  the first email whose search fails or does not give exactly one user.
\<close>

fun resolveUserEmailsToIDs_loop ::
  "'r LookerSDK \<Rightarrow> string list \<Rightarrow> string list \<Rightarrow> 'r world \<Rightarrow>
   string list result outcome \<times> 'r world" where
  "resolveUserEmailsToIDs_loop sdk [] resolvedIDs w = (Returned (Inr resolvedIDs), w)"
| "resolveUserEmailsToIDs_loop sdk (email # rest) resolvedIDs w =
     (case invoke (SearchUsersCall (Some email)) (SearchUsers sdk (Some email)) w of
        (Inl err, w') \<Rightarrow>
          (Returned (Inl (''API error searching for user with email '' @ email @ '': '' @ err)), w')
      | (Inr results, w') \<Rightarrow>
          (if length results = 0
           then (Returned (Inl (''no user found with email '' @ email)), w')
           else if length results > 1
           then (Returned (Inl (''multiple users found with email '' @ email)), w')
           else case user_Id (results ! 0) of
                  None \<Rightarrow> (Panicked, w')
                | Some userId \<Rightarrow> resolveUserEmailsToIDs_loop sdk rest (resolvedIDs @ [userId]) w'))"

definition resolveUserEmailsToIDs ::
  "'r LookerSDK \<Rightarrow> string list \<Rightarrow> 'r world \<Rightarrow> string list result outcome \<times> 'r world" where
  "resolveUserEmailsToIDs sdk emails w = resolveUserEmailsToIDs_loop sdk emails [] w"

text \<open>
  What the remote answers when it is asked for each email of a list in turn, starting from a
  given state of the remote, and the state it is in afterwards. An answer resolves to an
  identifier when it lists exactly one user and that user carries an identifier.
\<close>

fun searchAnswers :: "'r LookerSDK \<Rightarrow> string list \<Rightarrow> 'r \<Rightarrow> User list result list" where
  "searchAnswers sdk [] r = []"
| "searchAnswers sdk (email # rest) r =
     fst (SearchUsers sdk (Some email) r) # searchAnswers sdk rest (snd (SearchUsers sdk (Some email) r))"

fun afterSearches :: "'r LookerSDK \<Rightarrow> string list \<Rightarrow> 'r \<Rightarrow> 'r" where
  "afterSearches sdk [] r = r"
| "afterSearches sdk (email # rest) r = afterSearches sdk rest (snd (SearchUsers sdk (Some email) r))"

fun resolved :: "User list result \<Rightarrow> string option" where
  "resolved (Inr [u]) = user_Id u"
| "resolved _ = None"

text \<open>The loop of \<open>Create\<close> that adds every user, stopping at the first failure.\<close>

fun addGroupUsers_loop ::
  "'r LookerSDK \<Rightarrow> string \<Rightarrow> string list \<Rightarrow> 'r world \<Rightarrow> (string \<times> string) option \<times> 'r world" where
  "addGroupUsers_loop sdk groupID [] w = (None, w)"
| "addGroupUsers_loop sdk groupID (userID # rest) w =
     (case invoke (AddGroupUserCall groupID (Some userID)) (AddGroupUser sdk groupID (Some userID)) w of
        (Inl err, w') \<Rightarrow> (Some (userID, err), w')
      | (Inr _, w') \<Rightarrow> addGroupUsers_loop sdk groupID rest w')"

definition group_Create ::
  "'r LookerSDK option \<Rightarrow> groupResourceModel \<Rightarrow> groupResourceModel response \<Rightarrow> 'r world \<Rightarrow>
   groupResourceModel response outcome \<times> 'r world" where
  "group_Create r_sdk plan0 resp w =
     (case r_sdk of
        None \<Rightarrow>
          (Returned (resp\<lparr>Diagnostics := AddError ''Unconfigured client''
             ''Provider did not set Looker SDK client'' (Diagnostics resp)\<rparr>), w)
      | Some sdk \<Rightarrow>
        if HasError (Diagnostics resp) then (Returned resp, w)
        else case invoke (CreateGroupCall (ValueStringPointer (g_Name plan0)))
                    (CreateGroup sdk (ValueStringPointer (g_Name plan0))) w of
          (Inl err, w1) \<Rightarrow>
            (Returned (resp\<lparr>Diagnostics := AddError ''API error''
               (''Failed to create group: '' @ err) (Diagnostics resp)\<rparr>), w1)
        | (Inr grp, w1) \<Rightarrow>
            (let plan = plan0\<lparr>g_ID := StringPointerValue (group_Id grp)\<rparr> in
             case group_Id grp of
               None \<Rightarrow> (Panicked, w1)
             | Some groupID \<Rightarrow>
                (let finalUserIDs1 = (if \<not> IsNull (g_UserIDs plan) then ElementsAs (g_UserIDs plan) else [])
                 in case (if \<not> IsNull (g_UserEmails plan)
                          then resolveUserEmailsToIDs sdk (ElementsAs (g_UserEmails plan)) w1
                          else (Returned (Inr []), w1)) of
                      (Panicked, w2) \<Rightarrow> (Panicked, w2)
                    | (Returned (Inl err), w2) \<Rightarrow>
                        (Returned (resp\<lparr>Diagnostics := AddError ''User resolution failed'' err
                           (Diagnostics resp)\<rparr>), w2)
                    | (Returned (Inr resolvedIDs), w2) \<Rightarrow>
                        (case addGroupUsers_loop sdk groupID (finalUserIDs1 @ resolvedIDs) w2 of
                           (Some (userID, err), w3) \<Rightarrow>
                             (Returned (resp\<lparr>Diagnostics := AddError ''API error''
                                (''Failed to add user '' @ userID @ '' to group '' @ groupID @ '': '' @ err)
                                (Diagnostics resp)\<rparr>), w3)
                         | (None, w3) \<Rightarrow> (Returned (State_Set plan resp), w3)))))"

text \<open>The loop of \<open>Read\<close> that collects \<open>*user.Id\<close> of every member.\<close>

fun collectUserIds :: "User list \<Rightarrow> string list \<Rightarrow> string list outcome" where
  "collectUserIds [] userIDs = Returned userIDs"
| "collectUserIds (user # rest) userIDs =
     (case user_Id user of
        None \<Rightarrow> Panicked
      | Some userId \<Rightarrow> collectUserIds rest (userIDs @ [userId]))"

definition group_Read ::
  "'r LookerSDK option \<Rightarrow> groupResourceModel \<Rightarrow> groupResourceModel response \<Rightarrow> 'r world \<Rightarrow>
   groupResourceModel response outcome \<times> 'r world" where
  "group_Read r_sdk state0 resp w =
     (case r_sdk of
        None \<Rightarrow>
          (Returned (resp\<lparr>Diagnostics := AddError ''Unconfigured client''
             ''Provider did not set Looker SDK client'' (Diagnostics resp)\<rparr>), w)
      | Some sdk \<Rightarrow>
        if HasError (Diagnostics resp) then (Returned resp, w)
        else
         (let groupID = ValueString (g_ID state0) in
          case invoke (GroupCall groupID ''id,name'') (GetGroup sdk groupID ''id,name'') w of
            (Inl err, w1) \<Rightarrow> (Returned (RemoveResource resp), w1)
          | (Inr grp, w1) \<Rightarrow>
              (let state1 = state0\<lparr>g_Name := StringPointerValue (group_Name grp)\<rparr> in
               case invoke (AllGroupUsersCall groupID) (AllGroupUsers sdk groupID) w1 of
                 (Inl err, w2) \<Rightarrow>
                   (Returned (resp\<lparr>Diagnostics := AddError ''API error''
                      (''Failed to get users for group '' @ groupID @ '': '' @ err)
                      (Diagnostics resp)\<rparr>), w2)
               | (Inr groupUsers, w2) \<Rightarrow>
                   (case collectUserIds groupUsers [] of
                      Panicked \<Rightarrow> (Panicked, w2)
                    | Returned userIDs \<Rightarrow>
                        (case SetValueFrom userIDs of
                           Inl diags \<Rightarrow>
                             (Returned (resp\<lparr>Diagnostics := Append (Diagnostics resp) diags\<rparr>), w2)
                         | Inr userIdsSet \<Rightarrow>
                             (Returned (State_Set
                                (state1\<lparr>g_UserIDs := userIdsSet, g_UserEmails := SetNull\<rparr>) resp),
                              w2))))))"

text \<open>
  A Go \<open>map[string]bool\<close>: the keys with their values. A missing key reads as
  \<open>false\<close>. \<open>range\<close> visits the keys in an order the runtime chooses: the order is a
  parameter, a rearrangement of the keys.
\<close>

type_synonym gomap = "(string \<times> bool) list"

definition map_store :: "string \<Rightarrow> bool \<Rightarrow> gomap \<Rightarrow> gomap" where
  "map_store k v m = AList.update k v m"

definition map_index :: "gomap \<Rightarrow> string \<Rightarrow> bool" where
  "map_index m k = (case map_of m k of None \<Rightarrow> False | Some b \<Rightarrow> b)"

definition map_range :: "(string list \<Rightarrow> string list) \<Rightarrow> gomap \<Rightarrow> string list" where
  "map_range order m = order (map fst m)"

definition make_users :: "string list \<Rightarrow> gomap" where
  "make_users ids = fold (\<lambda>id m. map_store id True m) ids []"

text \<open>The two loops of \<open>Update\<close>: add the planned users the state lacks, then remove the
  tracked users the plan lacks. Each stops at the first failure.\<close>

fun addMissing_loop ::
  "'r LookerSDK \<Rightarrow> string \<Rightarrow> gomap \<Rightarrow> string list \<Rightarrow> 'r world \<Rightarrow> (string \<times> string) option \<times> 'r world" where
  "addMissing_loop sdk groupID stateUsers [] w = (None, w)"
| "addMissing_loop sdk groupID stateUsers (userID # rest) w =
     (if \<not> map_index stateUsers userID
      then case invoke (AddGroupUserCall groupID (Some userID)) (AddGroupUser sdk groupID (Some userID)) w of
             (Inl err, w') \<Rightarrow> (Some (userID, err), w')
           | (Inr _, w') \<Rightarrow> addMissing_loop sdk groupID stateUsers rest w'
      else addMissing_loop sdk groupID stateUsers rest w)"

fun removeExtra_loop ::
  "'r LookerSDK \<Rightarrow> string \<Rightarrow> gomap \<Rightarrow> string list \<Rightarrow> 'r world \<Rightarrow> (string \<times> string) option \<times> 'r world" where
  "removeExtra_loop sdk groupID planUsers [] w = (None, w)"
| "removeExtra_loop sdk groupID planUsers (userID # rest) w =
     (if \<not> map_index planUsers userID
      then case invoke (DeleteGroupUserCall groupID userID) (DeleteGroupUser sdk groupID userID) w of
             (Inl err, w') \<Rightarrow> (Some (userID, err), w')
           | (Inr _, w') \<Rightarrow> removeExtra_loop sdk groupID planUsers rest w'
      else removeExtra_loop sdk groupID planUsers rest w)"

text \<open>
  The diffing part of \<open>Update\<close> (from \<open>planUsers := make(...)\<close> to the end of the second
  loop). The result names the loop that failed, the user and the error.
\<close>

datatype diff_failure = AddFailed string string | RemoveFailed string string

definition diffMembership ::
  "'r LookerSDK \<Rightarrow> (string list \<Rightarrow> string list) \<Rightarrow> (string list \<Rightarrow> string list) \<Rightarrow>
   string \<Rightarrow> string list \<Rightarrow> string list \<Rightarrow> 'r world \<Rightarrow> diff_failure option \<times> 'r world" where
  "diffMembership sdk planOrder stateOrder groupID planUserIDs stateUserIDs w =
     (let planUsers = make_users planUserIDs;
          stateUsers = make_users stateUserIDs
      in case addMissing_loop sdk groupID stateUsers (map_range planOrder planUsers) w of
           (Some (userID, err), w1) \<Rightarrow> (Some (AddFailed userID err), w1)
         | (None, w1) \<Rightarrow>
             (case removeExtra_loop sdk groupID planUsers (map_range stateOrder stateUsers) w1 of
                (Some (userID, err), w2) \<Rightarrow> (Some (RemoveFailed userID err), w2)
              | (None, w2) \<Rightarrow> (None, w2)))"

definition group_Update ::
  "'r LookerSDK option \<Rightarrow> (string list \<Rightarrow> string list) \<Rightarrow> (string list \<Rightarrow> string list) \<Rightarrow>
   groupResourceModel \<Rightarrow> groupResourceModel \<Rightarrow> groupResourceModel response \<Rightarrow> 'r world \<Rightarrow>
   groupResourceModel response outcome \<times> 'r world" where
  "group_Update r_sdk planOrder stateOrder plan state resp w =
     (case r_sdk of
        None \<Rightarrow>
          (Returned (resp\<lparr>Diagnostics := AddError ''Unconfigured client''
             ''Provider did not set Looker SDK client'' (Diagnostics resp)\<rparr>), w)
      | Some sdk \<Rightarrow>
        if HasError (Diagnostics resp) then (Returned resp, w)
        else
         (let groupID = ValueString (g_ID state) in
          case (if g_Name plan \<noteq> g_Name state
                then (case invoke (UpdateGroupCall groupID (ValueStringPointer (g_Name plan)))
                             (UpdateGroup sdk groupID (ValueStringPointer (g_Name plan))) w of
                        (Inl err, w1) \<Rightarrow> (Some err, w1)
                      | (Inr _, w1) \<Rightarrow> (None, w1))
                else (None, w)) of
            (Some err, w1) \<Rightarrow>
              (Returned (resp\<lparr>Diagnostics := AddError ''API error''
                 (''Failed to update group name for '' @ groupID @ '': '' @ err)
                 (Diagnostics resp)\<rparr>), w1)
          | (None, w1) \<Rightarrow>
              (let planUserIDs1 = (if \<not> IsNull (g_UserIDs plan) then ElementsAs (g_UserIDs plan) else [])
               in case (if \<not> IsNull (g_UserEmails plan)
                        then resolveUserEmailsToIDs sdk (ElementsAs (g_UserEmails plan)) w1
                        else (Returned (Inr []), w1)) of
                    (Panicked, w2) \<Rightarrow> (Panicked, w2)
                  | (Returned (Inl err), w2) \<Rightarrow>
                      (Returned (resp\<lparr>Diagnostics := AddError ''User resolution failed'' err
                         (Diagnostics resp)\<rparr>), w2)
                  | (Returned (Inr resolvedIDs), w2) \<Rightarrow>
                      (case diffMembership sdk planOrder stateOrder groupID
                              (planUserIDs1 @ resolvedIDs) (ElementsAs (g_UserIDs state)) w2 of
                         (Some (AddFailed userID err), w3) \<Rightarrow>
                           (Returned (resp\<lparr>Diagnostics := AddError ''API error''
                              (''Failed to add user '' @ userID @ '' to group '' @ groupID @ '': '' @ err)
                              (Diagnostics resp)\<rparr>), w3)
                       | (Some (RemoveFailed userID err), w3) \<Rightarrow>
                           (Returned (resp\<lparr>Diagnostics := AddError ''API error''
                              (''Failed to remove user '' @ userID @ '' from group '' @ groupID @ '': '' @ err)
                              (Diagnostics resp)\<rparr>), w3)
                       | (None, w3) \<Rightarrow> (Returned (State_Set plan resp), w3)))))"

definition group_Delete ::
  "'r LookerSDK option \<Rightarrow> groupResourceModel \<Rightarrow> groupResourceModel response \<Rightarrow> 'r world \<Rightarrow>
   groupResourceModel response outcome \<times> 'r world" where
  "group_Delete r_sdk state resp w =
     (case r_sdk of
        None \<Rightarrow>
          (Returned (resp\<lparr>Diagnostics := AddError ''Unconfigured client''
             ''Provider did not set Looker SDK client'' (Diagnostics resp)\<rparr>), w)
      | Some sdk \<Rightarrow>
        if HasError (Diagnostics resp) then (Returned resp, w)
        else
         (let groupID = ValueString (g_ID state) in
          case invoke (DeleteGroupCall groupID) (DeleteGroup sdk groupID) w of
            (Inl err, w1) \<Rightarrow>
              (Returned (resp\<lparr>Diagnostics := AddError ''API error''
                 (''Failed to delete group '' @ groupID @ '': '' @ err) (Diagnostics resp)\<rparr>), w1)
          | (Inr _, w1) \<Rightarrow> (Returned resp, w1)))"


section \<open>Folders\<close>

record folderResourceModel =
  f_ID :: tfstring
  f_Name :: tfstring
  f_ParentID :: tfstring
  f_ContentMetadataID :: tfstring
  f_InheritsPermissions :: tfbool

text \<open>
  The folder resource never tests \<open>r.sdk\<close> for nil: its first call through a nil client
  panics. \<open>Create\<close> dereferences \<open>folder.ContentMetadataId\<close> to build the argument of the
  metadata update and \<open>folder.Id\<close> to build the message of that update's error. It takes
  the branch of the metadata update for every plan whose \<open>inherits_permissions\<close> is not
  null and does not read as \<open>true\<close>: for \<open>false\<close>, and for unknown.
\<close>

definition folder_Create ::
  "'r LookerSDK option \<Rightarrow> folderResourceModel \<Rightarrow> folderResourceModel response \<Rightarrow> 'r world \<Rightarrow>
   folderResourceModel response outcome \<times> 'r world" where
  "folder_Create r_sdk plan resp w =
     (if HasError (Diagnostics resp) then (Returned resp, w)
      else case r_sdk of
        None \<Rightarrow> (Panicked, w)
      | Some sdk \<Rightarrow>
         (case invoke (CreateFolderCall (ValueString (f_Name plan)) (ValueString (f_ParentID plan)))
                 (CreateFolder sdk (ValueString (f_Name plan)) (ValueString (f_ParentID plan))) w of
            (Inl err, w1) \<Rightarrow>
              (Returned (resp\<lparr>Diagnostics := AddError ''API error on CreateFolder''
                 (''Failed to create folder: '' @ err) (Diagnostics resp)\<rparr>), w1)
          | (Inr folder, w1) \<Rightarrow>
              (let plan1 = plan\<lparr>f_ID := StringPointerValue (folder_Id folder),
                     f_ContentMetadataID := StringPointerValue (folder_ContentMetadataId folder)\<rparr> in
               if \<not> BoolIsNull (f_InheritsPermissions plan1)
                  \<and> \<not> ValueBool (f_InheritsPermissions plan1) then
                 (case folder_ContentMetadataId folder of
                    None \<Rightarrow> (Panicked, w1)
                  | Some contentMetadataId \<Rightarrow>
                     (case invoke (UpdateContentMetadataCall contentMetadataId
                                     (ValueBoolPointer (BoolValue False)))
                             (UpdateContentMetadata sdk contentMetadataId
                                     (ValueBoolPointer (BoolValue False))) w1 of
                        (Inl err, w2) \<Rightarrow>
                          (case folder_Id folder of
                             None \<Rightarrow> (Panicked, w2)
                           | Some folderId \<Rightarrow>
                               (Returned (resp\<lparr>Diagnostics :=
                                  AddError ''API error on UpdateContentMetadata''
                                    (''Failed to set inherits_permissions=false on folder '' @ folderId
                                       @ '': '' @ err) (Diagnostics resp)\<rparr>), w2))
                      | (Inr _, w2) \<Rightarrow>
                          (Returned (State_Set (plan1\<lparr>f_InheritsPermissions := BoolValue False\<rparr>) resp),
                           w2)))
               else (Returned (State_Set (plan1\<lparr>f_InheritsPermissions := BoolValue True\<rparr>) resp), w1))))"

definition folder_Read ::
  "'r LookerSDK option \<Rightarrow> folderResourceModel \<Rightarrow> folderResourceModel response \<Rightarrow> 'r world \<Rightarrow>
   folderResourceModel response outcome \<times> 'r world" where
  "folder_Read r_sdk state0 resp w =
     (if HasError (Diagnostics resp) then (Returned resp, w)
      else case r_sdk of
        None \<Rightarrow> (Panicked, w)
      | Some sdk \<Rightarrow>
         (case invoke (FolderCall (ValueString (f_ID state0)) ''id,name,parent_id,content_metadata_id'')
                 (GetFolder sdk (ValueString (f_ID state0)) ''id,name,parent_id,content_metadata_id'') w of
            (Inl err, w1) \<Rightarrow> (Returned (RemoveResource resp), w1)
          | (Inr folder, w1) \<Rightarrow>
              (case folder_ContentMetadataId folder of
                 None \<Rightarrow> (Panicked, w1)
               | Some contentMetadataId \<Rightarrow>
                  (case invoke (ContentMetadataCall contentMetadataId ''inherits'')
                          (ContentMetadata sdk contentMetadataId ''inherits'') w1 of
                     (Inl err, w2) \<Rightarrow>
                       (Returned (resp\<lparr>Diagnostics := AddError ''API error on ContentMetadata''
                          (''Failed to read content metadata for folder '' @ ValueString (f_ID state0)
                             @ '': '' @ err) (Diagnostics resp)\<rparr>), w2)
                   | (Inr contentMeta, w2) \<Rightarrow>
                       (Returned (State_Set
                          (state0\<lparr>f_Name := StringValue (folder_Name folder),
                                  f_ParentID := StringPointerValue (folder_ParentId folder),
                                  f_ContentMetadataID := StringPointerValue (folder_ContentMetadataId folder),
                                  f_InheritsPermissions := BoolPointerValue (meta_Inherits contentMeta)\<rparr>)
                          resp), w2)))))"

text \<open>
  \<open>Update\<close> in two steps: the folder itself when name or parent changed, then the
  metadata when the inheritance flag changed.
\<close>

definition folder_Update_inherits ::
  "'r LookerSDK option \<Rightarrow> folderResourceModel \<Rightarrow> folderResourceModel \<Rightarrow>
   folderResourceModel response \<Rightarrow> 'r world \<Rightarrow> folderResourceModel response outcome \<times> 'r world" where
  "folder_Update_inherits r_sdk plan state resp w =
     (if f_InheritsPermissions plan \<noteq> f_InheritsPermissions state then
        (case r_sdk of
           None \<Rightarrow> (Panicked, w)
         | Some sdk \<Rightarrow>
            (case invoke (UpdateContentMetadataCall (ValueString (f_ContentMetadataID plan))
                            (ValueBoolPointer (f_InheritsPermissions plan)))
                    (UpdateContentMetadata sdk (ValueString (f_ContentMetadataID plan))
                            (ValueBoolPointer (f_InheritsPermissions plan))) w of
               (Inl err, w1) \<Rightarrow>
                 (Returned (resp\<lparr>Diagnostics := AddError ''API error on UpdateContentMetadata''
                    (''Failed to update inherits_permissions on folder '' @ ValueString (f_ID plan)
                       @ '': '' @ err) (Diagnostics resp)\<rparr>), w1)
             | (Inr _, w1) \<Rightarrow> (Returned (State_Set plan resp), w1)))
      else (Returned (State_Set plan resp), w))"

definition folder_Update ::
  "'r LookerSDK option \<Rightarrow> folderResourceModel \<Rightarrow> folderResourceModel \<Rightarrow>
   folderResourceModel response \<Rightarrow> 'r world \<Rightarrow> folderResourceModel response outcome \<times> 'r world" where
  "folder_Update r_sdk plan state resp w =
     (if HasError (Diagnostics resp) then (Returned resp, w)
      else if f_Name plan \<noteq> f_Name state \<or> f_ParentID plan \<noteq> f_ParentID state then
        (case r_sdk of
           None \<Rightarrow> (Panicked, w)
         | Some sdk \<Rightarrow>
            (case invoke (UpdateFolderCall (ValueString (f_ID plan)) (ValueStringPointer (f_Name plan))
                            (ValueStringPointer (f_ParentID plan)))
                    (UpdateFolder sdk (ValueString (f_ID plan)) (ValueStringPointer (f_Name plan))
                            (ValueStringPointer (f_ParentID plan))) w of
               (Inl err, w1) \<Rightarrow>
                 (Returned (resp\<lparr>Diagnostics := AddError ''API error on UpdateFolder''
                    (''Failed to update folder '' @ ValueString (f_ID plan) @ '': '' @ err)
                    (Diagnostics resp)\<rparr>), w1)
             | (Inr _, w1) \<Rightarrow> folder_Update_inherits r_sdk plan state resp w1))
      else folder_Update_inherits r_sdk plan state resp w)"

definition folder_Delete ::
  "'r LookerSDK option \<Rightarrow> folderResourceModel \<Rightarrow> folderResourceModel response \<Rightarrow> 'r world \<Rightarrow>
   folderResourceModel response outcome \<times> 'r world" where
  "folder_Delete r_sdk state resp w =
     (if HasError (Diagnostics resp) then (Returned resp, w)
      else case r_sdk of
        None \<Rightarrow> (Panicked, w)
      | Some sdk \<Rightarrow>
         (case invoke (DeleteFolderCall (ValueString (f_ID state)))
                 (DeleteFolder sdk (ValueString (f_ID state))) w of
            (Inl err, w1) \<Rightarrow>
              (Returned (resp\<lparr>Diagnostics := AddError ''API error on DeleteFolder''
                 (''Failed to delete folder '' @ ValueString (f_ID state) @ '': '' @ err)
                 (Diagnostics resp)\<rparr>), w1)
          | (Inr _, w1) \<Rightarrow> (Returned resp, w1)))"


section \<open>Permission sets and model sets\<close>

text \<open>
  Both resources test \<open>r.sdk\<close> for nil first. \<open>Read\<close> takes the slice behind the
  pointer of the answer when the pointer is not nil, and the nil slice otherwise, and hands it
  to \<open>SetValueFrom\<close>. The slice behind a pointer is one the decoder allocated, so it is
  not nil even when it is empty, and an empty slice that is not nil gives the empty set:
  \<open>SetValueFromPointer\<close> is the two steps together.
\<close>

record permissionSetResourceModel =
  p_ID :: tfstring
  p_Name :: tfstring
  p_Permissions :: tfset
  p_BuiltIn :: tfbool
  p_AllAccess :: tfbool
  p_URL :: tfstring

definition SetValueFromPointer :: "string list option \<Rightarrow> diagnostic list + tfset" where
  "SetValueFromPointer p =
     (case p of
        None \<Rightarrow> SetValueFrom []
      | Some xs \<Rightarrow> if xs = [] then Inr (SetValue []) else SetValueFrom xs)"

definition unconfigured :: "'s response \<Rightarrow> 's response" where
  "unconfigured resp = resp\<lparr>Diagnostics := AddError ''Unconfigured client''
     ''Provider did not set Looker SDK client'' (Diagnostics resp)\<rparr>"

definition permissionSet_Create ::
  "'r LookerSDK option \<Rightarrow> permissionSetResourceModel \<Rightarrow> permissionSetResourceModel response \<Rightarrow>
   'r world \<Rightarrow> permissionSetResourceModel response outcome \<times> 'r world" where
  "permissionSet_Create r_sdk plan resp w =
     (case r_sdk of
        None \<Rightarrow> (Returned (unconfigured resp), w)
      | Some sdk \<Rightarrow>
        if HasError (Diagnostics resp) then (Returned resp, w)
        else
         (let permissions = ElementsAs (p_Permissions plan) in
          case invoke (CreatePermissionSetCall (ValueStringPointer (p_Name plan)) permissions)
                 (CreatePermissionSet sdk (ValueStringPointer (p_Name plan)) permissions) w of
            (Inl err, w1) \<Rightarrow>
              (Returned (resp\<lparr>Diagnostics := AddError ''API error''
                 (''Failed to create permission set: '' @ err) (Diagnostics resp)\<rparr>), w1)
          | (Inr ps, w1) \<Rightarrow>
              (Returned (State_Set
                 (plan\<lparr>p_ID := StringPointerValue (ps_Id ps),
                       p_BuiltIn := BoolPointerValue (ps_BuiltIn ps),
                       p_AllAccess := BoolPointerValue (ps_AllAccess ps),
                       p_URL := StringPointerValue (ps_Url ps)\<rparr>) resp), w1)))"

definition permissionSet_Read ::
  "'r LookerSDK option \<Rightarrow> permissionSetResourceModel \<Rightarrow> permissionSetResourceModel response \<Rightarrow>
   'r world \<Rightarrow> permissionSetResourceModel response outcome \<times> 'r world" where
  "permissionSet_Read r_sdk state0 resp w =
     (case r_sdk of
        None \<Rightarrow> (Returned (unconfigured resp), w)
      | Some sdk \<Rightarrow>
        if HasError (Diagnostics resp) then (Returned resp, w)
        else
         (case invoke (PermissionSetCall (ValueString (p_ID state0)) [])
                 (GetPermissionSet sdk (ValueString (p_ID state0)) []) w of
            (Inl err, w1) \<Rightarrow> (Returned (RemoveResource resp), w1)
          | (Inr ps, w1) \<Rightarrow>
              (let state1 = state0\<lparr>p_Name := StringPointerValue (ps_Name ps),
                                  p_BuiltIn := BoolPointerValue (ps_BuiltIn ps),
                                  p_AllAccess := BoolPointerValue (ps_AllAccess ps),
                                  p_URL := StringPointerValue (ps_Url ps)\<rparr> in
               case SetValueFromPointer (ps_Permissions ps) of
                 Inl diags \<Rightarrow>
                   (Returned (resp\<lparr>Diagnostics := Append (Diagnostics resp) diags\<rparr>), w1)
               | Inr permsSet \<Rightarrow>
                   (Returned (State_Set (state1\<lparr>p_Permissions := permsSet\<rparr>) resp), w1))))"

definition permissionSet_Update ::
  "'r LookerSDK option \<Rightarrow> permissionSetResourceModel \<Rightarrow> permissionSetResourceModel \<Rightarrow>
   permissionSetResourceModel response \<Rightarrow> 'r world \<Rightarrow>
   permissionSetResourceModel response outcome \<times> 'r world" where
  "permissionSet_Update r_sdk plan state resp w =
     (case r_sdk of
        None \<Rightarrow> (Returned (unconfigured resp), w)
      | Some sdk \<Rightarrow>
        if HasError (Diagnostics resp) then (Returned resp, w)
        else
         (let permissions = ElementsAs (p_Permissions plan) in
          case invoke (UpdatePermissionSetCall (ValueString (p_ID state))
                         (ValueStringPointer (p_Name plan)) permissions)
                 (UpdatePermissionSet sdk (ValueString (p_ID state))
                         (ValueStringPointer (p_Name plan)) permissions) w of
            (Inl err, w1) \<Rightarrow>
              (Returned (resp\<lparr>Diagnostics := AddError ''API error''
                 (''Failed to update permission set: '' @ err) (Diagnostics resp)\<rparr>), w1)
          | (Inr ps, w1) \<Rightarrow>
              (Returned (State_Set
                 (plan\<lparr>p_ID := StringPointerValue (ps_Id ps),
                       p_BuiltIn := BoolPointerValue (ps_BuiltIn ps),
                       p_AllAccess := BoolPointerValue (ps_AllAccess ps),
                       p_URL := StringPointerValue (ps_Url ps)\<rparr>) resp), w1)))"

definition permissionSet_Delete ::
  "'r LookerSDK option \<Rightarrow> permissionSetResourceModel \<Rightarrow> permissionSetResourceModel response \<Rightarrow>
   'r world \<Rightarrow> permissionSetResourceModel response outcome \<times> 'r world" where
  "permissionSet_Delete r_sdk state resp w =
     (case r_sdk of
        None \<Rightarrow> (Returned (unconfigured resp), w)
      | Some sdk \<Rightarrow>
        if HasError (Diagnostics resp) then (Returned resp, w)
        else
         (case invoke (DeletePermissionSetCall (ValueString (p_ID state)))
                 (DeletePermissionSet sdk (ValueString (p_ID state))) w of
            (Inl err, w1) \<Rightarrow>
              (Returned (resp\<lparr>Diagnostics := AddError ''API error''
                 (''Failed to delete permission set: '' @ err) (Diagnostics resp)\<rparr>), w1)
          | (Inr _, w1) \<Rightarrow> (Returned resp, w1)))"

record modelSetResourceModel =
  m_ID :: tfstring
  m_Name :: tfstring
  m_Models :: tfset
  m_BuiltIn :: tfbool
  m_AllAccess :: tfbool
  m_URL :: tfstring

definition modelSet_Create ::
  "'r LookerSDK option \<Rightarrow> modelSetResourceModel \<Rightarrow> modelSetResourceModel response \<Rightarrow>
   'r world \<Rightarrow> modelSetResourceModel response outcome \<times> 'r world" where
  "modelSet_Create r_sdk plan resp w =
     (case r_sdk of
        None \<Rightarrow> (Returned (unconfigured resp), w)
      | Some sdk \<Rightarrow>
        if HasError (Diagnostics resp) then (Returned resp, w)
        else
         (let models = ElementsAs (m_Models plan) in
          case invoke (CreateModelSetCall (ValueStringPointer (m_Name plan)) models)
                 (CreateModelSet sdk (ValueStringPointer (m_Name plan)) models) w of
            (Inl err, w1) \<Rightarrow>
              (Returned (resp\<lparr>Diagnostics := AddError ''API error''
                 (''Failed to create model set: '' @ err) (Diagnostics resp)\<rparr>), w1)
          | (Inr ms, w1) \<Rightarrow>
              (Returned (State_Set
                 (plan\<lparr>m_ID := StringPointerValue (ms_Id ms),
                       m_BuiltIn := BoolPointerValue (ms_BuiltIn ms),
                       m_AllAccess := BoolPointerValue (ms_AllAccess ms),
                       m_URL := StringPointerValue (ms_Url ms)\<rparr>) resp), w1)))"

definition modelSet_Read ::
  "'r LookerSDK option \<Rightarrow> modelSetResourceModel \<Rightarrow> modelSetResourceModel response \<Rightarrow>
   'r world \<Rightarrow> modelSetResourceModel response outcome \<times> 'r world" where
  "modelSet_Read r_sdk state0 resp w =
     (case r_sdk of
        None \<Rightarrow> (Returned (unconfigured resp), w)
      | Some sdk \<Rightarrow>
        if HasError (Diagnostics resp) then (Returned resp, w)
        else
         (case invoke (ModelSetCall (ValueString (m_ID state0)) [])
                 (GetModelSet sdk (ValueString (m_ID state0)) []) w of
            (Inl err, w1) \<Rightarrow> (Returned (RemoveResource resp), w1)
          | (Inr ms, w1) \<Rightarrow>
              (let state1 = state0\<lparr>m_Name := StringPointerValue (ms_Name ms),
                                  m_BuiltIn := BoolPointerValue (ms_BuiltIn ms),
                                  m_AllAccess := BoolPointerValue (ms_AllAccess ms),
                                  m_URL := StringPointerValue (ms_Url ms)\<rparr> in
               case SetValueFromPointer (ms_Models ms) of
                 Inl diags \<Rightarrow>
                   (Returned (resp\<lparr>Diagnostics := Append (Diagnostics resp) diags\<rparr>), w1)
               | Inr modelsSet \<Rightarrow>
                   (Returned (State_Set (state1\<lparr>m_Models := modelsSet\<rparr>) resp), w1))))"

definition modelSet_Update ::
  "'r LookerSDK option \<Rightarrow> modelSetResourceModel \<Rightarrow> modelSetResourceModel \<Rightarrow>
   modelSetResourceModel response \<Rightarrow> 'r world \<Rightarrow>
   modelSetResourceModel response outcome \<times> 'r world" where
  "modelSet_Update r_sdk plan state resp w =
     (case r_sdk of
        None \<Rightarrow> (Returned (unconfigured resp), w)
      | Some sdk \<Rightarrow>
        if HasError (Diagnostics resp) then (Returned resp, w)
        else
         (let models = ElementsAs (m_Models plan) in
          case invoke (UpdateModelSetCall (ValueString (m_ID state))
                         (ValueStringPointer (m_Name plan)) models)
                 (UpdateModelSet sdk (ValueString (m_ID state))
                         (ValueStringPointer (m_Name plan)) models) w of
            (Inl err, w1) \<Rightarrow>
              (Returned (resp\<lparr>Diagnostics := AddError ''API error''
                 (''Failed to update model set: '' @ err) (Diagnostics resp)\<rparr>), w1)
          | (Inr ms, w1) \<Rightarrow>
              (Returned (State_Set
                 (plan\<lparr>m_ID := StringPointerValue (ms_Id ms),
                       m_BuiltIn := BoolPointerValue (ms_BuiltIn ms),
                       m_AllAccess := BoolPointerValue (ms_AllAccess ms),
                       m_URL := StringPointerValue (ms_Url ms)\<rparr>) resp), w1)))"

definition modelSet_Delete ::
  "'r LookerSDK option \<Rightarrow> modelSetResourceModel \<Rightarrow> modelSetResourceModel response \<Rightarrow>
   'r world \<Rightarrow> modelSetResourceModel response outcome \<times> 'r world" where
  "modelSet_Delete r_sdk state resp w =
     (case r_sdk of
        None \<Rightarrow> (Returned (unconfigured resp), w)
      | Some sdk \<Rightarrow>
        if HasError (Diagnostics resp) then (Returned resp, w)
        else
         (case invoke (DeleteModelSetCall (ValueString (m_ID state)))
                 (DeleteModelSet sdk (ValueString (m_ID state))) w of
            (Inl err, w1) \<Rightarrow>
              (Returned (resp\<lparr>Diagnostics := AddError ''API error''
                 (''Failed to delete model set: '' @ err) (Diagnostics resp)\<rparr>), w1)
          | (Inr _, w1) \<Rightarrow> (Returned resp, w1)))"


section \<open>Roles and the groups of a role\<close>

record roleResourceModel =
  r_ID :: tfstring
  r_Name :: tfstring
  r_PermissionSetID :: tfstring
  r_ModelSetID :: tfstring
  r_URL :: tfstring

definition role_Create ::
  "'r LookerSDK option \<Rightarrow> roleResourceModel \<Rightarrow> roleResourceModel response \<Rightarrow>
   'r world \<Rightarrow> roleResourceModel response outcome \<times> 'r world" where
  "role_Create r_sdk plan resp w =
     (case r_sdk of
        None \<Rightarrow> (Returned (unconfigured resp), w)
      | Some sdk \<Rightarrow>
        if HasError (Diagnostics resp) then (Returned resp, w)
        else
         (case invoke (CreateRoleCall (ValueStringPointer (r_Name plan))
                         (ValueStringPointer (r_PermissionSetID plan))
                         (ValueStringPointer (r_ModelSetID plan)))
                 (CreateRole sdk (ValueStringPointer (r_Name plan))
                         (ValueStringPointer (r_PermissionSetID plan))
                         (ValueStringPointer (r_ModelSetID plan))) w of
            (Inl err, w1) \<Rightarrow>
              (Returned (resp\<lparr>Diagnostics := AddError ''API error''
                 (''Failed to create role: '' @ err) (Diagnostics resp)\<rparr>), w1)
          | (Inr role, w1) \<Rightarrow>
              (Returned (State_Set
                 (plan\<lparr>r_ID := StringPointerValue (role_Id role),
                       r_URL := StringPointerValue (role_Url role)\<rparr>) resp), w1)))"

definition role_Read ::
  "'r LookerSDK option \<Rightarrow> roleResourceModel \<Rightarrow> roleResourceModel response \<Rightarrow>
   'r world \<Rightarrow> roleResourceModel response outcome \<times> 'r world" where
  "role_Read r_sdk state0 resp w =
     (case r_sdk of
        None \<Rightarrow> (Returned (unconfigured resp), w)
      | Some sdk \<Rightarrow>
        if HasError (Diagnostics resp) then (Returned resp, w)
        else
         (case invoke (RoleCall (ValueString (r_ID state0))) (GetRole sdk (ValueString (r_ID state0))) w of
            (Inl err, w1) \<Rightarrow> (Returned (RemoveResource resp), w1)
          | (Inr role, w1) \<Rightarrow>
              (let state1 = state0\<lparr>r_Name := StringPointerValue (role_Name role),
                                  r_URL := StringPointerValue (role_Url role)\<rparr>;
                   state2 = (case role_PermissionSet role of
                               None \<Rightarrow> state1
                             | Some permissionSet \<Rightarrow>
                                 state1\<lparr>r_PermissionSetID := StringPointerValue (ps_Id permissionSet)\<rparr>);
                   state3 = (case role_ModelSet role of
                               None \<Rightarrow> state2
                             | Some modelSet \<Rightarrow>
                                 state2\<lparr>r_ModelSetID := StringPointerValue (ms_Id modelSet)\<rparr>)
               in (Returned (State_Set state3 resp), w1))))"

definition role_Update ::
  "'r LookerSDK option \<Rightarrow> roleResourceModel \<Rightarrow> roleResourceModel \<Rightarrow> roleResourceModel response \<Rightarrow>
   'r world \<Rightarrow> roleResourceModel response outcome \<times> 'r world" where
  "role_Update r_sdk plan state resp w =
     (case r_sdk of
        None \<Rightarrow> (Returned (unconfigured resp), w)
      | Some sdk \<Rightarrow>
        if HasError (Diagnostics resp) then (Returned resp, w)
        else
         (case invoke (UpdateRoleCall (ValueString (r_ID state)) (ValueStringPointer (r_Name plan))
                         (ValueStringPointer (r_PermissionSetID plan))
                         (ValueStringPointer (r_ModelSetID plan)))
                 (UpdateRole sdk (ValueString (r_ID state)) (ValueStringPointer (r_Name plan))
                         (ValueStringPointer (r_PermissionSetID plan))
                         (ValueStringPointer (r_ModelSetID plan))) w of
            (Inl err, w1) \<Rightarrow>
              (Returned (resp\<lparr>Diagnostics := AddError ''API error''
                 (''Failed to update role: '' @ err) (Diagnostics resp)\<rparr>), w1)
          | (Inr role, w1) \<Rightarrow>
              (Returned (State_Set
                 (plan\<lparr>r_ID := StringPointerValue (role_Id role),
                       r_URL := StringPointerValue (role_Url role)\<rparr>) resp), w1)))"

definition role_Delete ::
  "'r LookerSDK option \<Rightarrow> roleResourceModel \<Rightarrow> roleResourceModel response \<Rightarrow>
   'r world \<Rightarrow> roleResourceModel response outcome \<times> 'r world" where
  "role_Delete r_sdk state resp w =
     (case r_sdk of
        None \<Rightarrow> (Returned (unconfigured resp), w)
      | Some sdk \<Rightarrow>
        if HasError (Diagnostics resp) then (Returned resp, w)
        else
         (case invoke (DeleteRoleCall (ValueString (r_ID state)))
                 (DeleteRole sdk (ValueString (r_ID state))) w of
            (Inl err, w1) \<Rightarrow>
              (Returned (resp\<lparr>Diagnostics := AddError ''API error''
                 (''Failed to delete role: '' @ err) (Diagnostics resp)\<rparr>), w1)
          | (Inr _, w1) \<Rightarrow> (Returned resp, w1)))"

record roleGroupsResourceModel =
  rg_ID :: tfstring
  rg_RoleID :: tfstring
  rg_GroupIDs :: tfset

text \<open>
  \<open>setRoleGroups\<close> returns the error of the one call it makes, nil (\<open>None\<close>) when
  the call went through. Reading a set of strings into a \<open>[]string\<close> cannot fail here.
\<close>

definition setRoleGroups ::
  "'r LookerSDK \<Rightarrow> roleGroupsResourceModel \<Rightarrow> 'r world \<Rightarrow> string option \<times> 'r world" where
  "setRoleGroups sdk plan w =
     (let groupIDs = ElementsAs (rg_GroupIDs plan) in
      case invoke (SetRoleGroupsCall (ValueString (rg_RoleID plan)) groupIDs)
             (SetRoleGroups sdk (ValueString (rg_RoleID plan)) groupIDs) w of
        (Inl err, w1) \<Rightarrow> (Some err, w1)
      | (Inr _, w1) \<Rightarrow> (None, w1))"

definition roleGroups_Create ::
  "'r LookerSDK option \<Rightarrow> roleGroupsResourceModel \<Rightarrow> roleGroupsResourceModel response \<Rightarrow>
   'r world \<Rightarrow> roleGroupsResourceModel response outcome \<times> 'r world" where
  "roleGroups_Create r_sdk plan resp w =
     (case r_sdk of
        None \<Rightarrow> (Returned (unconfigured resp), w)
      | Some sdk \<Rightarrow>
        if HasError (Diagnostics resp) then (Returned resp, w)
        else
         (case setRoleGroups sdk plan w of
            (Some err, w1) \<Rightarrow>
              (Returned (resp\<lparr>Diagnostics := AddError ''API error''
                 (''Failed to set groups for role '' @ ValueString (rg_RoleID plan) @ '': '' @ err)
                 (Diagnostics resp)\<rparr>), w1)
          | (None, w1) \<Rightarrow> (Returned (State_Set (plan\<lparr>rg_ID := rg_RoleID plan\<rparr>) resp), w1)))"

text \<open>The loop of \<open>Read\<close> that collects \<open>*group.Id\<close> of every group of the role.\<close>

fun collectGroupIds :: "Group list \<Rightarrow> string list \<Rightarrow> string list outcome" where
  "collectGroupIds [] groupIDs = Returned groupIDs"
| "collectGroupIds (grp # rest) groupIDs =
     (case group_Id grp of
        None \<Rightarrow> Panicked
      | Some groupId \<Rightarrow> collectGroupIds rest (groupIDs @ [groupId]))"

definition roleGroups_Read ::
  "'r LookerSDK option \<Rightarrow> roleGroupsResourceModel \<Rightarrow> roleGroupsResourceModel response \<Rightarrow>
   'r world \<Rightarrow> roleGroupsResourceModel response outcome \<times> 'r world" where
  "roleGroups_Read r_sdk state0 resp w =
     (case r_sdk of
        None \<Rightarrow> (Returned (unconfigured resp), w)
      | Some sdk \<Rightarrow>
        if HasError (Diagnostics resp) then (Returned resp, w)
        else
         (let roleID = ValueString (rg_RoleID state0) in
          case invoke (RoleGroupsCall roleID ''id'') (RoleGroups sdk roleID ''id'') w of
            (Inl err, w1) \<Rightarrow>
              (Returned (resp\<lparr>Diagnostics := AddError ''API error''
                 (''Failed to read groups for role '' @ roleID @ '': '' @ err) (Diagnostics resp)\<rparr>), w1)
          | (Inr groups, w1) \<Rightarrow>
              (case collectGroupIds groups [] of
                 Panicked \<Rightarrow> (Panicked, w1)
               | Returned groupIDs \<Rightarrow>
                   (case SetValueFrom groupIDs of
                      Inl diags \<Rightarrow>
                        (Returned (resp\<lparr>Diagnostics := Append (Diagnostics resp) diags\<rparr>), w1)
                    | Inr groupIDsSet \<Rightarrow>
                        (Returned (State_Set
                           (state0\<lparr>rg_GroupIDs := groupIDsSet, rg_ID := rg_RoleID state0\<rparr>) resp),
                         w1)))))"

definition roleGroups_Update ::
  "'r LookerSDK option \<Rightarrow> roleGroupsResourceModel \<Rightarrow> roleGroupsResourceModel response \<Rightarrow>
   'r world \<Rightarrow> roleGroupsResourceModel response outcome \<times> 'r world" where
  "roleGroups_Update r_sdk plan resp w =
     (case r_sdk of
        None \<Rightarrow> (Returned (unconfigured resp), w)
      | Some sdk \<Rightarrow>
        if HasError (Diagnostics resp) then (Returned resp, w)
        else
         (case setRoleGroups sdk plan w of
            (Some err, w1) \<Rightarrow>
              (Returned (resp\<lparr>Diagnostics := AddError ''API error''
                 (''Failed to update groups for role '' @ ValueString (rg_RoleID plan) @ '': '' @ err)
                 (Diagnostics resp)\<rparr>), w1)
          | (None, w1) \<Rightarrow> (Returned (State_Set (plan\<lparr>rg_ID := rg_RoleID plan\<rparr>) resp), w1)))"

definition roleGroups_Delete ::
  "'r LookerSDK option \<Rightarrow> roleGroupsResourceModel \<Rightarrow> roleGroupsResourceModel response \<Rightarrow>
   'r world \<Rightarrow> roleGroupsResourceModel response outcome \<times> 'r world" where
  "roleGroups_Delete r_sdk state resp w =
     (case r_sdk of
        None \<Rightarrow> (Returned (unconfigured resp), w)
      | Some sdk \<Rightarrow>
        if HasError (Diagnostics resp) then (Returned resp, w)
        else
         (case invoke (SetRoleGroupsCall (ValueString (rg_RoleID state)) [])
                 (SetRoleGroups sdk (ValueString (rg_RoleID state)) []) w of
            (Inl err, w1) \<Rightarrow>
              (Returned (resp\<lparr>Diagnostics := AddError ''API error''
                 (''Failed to clear groups for role '' @ ValueString (rg_RoleID state) @ '': '' @ err)
                 (Diagnostics resp)\<rparr>), w1)
          | (Inr _, w1) \<Rightarrow> (Returned resp, w1)))"


section \<open>An in-memory remote\<close>

text \<open>
  A small remote service that keeps grants, users, groups and memberships in lists,
  used to run the operations on concrete inputs. When \<open>mr_down\<close> is set every call
  fails. New objects take their identifier from \<open>mr_fresh\<close>.
\<close>

record memRemote =
  mr_down :: bool
  mr_grants :: "ContentMetaGroupUser list"
  mr_fresh :: "string list"
  mr_users :: "User list"
  mr_groups :: "Group list"
  mr_members :: "(string \<times> string) list"

definition unavailable :: "memRemote \<Rightarrow> 'a result \<times> memRemote" where
  "unavailable r = (Inl ''503 Service Unavailable'', r)"

definition mem_AllContentMetadataAccesses ::
  "string \<Rightarrow> string \<Rightarrow> memRemote \<Rightarrow> ContentMetaGroupUser list result \<times> memRemote" where
  "mem_AllContentMetadataAccesses contentMetadataId flds r =
     (if mr_down r then unavailable r
      else (Inr (filter (\<lambda>g. cm_ContentMetadataId g = Some contentMetadataId) (mr_grants r)), r))"

definition mem_CreateContentMetadataAccess ::
  "ContentMetaGroupUser \<Rightarrow> bool \<Rightarrow> memRemote \<Rightarrow> ContentMetaGroupUser result \<times> memRemote" where
  "mem_CreateContentMetadataAccess body notify r =
     (if mr_down r then unavailable r
      else case mr_fresh r of
             [] \<Rightarrow> (Inl ''500 Internal Server Error'', r)
           | i # rest \<Rightarrow>
               (Inr (body\<lparr>cm_Id := Some i\<rparr>),
                r\<lparr>mr_grants := mr_grants r @ [body\<lparr>cm_Id := Some i\<rparr>], mr_fresh := rest\<rparr>))"

definition mem_UpdateContentMetadataAccess ::
  "string \<Rightarrow> ContentMetaGroupUser \<Rightarrow> memRemote \<Rightarrow> ContentMetaGroupUser result \<times> memRemote" where
  "mem_UpdateContentMetadataAccess grantId body r =
     (if mr_down r then unavailable r
      else case find (\<lambda>g. cm_Id g = Some grantId) (mr_grants r) of
             None \<Rightarrow> (Inl ''404 Not Found'', r)
           | Some g \<Rightarrow>
               (Inr (g\<lparr>cm_PermissionType := cm_PermissionType body\<rparr>),
                r\<lparr>mr_grants := map (\<lambda>x. if cm_Id x = Some grantId
                                          then x\<lparr>cm_PermissionType := cm_PermissionType body\<rparr> else x)
                                  (mr_grants r)\<rparr>))"

definition mem_DeleteContentMetadataAccess :: "string \<Rightarrow> memRemote \<Rightarrow> unit result \<times> memRemote" where
  "mem_DeleteContentMetadataAccess grantId r =
     (if mr_down r then unavailable r
      else if list_ex (\<lambda>g. cm_Id g = Some grantId) (mr_grants r)
      then (Inr (), r\<lparr>mr_grants := filter (\<lambda>g. cm_Id g \<noteq> Some grantId) (mr_grants r)\<rparr>)
      else (Inl ''404 Not Found'', r))"

definition mem_SearchUsers :: "string option \<Rightarrow> memRemote \<Rightarrow> User list result \<times> memRemote" where
  "mem_SearchUsers email r =
     (if mr_down r then unavailable r
      else (Inr (filter (\<lambda>u. user_Email u = email) (mr_users r)), r))"

definition mem_CreateGroup :: "string option \<Rightarrow> memRemote \<Rightarrow> Group result \<times> memRemote" where
  "mem_CreateGroup name r =
     (if mr_down r then unavailable r
      else case mr_fresh r of
             [] \<Rightarrow> (Inl ''500 Internal Server Error'', r)
           | i # rest \<Rightarrow>
               (Inr \<lparr>group_Id = Some i, group_Name = name\<rparr>,
                r\<lparr>mr_groups := mr_groups r @ [\<lparr>group_Id = Some i, group_Name = name\<rparr>],
                  mr_fresh := rest\<rparr>))"

definition mem_GetGroup :: "string \<Rightarrow> string \<Rightarrow> memRemote \<Rightarrow> Group result \<times> memRemote" where
  "mem_GetGroup groupId flds r =
     (if mr_down r then unavailable r
      else case find (\<lambda>g. group_Id g = Some groupId) (mr_groups r) of
             None \<Rightarrow> (Inl ''404 Not Found'', r)
           | Some g \<Rightarrow> (Inr g, r))"

definition mem_UpdateGroup :: "string \<Rightarrow> string option \<Rightarrow> memRemote \<Rightarrow> Group result \<times> memRemote" where
  "mem_UpdateGroup groupId name r =
     (if mr_down r then unavailable r
      else case find (\<lambda>g. group_Id g = Some groupId) (mr_groups r) of
             None \<Rightarrow> (Inl ''404 Not Found'', r)
           | Some g \<Rightarrow>
               (Inr (g\<lparr>group_Name := name\<rparr>),
                r\<lparr>mr_groups := map (\<lambda>x. if group_Id x = Some groupId then x\<lparr>group_Name := name\<rparr> else x)
                                  (mr_groups r)\<rparr>))"

definition mem_DeleteGroup :: "string \<Rightarrow> memRemote \<Rightarrow> unit result \<times> memRemote" where
  "mem_DeleteGroup groupId r =
     (if mr_down r then unavailable r
      else if list_ex (\<lambda>g. group_Id g = Some groupId) (mr_groups r)
      then (Inr (), r\<lparr>mr_groups := filter (\<lambda>g. group_Id g \<noteq> Some groupId) (mr_groups r),
                      mr_members := filter (\<lambda>m. fst m \<noteq> groupId) (mr_members r)\<rparr>)
      else (Inl ''404 Not Found'', r))"

definition mem_AllGroupUsers :: "string \<Rightarrow> memRemote \<Rightarrow> User list result \<times> memRemote" where
  "mem_AllGroupUsers groupId r =
     (if mr_down r then unavailable r
      else (Inr (map (\<lambda>m. \<lparr>user_Id = Some (snd m), user_Email = None\<rparr>)
                  (filter (\<lambda>m. fst m = groupId) (mr_members r))), r))"

definition mem_AddGroupUser :: "string \<Rightarrow> string option \<Rightarrow> memRemote \<Rightarrow> User result \<times> memRemote" where
  "mem_AddGroupUser groupId userId r =
     (if mr_down r then unavailable r
      else case userId of
             None \<Rightarrow> (Inl ''400 Bad Request'', r)
           | Some u \<Rightarrow>
               (Inr \<lparr>user_Id = Some u, user_Email = None\<rparr>,
                r\<lparr>mr_members := (if (groupId, u) \<in> set (mr_members r) then mr_members r
                                   else mr_members r @ [(groupId, u)])\<rparr>))"

definition mem_DeleteGroupUser :: "string \<Rightarrow> string \<Rightarrow> memRemote \<Rightarrow> unit result \<times> memRemote" where
  "mem_DeleteGroupUser groupId userId r =
     (if mr_down r then unavailable r
      else (Inr (), r\<lparr>mr_members := filter (\<lambda>m. m \<noteq> (groupId, userId)) (mr_members r)\<rparr>))"

text \<open>The in-memory remote does not serve folders, permission sets, model sets and roles.\<close>

definition notServed :: "memRemote \<Rightarrow> 'a result \<times> memRemote" where
  "notServed r = (if mr_down r then unavailable r else (Inl ''501 Not Implemented'', r))"

definition memSDK :: "memRemote LookerSDK" where
  "memSDK =
     \<lparr>AllContentMetadataAccesses = mem_AllContentMetadataAccesses,
      CreateContentMetadataAccess = mem_CreateContentMetadataAccess,
      UpdateContentMetadataAccess = mem_UpdateContentMetadataAccess,
      DeleteContentMetadataAccess = mem_DeleteContentMetadataAccess,
      SearchUsers = mem_SearchUsers,
      CreateGroup = mem_CreateGroup,
      GetGroup = mem_GetGroup,
      UpdateGroup = mem_UpdateGroup,
      DeleteGroup = mem_DeleteGroup,
      AllGroupUsers = mem_AllGroupUsers,
      AddGroupUser = mem_AddGroupUser,
      DeleteGroupUser = mem_DeleteGroupUser,
      CreateFolder = (\<lambda>name parent. notServed),
      GetFolder = (\<lambda>folderId flds. notServed),
      UpdateFolder = (\<lambda>folderId name parent. notServed),
      DeleteFolder = (\<lambda>folderId. notServed),
      ContentMetadata = (\<lambda>contentMetadataId flds. notServed),
      UpdateContentMetadata = (\<lambda>contentMetadataId inherits. notServed),
      CreatePermissionSet = (\<lambda>name permissions. notServed),
      GetPermissionSet = (\<lambda>permissionSetId flds. notServed),
      UpdatePermissionSet = (\<lambda>permissionSetId name permissions. notServed),
      DeletePermissionSet = (\<lambda>permissionSetId. notServed),
      CreateModelSet = (\<lambda>name models. notServed),
      GetModelSet = (\<lambda>modelSetId flds. notServed),
      UpdateModelSet = (\<lambda>modelSetId name models. notServed),
      DeleteModelSet = (\<lambda>modelSetId. notServed),
      CreateRole = (\<lambda>name permissionSetId modelSetId. notServed),
      GetRole = (\<lambda>roleId. notServed),
      UpdateRole = (\<lambda>roleId name permissionSetId modelSetId. notServed),
      DeleteRole = (\<lambda>roleId. notServed),
      SetRoleGroups = (\<lambda>roleId groupIds. notServed),
      RoleGroups = (\<lambda>roleId flds. notServed)\<rparr>"

definition grant :: "string \<Rightarrow> string \<Rightarrow> string \<Rightarrow> string \<Rightarrow> ContentMetaGroupUser" where
  "grant i folder grp level =
     \<lparr>cm_Id = Some i, cm_ContentMetadataId = Some folder, cm_PermissionType = Some level,
      cm_GroupId = Some grp, cm_UserId = None\<rparr>"

definition emptyRemote :: memRemote where
  "emptyRemote =
     \<lparr>mr_down = False, mr_grants = [], mr_fresh = [''101'', ''102'', ''103''],
      mr_users = [], mr_groups = [], mr_members = []\<rparr>"

definition start :: "memRemote \<Rightarrow> memRemote world" where
  "start r = \<lparr>remote = r, trace = []\<rparr>"


definition sharedFolder :: memRemote where
  "sharedFolder = emptyRemote\<lparr>mr_grants :=
     [grant ''7'' ''f1'' ''g2'' ''view'', grant ''8'' ''f1'' ''g1'' ''view'', grant ''9'' ''f1'' ''g1'' ''edit'']\<rparr>"

definition viewer :: folderPermissionOverrideResourceModel where
  "viewer = \<lparr>fpo_ID = None, fpo_FolderID = Some ''f1'', fpo_GroupID = Some ''g1'', fpo_AccessLevel = Some ''edit''\<rparr>"

definition convertedFolder :: memRemote where
  "convertedFolder = emptyRemote\<lparr>mr_grants :=
     [grant ''7'' ''f1'' ''g2'' ''view'', grant ''8'' ''f1'' ''g1'' ''edit'', grant ''9'' ''f1'' ''g1'' ''edit'']\<rparr>"

definition accessPlan :: folderAccessResourceModel where
  "accessPlan = \<lparr>fa_ID = None, fa_FolderID = Some ''f1'', fa_GroupID = Some ''g1'', fa_AccessLevel = Some ''view''\<rparr>"

definition accessBody :: "folderAccessResourceModel \<Rightarrow> ContentMetaGroupUser" where
  "accessBody plan =
     \<lparr>cm_Id = None, cm_ContentMetadataId = fa_FolderID plan,
      cm_PermissionType = Some (ValueString (fa_AccessLevel plan)),
      cm_GroupId = fa_GroupID plan, cm_UserId = None\<rparr>"

definition directory :: memRemote where
  "directory = emptyRemote\<lparr>mr_users :=
     [\<lparr>user_Id = Some ''u2'', user_Email = Some ''a@x.io''\<rparr>,
      \<lparr>user_Id = Some ''u3'', user_Email = Some ''b@x.io''\<rparr>,
      \<lparr>user_Id = Some ''u4'', user_Email = Some ''b@x.io''\<rparr>,
      \<lparr>user_Id = Some ''u5'', user_Email = Some ''e@x.io''\<rparr>]\<rparr>"

definition devs :: groupResourceModel where
  "devs = \<lparr>g_ID = Some ''5'', g_Name = Some ''devs'', g_UserIDs = SetValue [''u1''],
           g_UserEmails = SetValue [''a@x.io'']\<rparr>"

definition devsRemote :: memRemote where
  "devsRemote = emptyRemote\<lparr>mr_groups := [\<lparr>group_Id = Some ''5'', group_Name = Some ''developers''\<rparr>],
                           mr_members := [(''5'', ''u1''), (''5'', ''u2''), (''6'', ''u9'')]\<rparr>"

text \<open>The users a list of events adds to, and removes from, a group.\<close>

fun added :: "event list \<Rightarrow> string list" where
  "added [] = []"
| "added ((AddGroupUserCall g (Some u), r) # es) = u # added es"
| "added (e # es) = added es"

fun removed :: "event list \<Rightarrow> string list" where
  "removed [] = []"
| "removed ((DeleteGroupUserCall g u, r) # es) = u # removed es"
| "removed (e # es) = removed es"

definition teamRemote :: memRemote where
  "teamRemote = emptyRemote\<lparr>mr_groups := [\<lparr>group_Id = Some ''5'', group_Name = Some ''team''\<rparr>],
                           mr_members := [(''5'', ''u1''), (''5'', ''u4'')]\<rparr>"

text \<open>
  How a failed remote call shows in the outcome of an operation. A run is \<open>clean\<close> when no call
  it issued failed. Otherwise the failed call must be the last call issued, and the response
  must carry an error; the one exception is the get-by-identifier call that opens a \<open>Read\<close>:
  when it fails the tracked state is removed and no error is reported.
\<close>

definition clean :: "event list \<Rightarrow> bool" where
  "clean evs = list_all (\<lambda>e. snd e = None) evs"

definition failed_last :: "event list \<Rightarrow> bool" where
  "failed_last evs = (evs \<noteq> [] \<and> snd (last evs) \<noteq> None \<and> clean (butlast evs))"

fun root_get :: "call \<Rightarrow> bool" where
  "root_get (GroupCall _ _) = True"
| "root_get (FolderCall _ _) = True"
| "root_get (PermissionSetCall _ _) = True"
| "root_get (ModelSetCall _ _) = True"
| "root_get (RoleCall _) = True"
| "root_get _ = False"

definition surfaces :: "event list \<Rightarrow> 's response outcome \<Rightarrow> bool" where
  "surfaces evs out =
     (clean evs \<or>
      (failed_last evs \<and>
       (case out of
          Panicked \<Rightarrow> False
        | Returned resp \<Rightarrow>
            if root_get (fst (last evs))
            then State resp = None \<and> \<not> HasError (Diagnostics resp)
            else HasError (Diagnostics resp))))"

definition outage :: memRemote where
  "outage = devsRemote\<lparr>mr_down := True\<rparr>"

text \<open>A remote that lists a member twice, and one where the group is gone.\<close>

definition listedTwice :: memRemote where
  "listedTwice = devsRemote\<lparr>mr_members := [(''5'', ''u1''), (''5'', ''u2''), (''5'', ''u1'')]\<rparr>"

definition deleted :: memRemote where
  "deleted = devsRemote\<lparr>mr_groups := []\<rparr>"

text \<open>An override that is tracked at level view and planned at level edit, and its folder
  while the remote is down.\<close>

definition trackedViewer :: folderPermissionOverrideResourceModel where
  "trackedViewer = \<lparr>fpo_ID = Some ''8'', fpo_FolderID = Some ''f1'', fpo_GroupID = Some ''g1'',
                     fpo_AccessLevel = Some ''view''\<rparr>"

definition plannedEditor :: folderPermissionOverrideResourceModel where
  "plannedEditor = trackedViewer\<lparr>fpo_AccessLevel := Some ''edit''\<rparr>"

definition folderOutage :: memRemote where
  "folderOutage = sharedFolder\<lparr>mr_down := True\<rparr>"

section \<open>Properties of the override workflow and of the grant locator\<close>

lemma invoke_eq:
  "f (remote w) = (res, r') \<Longrightarrow>
   invoke c f w = (res, \<lparr>remote = r', trace = trace w @ [(c, error_of res)]\<rparr>)"
  by (simp add: invoke_def)

lemma invoke_cases:
  obtains res r' where "f (remote w) = (res, r')"
    and "invoke c f w = (res, \<lparr>remote = r', trace = trace w @ [(c, error_of res)]\<rparr>)"
  by (cases "f (remote w)") (simp add: invoke_def)

lemma invoke_trace:
  "\<exists>res w'. invoke c f w = (res, w') \<and> trace w' = trace w @ [(c, error_of res)]"
  by (cases "f (remote w)") (simp add: invoke_def)

lemma issued_append [simp]: "trace w' = trace w @ evs \<Longrightarrow> issued w w' = evs"
  by (simp add: issued_def)

lemma issued_same [simp]: "issued w w = []"
  by (simp add: issued_def)

lemma scanAccessGrants_none:
  "scanAccessGrants groupID results = None \<longleftrightarrow> (\<forall>g \<in> set results. cm_GroupId g \<noteq> Some groupID)"
  by (induction results) auto

lemma scanAccessGrants_first:
  "\<forall>g \<in> set pre. cm_GroupId g \<noteq> Some groupID \<Longrightarrow> cm_GroupId g = Some groupID \<Longrightarrow>
   scanAccessGrants groupID (pre @ g # post) = Some g"
  by (induction pre) auto

lemma override_find_trace:
  "\<exists>res. trace (snd (folderPermissionOverride_findAccessGrant sdk f g w))
      = trace w @ [(AllContentMetadataAccessesCall f [], res)]"
  by (rule invoke_cases[of "AllContentMetadataAccesses sdk f []" w "AllContentMetadataAccessesCall f []"])
     (auto simp: folderPermissionOverride_findAccessGrant_def split: sum.splits)

lemma override_find_eq:
  "AllContentMetadataAccesses sdk f [] (remote w) = (Inr results, r1) \<Longrightarrow>
   folderPermissionOverride_findAccessGrant sdk f g w
     = (Inr (scanAccessGrants g results),
        \<lparr>remote = r1, trace = trace w @ [(AllContentMetadataAccessesCall f [], None)]\<rparr>)"
  by (simp add: folderPermissionOverride_findAccessGrant_def invoke_def error_of_def)

lemma override_Create_trace:
  "\<exists>evs. trace (snd (folderPermissionOverride_Create r_sdk plan resp w)) = trace w @ evs
     \<and> (\<forall>e \<in> set evs. \<not> creates_grant (fst e))"
proof (cases "HasError (Diagnostics resp) \<or> r_sdk = None")
  case True
  then show ?thesis by (auto simp: folderPermissionOverride_Create_def)
next
  case False
  then obtain sdk where s: "r_sdk = Some sdk" and ne: "\<not> HasError (Diagnostics resp)" by auto
  let ?f = "ValueString (fpo_FolderID plan)" and ?g = "ValueString (fpo_GroupID plan)"
  obtain fr w1 where fnd: "folderPermissionOverride_findAccessGrant sdk ?f ?g w = (fr, w1)"
    by (cases "folderPermissionOverride_findAccessGrant sdk ?f ?g w")
  from override_find_trace[of sdk ?f ?g w] fnd
  obtain res where t1: "trace w1 = trace w @ [(AllContentMetadataAccessesCall ?f [], res)]" by auto
  show ?thesis
  proof (cases fr)
    case (Inl e)
    with s ne fnd t1 show ?thesis by (simp add: folderPermissionOverride_Create_def)
  next
    case (Inr go)
    show ?thesis
    proof (cases go)
      case None
      with Inr s ne fnd t1 show ?thesis by (simp add: folderPermissionOverride_Create_def)
    next
      case (Some grant)
      show ?thesis
      proof (cases "cm_Id grant")
        case None
        with Some Inr s ne fnd t1 show ?thesis by (simp add: folderPermissionOverride_Create_def)
      next
        case (Some grantId)
        let ?body = "emptyContentMetaGroupUser\<lparr>cm_PermissionType := Some (ValueString (fpo_AccessLevel plan))\<rparr>"
        obtain ur w2 where
          "invoke (UpdateContentMetadataAccessCall grantId ?body) (UpdateContentMetadataAccess sdk grantId ?body) w1
             = (ur, w2)"
          "trace w2 = trace w1 @ [(UpdateContentMetadataAccessCall grantId ?body, error_of ur)]"
          using invoke_trace by blast
        with Some \<open>go = Some grant\<close> Inr s ne fnd t1 show ?thesis
          by (cases ur) (simp_all add: folderPermissionOverride_Create_def)
      qed
    qed
  qed
qed

lemma override_Read_trace:
  "\<exists>evs. trace (snd (folderPermissionOverride_Read r_sdk st resp w)) = trace w @ evs
     \<and> (\<forall>e \<in> set evs. \<not> mutating (fst e))"
proof (cases "HasError (Diagnostics resp) \<or> r_sdk = None")
  case True
  then show ?thesis by (auto simp: folderPermissionOverride_Read_def)
next
  case False
  then obtain sdk where s: "r_sdk = Some sdk" and ne: "\<not> HasError (Diagnostics resp)" by auto
  let ?f = "ValueString (fpo_FolderID st)" and ?g = "ValueString (fpo_GroupID st)"
  obtain fr w1 where fnd: "folderPermissionOverride_findAccessGrant sdk ?f ?g w = (fr, w1)"
    by (cases "folderPermissionOverride_findAccessGrant sdk ?f ?g w")
  from override_find_trace[of sdk ?f ?g w] fnd
  obtain res where t1: "trace w1 = trace w @ [(AllContentMetadataAccessesCall ?f [], res)]" by auto
  with s ne fnd show ?thesis
    by (auto simp: folderPermissionOverride_Read_def split: sum.splits option.splits)
qed

lemma override_Update_trace:
  "\<exists>evs. trace (snd (folderPermissionOverride_Update r_sdk plan st resp w)) = trace w @ evs
     \<and> (\<forall>e \<in> set evs. \<not> creates_grant (fst e))"
proof (cases "HasError (Diagnostics resp)")
  case True
  then show ?thesis by (simp add: folderPermissionOverride_Update_def)
next
  case False
  obtain oc w' where c: "folderPermissionOverride_Create r_sdk plan \<lparr>State = State resp, Diagnostics = Diagnostics resp\<rparr> w = (oc, w')"
    by (cases "folderPermissionOverride_Create r_sdk plan \<lparr>State = State resp, Diagnostics = Diagnostics resp\<rparr> w")
  from override_Create_trace[of r_sdk plan "\<lparr>State = State resp, Diagnostics = Diagnostics resp\<rparr>" w] c
  obtain evs where "trace w' = trace w @ evs" "\<forall>e \<in> set evs. \<not> creates_grant (fst e)" by auto
  with False c show ?thesis
    by (cases oc) (simp_all add: folderPermissionOverride_Update_def)
qed

lemmas mem_defs = memSDK_def mem_AllContentMetadataAccesses_def mem_UpdateContentMetadataAccess_def
  mem_CreateContentMetadataAccess_def mem_DeleteContentMetadataAccess_def
  emptyRemote_def start_def grant_def unavailable_def

lemma folderAccess_find_eq:
  "AllContentMetadataAccesses sdk f [] (remote w) = (Inr results, r1) \<Longrightarrow>
   folderAccess_findAccessGrant sdk f g w
     = (Inr (scanAccessGrants g results),
        \<lparr>remote = r1, trace = trace w @ [(AllContentMetadataAccessesCall f [], None)]\<rparr>)"
  by (simp add: folderAccess_findAccessGrant_def invoke_def error_of_def)

text \<open>
  Claim C9. The grant locator (both copies of \<open>findAccessGrant\<close>) asks the remote for the
  whole, unfiltered grant list of the context and returns the first grant, in list order,
  whose group is the one sought; it returns absence when no grant matches. When two grants
  of the list carry the same group it returns the first of them and reports no error.
\<close>

theorem findAccessGrant_first_match:
  assumes "AllContentMetadataAccesses sdk folderID [] (remote w) = (Inr results, r')"
  shows "folderAccess_findAccessGrant sdk folderID groupID w
           = (Inr (scanAccessGrants groupID results),
              \<lparr>remote = r', trace = trace w @ [(AllContentMetadataAccessesCall folderID [], None)]\<rparr>)
       \<and> folderPermissionOverride_findAccessGrant sdk folderID groupID w
           = (Inr (scanAccessGrants groupID results),
              \<lparr>remote = r', trace = trace w @ [(AllContentMetadataAccessesCall folderID [], None)]\<rparr>)
       \<and> ((\<forall>g \<in> set results. cm_GroupId g \<noteq> Some groupID) \<longrightarrow> scanAccessGrants groupID results = None)
       \<and> (\<forall>pre g post. results = pre @ g # post \<and> (\<forall>x \<in> set pre. cm_GroupId x \<noteq> Some groupID)
              \<and> cm_GroupId g = Some groupID \<longrightarrow> scanAccessGrants groupID results = Some g)"
  using assms
  by (auto simp: folderAccess_find_eq override_find_eq scanAccessGrants_none scanAccessGrants_first)

theorem findAccessGrant_first_match_witness:
  "AllContentMetadataAccesses memSDK ''f1'' [] (remote (start sharedFolder))
     = (Inr [grant ''7'' ''f1'' ''g2'' ''view'', grant ''8'' ''f1'' ''g1'' ''view'',
             grant ''9'' ''f1'' ''g1'' ''edit''], sharedFolder)
   \<and> folderAccess_findAccessGrant memSDK ''f1'' ''g1'' (start sharedFolder)
     = (Inr (Some (grant ''8'' ''f1'' ''g1'' ''view'')),
        \<lparr>remote = sharedFolder, trace = [(AllContentMetadataAccessesCall ''f1'' [], None)]\<rparr>)
   \<and> folderPermissionOverride_findAccessGrant memSDK ''f1'' ''g1'' (start sharedFolder)
     = (Inr (Some (grant ''8'' ''f1'' ''g1'' ''view'')),
        \<lparr>remote = sharedFolder, trace = [(AllContentMetadataAccessesCall ''f1'' [], None)]\<rparr>)
   \<and> folderAccess_findAccessGrant memSDK ''f1'' ''g5'' (start sharedFolder)
     = (Inr None, \<lparr>remote = sharedFolder, trace = [(AllContentMetadataAccessesCall ''f1'' [], None)]\<rparr>)"
proof -
  have h: "AllContentMetadataAccesses memSDK ''f1'' [] (remote (start sharedFolder))
     = (Inr [grant ''7'' ''f1'' ''g2'' ''view'', grant ''8'' ''f1'' ''g1'' ''view'',
             grant ''9'' ''f1'' ''g1'' ''edit''], sharedFolder)"
    by (simp add: mem_defs sharedFolder_def)
  show ?thesis
    using h findAccessGrant_first_match[OF h, of "''g1''"] findAccessGrant_first_match[OF h, of "''g5''"]
    by (simp add: start_def grant_def)
qed

text \<open>
  Claim C3. Destroying a tracked override issues no remote call at all: the trace and the
  remote state are left as they were, no error is reported, and the framework then drops the
  tracked state.
\<close>

theorem override_Delete_leaves_remote:
  "folderPermissionOverride_Delete r_sdk state (trackedResponse state) w = (Returned (trackedResponse state), w)
   \<and> issued w (snd (folderPermissionOverride_Delete r_sdk state (trackedResponse state) w)) = []
   \<and> remote (snd (folderPermissionOverride_Delete r_sdk state (trackedResponse state) w)) = remote w
   \<and> afterDelete (trackedResponse state) = (emptyResponse :: folderPermissionOverrideResourceModel response)"
  by (simp add: folderPermissionOverride_Delete_def afterDelete_def trackedResponse_def emptyResponse_def
      HasError_def RemoveResource_def)

text \<open>
  Claim C1. When the locator finds no grant of the group on the folder, creating an override
  fails with the error "Cannot Override Permission", having issued the list call only (no
  mutating call). No operation of the override workflow ever issues a call that creates a
  grant, whatever its inputs.
\<close>

theorem override_Create_requires_grant:
  "(AllContentMetadataAccesses sdk (ValueString (fpo_FolderID plan)) [] (remote w) = (Inr results, r1)
      \<and> scanAccessGrants (ValueString (fpo_GroupID plan)) results = None
    \<longrightarrow> folderPermissionOverride_Create (Some sdk) plan emptyResponse w
        = (Returned \<lparr>State = None, Diagnostics = [ErrorDiagnostic ''Cannot Override Permission''
             (''No inherited permission found for group '' @ ValueString (fpo_GroupID plan)
              @ '' on folder '' @ ValueString (fpo_FolderID plan)
              @ '' to override. The group must have parent access first.'')]\<rparr>,
           \<lparr>remote = r1,
            trace = trace w @ [(AllContentMetadataAccessesCall (ValueString (fpo_FolderID plan)) [], None)]\<rparr>))
   \<and> (\<forall>e \<in> set (issued w' (snd (folderPermissionOverride_Create r_sdk plan' resp w'))). \<not> creates_grant (fst e))
   \<and> (\<forall>e \<in> set (issued w' (snd (folderPermissionOverride_Read r_sdk plan' resp w'))). \<not> creates_grant (fst e))
   \<and> (\<forall>e \<in> set (issued w' (snd (folderPermissionOverride_Update r_sdk plan' st resp w'))). \<not> creates_grant (fst e))
   \<and> (\<forall>e \<in> set (issued w' (snd (folderPermissionOverride_Delete r_sdk plan' resp w'))). \<not> creates_grant (fst e))"
proof -
  have a: "AllContentMetadataAccesses sdk (ValueString (fpo_FolderID plan)) [] (remote w) = (Inr results, r1)
      \<and> scanAccessGrants (ValueString (fpo_GroupID plan)) results = None
    \<longrightarrow> folderPermissionOverride_Create (Some sdk) plan emptyResponse w
        = (Returned \<lparr>State = None, Diagnostics = [ErrorDiagnostic ''Cannot Override Permission''
             (''No inherited permission found for group '' @ ValueString (fpo_GroupID plan)
              @ '' on folder '' @ ValueString (fpo_FolderID plan)
              @ '' to override. The group must have parent access first.'')]\<rparr>,
           \<lparr>remote = r1,
            trace = trace w @ [(AllContentMetadataAccessesCall (ValueString (fpo_FolderID plan)) [], None)]\<rparr>)"
    by (simp add: folderPermissionOverride_Create_def override_find_eq emptyResponse_def HasError_def
        AddError_def Let_def)
  have b: "\<forall>e \<in> set (issued w' (snd (folderPermissionOverride_Create r_sdk plan' resp w'))). \<not> creates_grant (fst e)"
    using override_Create_trace[of r_sdk plan' resp w'] by auto
  have c: "\<forall>e \<in> set (issued w' (snd (folderPermissionOverride_Read r_sdk plan' resp w'))). \<not> creates_grant (fst e)"
  proof -
    obtain evs where "trace (snd (folderPermissionOverride_Read r_sdk plan' resp w')) = trace w' @ evs"
      "\<forall>e \<in> set evs. \<not> mutating (fst e)"
      using override_Read_trace[of r_sdk plan' resp w'] by auto
    moreover have "\<not> mutating c \<Longrightarrow> \<not> creates_grant c" for c by (cases c) auto
    ultimately show ?thesis by auto
  qed
  have d: "\<forall>e \<in> set (issued w' (snd (folderPermissionOverride_Update r_sdk plan' st resp w'))). \<not> creates_grant (fst e)"
    using override_Update_trace[of r_sdk plan' st resp w'] by auto
  have e: "\<forall>e \<in> set (issued w' (snd (folderPermissionOverride_Delete r_sdk plan' resp w'))). \<not> creates_grant (fst e)"
    by (simp add: folderPermissionOverride_Delete_def)
  from a b c d e show ?thesis by blast
qed

theorem override_Create_requires_grant_witness:
  "AllContentMetadataAccesses memSDK ''f1'' [] (remote (start sharedFolder))
     = (Inr [grant ''7'' ''f1'' ''g2'' ''view'', grant ''8'' ''f1'' ''g1'' ''view'',
             grant ''9'' ''f1'' ''g1'' ''edit''], sharedFolder)
   \<and> scanAccessGrants ''g5'' [grant ''7'' ''f1'' ''g2'' ''view'', grant ''8'' ''f1'' ''g1'' ''view'',
             grant ''9'' ''f1'' ''g1'' ''edit''] = None
   \<and> folderPermissionOverride_Create (Some memSDK)
        \<lparr>fpo_ID = None, fpo_FolderID = Some ''f1'', fpo_GroupID = Some ''g5'',
         fpo_AccessLevel = Some ''edit''\<rparr> emptyResponse (start sharedFolder)
     = (Returned \<lparr>State = None, Diagnostics = [ErrorDiagnostic ''Cannot Override Permission''
          ''No inherited permission found for group g5 on folder f1 to override. The group must have parent access first.'']\<rparr>,
        \<lparr>remote = sharedFolder, trace = [(AllContentMetadataAccessesCall ''f1'' [], None)]\<rparr>)"
proof -
  have h: "AllContentMetadataAccesses memSDK ''f1'' [] (remote (start sharedFolder))
     = (Inr [grant ''7'' ''f1'' ''g2'' ''view'', grant ''8'' ''f1'' ''g1'' ''view'',
             grant ''9'' ''f1'' ''g1'' ''edit''], sharedFolder)"
    by (simp add: mem_defs sharedFolder_def)
  have n: "scanAccessGrants ''g5'' [grant ''7'' ''f1'' ''g2'' ''view'', grant ''8'' ''f1'' ''g1'' ''view'',
             grant ''9'' ''f1'' ''g1'' ''edit''] = None"
    by (simp add: grant_def)
  have c: "folderPermissionOverride_Create (Some memSDK)
        \<lparr>fpo_ID = None, fpo_FolderID = Some ''f1'', fpo_GroupID = Some ''g5'',
         fpo_AccessLevel = Some ''edit''\<rparr> emptyResponse (start sharedFolder)
     = (Returned \<lparr>State = None, Diagnostics = [ErrorDiagnostic ''Cannot Override Permission''
          ''No inherited permission found for group g5 on folder f1 to override. The group must have parent access first.'']\<rparr>,
        \<lparr>remote = sharedFolder, trace = [(AllContentMetadataAccessesCall ''f1'' [], None)]\<rparr>)"
    using override_Create_requires_grant[of memSDK
        "\<lparr>fpo_ID = None, fpo_FolderID = Some ''f1'', fpo_GroupID = Some ''g5'', fpo_AccessLevel = Some ''edit''\<rparr>"
        "start sharedFolder"
        "[grant ''7'' ''f1'' ''g2'' ''view'', grant ''8'' ''f1'' ''g1'' ''view'', grant ''9'' ''f1'' ''g1'' ''edit'']"
        sharedFolder, THEN conjunct1] h n
    by (simp add: ValueString_def start_def)
  from h n c show ?thesis by blast
qed

text \<open>
  Claim C5. When the locator finds a grant of the group on the folder (at "view" or at any
  other level), creating the override issues exactly one mutating call: an update of that very
  grant to the desired level ("edit"). When the remote answers with the updated grant under
  the same identifier, the tracked state records that identifier and the desired level.
\<close>

theorem override_Create_converts_in_place:
  assumes list: "AllContentMetadataAccesses sdk (ValueString (fpo_FolderID plan)) [] (remote w) = (Inr results, r1)"
    and found: "scanAccessGrants (ValueString (fpo_GroupID plan)) results = Some g"
    and gid: "cm_Id g = Some grantId"
    and upd: "UpdateContentMetadataAccess sdk grantId
                (emptyContentMetaGroupUser\<lparr>cm_PermissionType := Some (ValueString (fpo_AccessLevel plan))\<rparr>) r1
              = (res, r2)"
  shows "snd (folderPermissionOverride_Create (Some sdk) plan emptyResponse w)
           = \<lparr>remote = r2,
              trace = trace w @
                [(AllContentMetadataAccessesCall (ValueString (fpo_FolderID plan)) [], None),
                 (UpdateContentMetadataAccessCall grantId
                    (emptyContentMetaGroupUser\<lparr>cm_PermissionType := Some (ValueString (fpo_AccessLevel plan))\<rparr>),
                  error_of res)]\<rparr>
       \<and> length (filter (\<lambda>e. mutating (fst e))
             (issued w (snd (folderPermissionOverride_Create (Some sdk) plan emptyResponse w)))) = 1
       \<and> (\<forall>g'. res = Inr g' \<and> cm_Id g' = cm_Id g \<longrightarrow>
             fst (folderPermissionOverride_Create (Some sdk) plan emptyResponse w)
               = Returned \<lparr>State = Some (plan\<lparr>fpo_ID := Some grantId\<rparr>), Diagnostics = []\<rparr>)"
proof -
  let ?body = "emptyContentMetaGroupUser\<lparr>cm_PermissionType := Some (ValueString (fpo_AccessLevel plan))\<rparr>"
  let ?w1 = "\<lparr>remote = r1, trace = trace w @ [(AllContentMetadataAccessesCall (ValueString (fpo_FolderID plan)) [], None)]\<rparr>"
  have inv: "invoke (UpdateContentMetadataAccessCall grantId ?body) (UpdateContentMetadataAccess sdk grantId ?body) ?w1
     = (res, \<lparr>remote = r2, trace = trace ?w1 @ [(UpdateContentMetadataAccessCall grantId ?body, error_of res)]\<rparr>)"
    using upd by (simp add: invoke_def)
  have run: "folderPermissionOverride_Create (Some sdk) plan emptyResponse w
     = (case res of
          Inl err \<Rightarrow> Returned \<lparr>State = None, Diagnostics = [ErrorDiagnostic ''API Error on Update''
                        (''Failed to update folder access grant '' @ grantId @ '': '' @ err)]\<rparr>
        | Inr updatedGrant \<Rightarrow> Returned \<lparr>State = Some (plan\<lparr>fpo_ID := cm_Id updatedGrant\<rparr>), Diagnostics = []\<rparr>,
        \<lparr>remote = r2, trace = trace ?w1 @ [(UpdateContentMetadataAccessCall grantId ?body, error_of res)]\<rparr>)"
    using found gid
    by (cases res)
       (simp_all add: folderPermissionOverride_Create_def override_find_eq[OF list] emptyResponse_def
          HasError_def AddError_def Let_def inv State_Set_def StringPointerValue_def)
  show ?thesis
    using gid by (auto simp: run)
qed

theorem override_Create_converts_in_place_witness:
  "folderPermissionOverride_Create (Some memSDK) viewer emptyResponse (start sharedFolder)
     = (Returned \<lparr>State = Some (viewer\<lparr>fpo_ID := Some ''8''\<rparr>), Diagnostics = []\<rparr>,
        \<lparr>remote = sharedFolder\<lparr>mr_grants :=
            [grant ''7'' ''f1'' ''g2'' ''view'', grant ''8'' ''f1'' ''g1'' ''edit'', grant ''9'' ''f1'' ''g1'' ''edit'']\<rparr>,
         trace = [(AllContentMetadataAccessesCall ''f1'' [], None),
                  (UpdateContentMetadataAccessCall ''8''
                     (emptyContentMetaGroupUser\<lparr>cm_PermissionType := Some ''edit''\<rparr>), None)]\<rparr>)"
proof -
  let ?gs = "[grant ''7'' ''f1'' ''g2'' ''view'', grant ''8'' ''f1'' ''g1'' ''view'', grant ''9'' ''f1'' ''g1'' ''edit'']"
  let ?r2 = "sharedFolder\<lparr>mr_grants :=
            [grant ''7'' ''f1'' ''g2'' ''view'', grant ''8'' ''f1'' ''g1'' ''edit'', grant ''9'' ''f1'' ''g1'' ''edit'']\<rparr>"
  have h1: "AllContentMetadataAccesses memSDK (ValueString (fpo_FolderID viewer)) [] (remote (start sharedFolder))
     = (Inr ?gs, sharedFolder)"
    by (simp add: mem_defs sharedFolder_def viewer_def ValueString_def)
  have h2: "scanAccessGrants (ValueString (fpo_GroupID viewer)) ?gs = Some (grant ''8'' ''f1'' ''g1'' ''view'')"
    by (simp add: grant_def viewer_def ValueString_def)
  have h3: "cm_Id (grant ''8'' ''f1'' ''g1'' ''view'') = Some ''8''"
    by (simp add: grant_def)
  have h4: "UpdateContentMetadataAccess memSDK ''8''
                (emptyContentMetaGroupUser\<lparr>cm_PermissionType := Some (ValueString (fpo_AccessLevel viewer))\<rparr>) sharedFolder
              = (Inr (grant ''8'' ''f1'' ''g1'' ''edit''), ?r2)"
    by (simp add: mem_defs sharedFolder_def viewer_def ValueString_def emptyContentMetaGroupUser_def)
  note t = override_Create_converts_in_place[OF h1 h2 h3 h4]
  have a: "snd (folderPermissionOverride_Create (Some memSDK) viewer emptyResponse (start sharedFolder))
     = \<lparr>remote = ?r2,
         trace = [(AllContentMetadataAccessesCall ''f1'' [], None),
                  (UpdateContentMetadataAccessCall ''8''
                     (emptyContentMetaGroupUser\<lparr>cm_PermissionType := Some ''edit''\<rparr>), None)]\<rparr>"
    using t[THEN conjunct1] by (simp add: start_def viewer_def ValueString_def error_of_def)
  have b: "fst (folderPermissionOverride_Create (Some memSDK) viewer emptyResponse (start sharedFolder))
     = Returned \<lparr>State = Some (viewer\<lparr>fpo_ID := Some ''8''\<rparr>), Diagnostics = []\<rparr>"
    using t[THEN conjunct2, THEN conjunct2] by (simp add: grant_def)
  from a b show ?thesis by (simp add: prod_eq_iff)
qed

text \<open>
  Claim C6. A read of a tracked override re-locates the grant by group. If the grant is absent
  or its level is not the tracked level, the tracked state is removed; otherwise the tracked
  state is kept with the identifier of the located grant and no error is reported. A read
  never issues a mutating call.
\<close>

theorem override_Read_verifies:
  assumes list: "AllContentMetadataAccesses sdk (ValueString (fpo_FolderID state)) [] (remote w) = (Inr results, r1)"
  shows "folderPermissionOverride_Read (Some sdk) state (trackedResponse state) w
           = (Returned (case scanAccessGrants (ValueString (fpo_GroupID state)) results of
                          None \<Rightarrow> emptyResponse
                        | Some g \<Rightarrow> if cm_PermissionType g = Some (ValueString (fpo_AccessLevel state))
                                     then trackedResponse (state\<lparr>fpo_ID := cm_Id g\<rparr>)
                                     else emptyResponse),
              \<lparr>remote = r1,
               trace = trace w @ [(AllContentMetadataAccessesCall (ValueString (fpo_FolderID state)) [], None)]\<rparr>)
       \<and> (\<forall>e \<in> set (issued w' (snd (folderPermissionOverride_Read r_sdk state' resp w'))). \<not> mutating (fst e))"
proof -
  have "\<forall>e \<in> set (issued w' (snd (folderPermissionOverride_Read r_sdk state' resp w'))). \<not> mutating (fst e)"
    using override_Read_trace[of r_sdk state' resp w'] by auto
  moreover have "folderPermissionOverride_Read (Some sdk) state (trackedResponse state) w
           = (Returned (case scanAccessGrants (ValueString (fpo_GroupID state)) results of
                          None \<Rightarrow> emptyResponse
                        | Some g \<Rightarrow> if cm_PermissionType g = Some (ValueString (fpo_AccessLevel state))
                                     then trackedResponse (state\<lparr>fpo_ID := cm_Id g\<rparr>)
                                     else emptyResponse),
              \<lparr>remote = r1,
               trace = trace w @ [(AllContentMetadataAccessesCall (ValueString (fpo_FolderID state)) [], None)]\<rparr>)"
    by (auto simp: folderPermissionOverride_Read_def override_find_eq[OF list] trackedResponse_def
        emptyResponse_def HasError_def RemoveResource_def State_Set_def StringPointerValue_def
        split: option.splits)
  ultimately show ?thesis by blast
qed

theorem override_Read_verifies_witness:
  "folderPermissionOverride_Read (Some memSDK) (viewer\<lparr>fpo_ID := Some ''8''\<rparr>)
      (trackedResponse (viewer\<lparr>fpo_ID := Some ''8''\<rparr>)) (start convertedFolder)
     = (Returned (trackedResponse (viewer\<lparr>fpo_ID := Some ''8''\<rparr>)),
        \<lparr>remote = convertedFolder, trace = [(AllContentMetadataAccessesCall ''f1'' [], None)]\<rparr>)
   \<and> folderPermissionOverride_Read (Some memSDK) (viewer\<lparr>fpo_ID := Some ''8''\<rparr>)
      (trackedResponse (viewer\<lparr>fpo_ID := Some ''8''\<rparr>)) (start sharedFolder)
     = (Returned emptyResponse,
        \<lparr>remote = sharedFolder, trace = [(AllContentMetadataAccessesCall ''f1'' [], None)]\<rparr>)
   \<and> folderPermissionOverride_Read (Some memSDK) (viewer\<lparr>fpo_ID := Some ''8''\<rparr>)
      (trackedResponse (viewer\<lparr>fpo_ID := Some ''8''\<rparr>)) (start emptyRemote)
     = (Returned emptyResponse,
        \<lparr>remote = emptyRemote, trace = [(AllContentMetadataAccessesCall ''f1'' [], None)]\<rparr>)"
proof -
  let ?st = "viewer\<lparr>fpo_ID := Some ''8''\<rparr>"
  have h1: "AllContentMetadataAccesses memSDK (ValueString (fpo_FolderID ?st)) [] (remote (start convertedFolder))
     = (Inr [grant ''7'' ''f1'' ''g2'' ''view'', grant ''8'' ''f1'' ''g1'' ''edit'', grant ''9'' ''f1'' ''g1'' ''edit''],
        convertedFolder)"
    by (simp add: mem_defs convertedFolder_def viewer_def ValueString_def)
  have h2: "AllContentMetadataAccesses memSDK (ValueString (fpo_FolderID ?st)) [] (remote (start sharedFolder))
     = (Inr [grant ''7'' ''f1'' ''g2'' ''view'', grant ''8'' ''f1'' ''g1'' ''view'', grant ''9'' ''f1'' ''g1'' ''edit''],
        sharedFolder)"
    by (simp add: mem_defs sharedFolder_def viewer_def ValueString_def)
  have h3: "AllContentMetadataAccesses memSDK (ValueString (fpo_FolderID ?st)) [] (remote (start emptyRemote))
     = (Inr [], emptyRemote)"
    by (simp add: mem_defs viewer_def ValueString_def)
  show ?thesis
    using override_Read_verifies[OF h1, THEN conjunct1] override_Read_verifies[OF h2, THEN conjunct1]
      override_Read_verifies[OF h3, THEN conjunct1]
    by (simp add: start_def viewer_def ValueString_def grant_def trackedResponse_def)
qed

section \<open>Properties of folder access\<close>

lemma folderAccess_Create_run:
  assumes "CreateContentMetadataAccess sdk (accessBody plan) False (remote w) = (res, r1)"
  shows "folderAccess_Create (Some sdk) plan emptyResponse w
     = (case res of
          Inl err \<Rightarrow> Returned \<lparr>State = None, Diagnostics =
                       [ErrorDiagnostic ''API error'' (''Failed to create folder access grant: '' @ err)]\<rparr>
        | Inr accessGrant \<Rightarrow> Returned \<lparr>State = Some (plan\<lparr>fa_ID := cm_Id accessGrant\<rparr>), Diagnostics = []\<rparr>,
        \<lparr>remote = r1, trace = trace w @ [(CreateContentMetadataAccessCall (accessBody plan) False, error_of res)]\<rparr>)"
proof -
  have b: "emptyContentMetaGroupUser
                     \<lparr>cm_ContentMetadataId := ValueStringPointer (fa_FolderID plan),
                      cm_PermissionType := Some (ValueString (fa_AccessLevel plan)),
                      cm_GroupId := ValueStringPointer (fa_GroupID plan)\<rparr> = accessBody plan"
    by (simp add: accessBody_def emptyContentMetaGroupUser_def ValueStringPointer_def)
  show ?thesis
    using assms
    by (cases res)
       (simp_all add: folderAccess_Create_def Let_def b invoke_def emptyResponse_def HasError_def
          AddError_def State_Set_def StringPointerValue_def)
qed

lemma folderAccess_Read_run:
  assumes "AllContentMetadataAccesses sdk (ValueString (fa_FolderID state)) [] (remote w) = (Inr results, r1)"
  shows "folderAccess_Read (Some sdk) state (trackedResponse state) w
     = (Returned (case scanAccessGrants (ValueString (fa_GroupID state)) results of
                    None \<Rightarrow> emptyResponse
                  | Some g \<Rightarrow> trackedResponse (state\<lparr>fa_ID := cm_Id g, fa_AccessLevel := cm_PermissionType g\<rparr>)),
        \<lparr>remote = r1,
         trace = trace w @ [(AllContentMetadataAccessesCall (ValueString (fa_FolderID state)) [], None)]\<rparr>)"
  by (auto simp: folderAccess_Read_def folderAccess_find_eq[OF assms] trackedResponse_def
      emptyResponse_def HasError_def RemoveResource_def State_Set_def StringPointerValue_def StringValue_def
      split: option.splits)

lemma create_on_shared:
  "folderAccess_Create (Some memSDK) accessPlan emptyResponse (start sharedFolder)
     = (Returned \<lparr>State = Some (accessPlan\<lparr>fa_ID := Some ''101''\<rparr>), Diagnostics = []\<rparr>,
        \<lparr>remote = sharedFolder\<lparr>mr_grants := mr_grants sharedFolder @ [grant ''101'' ''f1'' ''g1'' ''view''],
                               mr_fresh := [''102'', ''103'']\<rparr>,
         trace = [(CreateContentMetadataAccessCall (accessBody accessPlan) False, None)]\<rparr>)"
proof -
  have h: "CreateContentMetadataAccess memSDK (accessBody accessPlan) False (remote (start sharedFolder))
     = (Inr (grant ''101'' ''f1'' ''g1'' ''view''),
        sharedFolder\<lparr>mr_grants := mr_grants sharedFolder @ [grant ''101'' ''f1'' ''g1'' ''view''],
                               mr_fresh := [''102'', ''103'']\<rparr>)"
    by (simp add: mem_defs sharedFolder_def accessBody_def accessPlan_def ValueString_def)
  show ?thesis
    using folderAccess_Create_run[OF h] by (simp add: start_def error_of_def grant_def)
qed

text \<open>
  Claim C2, as stated, fails: \<open>Create\<close> of the folder access resource never consults the
  locator. On a folder where the group already holds a grant at the desired level it still
  issues a create call and records the new identifier, and two runs in a row issue two mutating
  calls.
\<close>

theorem folderAccess_Create_counterexample:
  "fst (folderAccess_findAccessGrant memSDK ''f1'' ''g1'' (start sharedFolder))
     = Inr (Some (grant ''8'' ''f1'' ''g1'' ''view''))
   \<and> \<not> (filter (\<lambda>e. mutating (fst e))
          (issued (start sharedFolder)
             (snd (folderAccess_Create (Some memSDK) accessPlan emptyResponse (start sharedFolder)))) = []
        \<and> fst (folderAccess_Create (Some memSDK) accessPlan emptyResponse (start sharedFolder))
            = Returned \<lparr>State = Some (accessPlan\<lparr>fa_ID := Some ''8''\<rparr>), Diagnostics = []\<rparr>)
   \<and> \<not> length (filter (\<lambda>e. mutating (fst e))
          (trace (snd (folderAccess_Create (Some memSDK) accessPlan emptyResponse
             (snd (folderAccess_Create (Some memSDK) accessPlan emptyResponse (start emptyRemote))))))) \<le> 1"
proof -
  have h: "AllContentMetadataAccesses memSDK ''f1'' [] (remote (start sharedFolder))
     = (Inr [grant ''7'' ''f1'' ''g2'' ''view'', grant ''8'' ''f1'' ''g1'' ''view'',
             grant ''9'' ''f1'' ''g1'' ''edit''], sharedFolder)"
    by (simp add: mem_defs sharedFolder_def)
  have a: "fst (folderAccess_findAccessGrant memSDK ''f1'' ''g1'' (start sharedFolder))
     = Inr (Some (grant ''8'' ''f1'' ''g1'' ''view''))"
    by (simp add: folderAccess_find_eq[OF h] grant_def)
  have b: "\<not> (filter (\<lambda>e. mutating (fst e))
          (issued (start sharedFolder)
             (snd (folderAccess_Create (Some memSDK) accessPlan emptyResponse (start sharedFolder)))) = []
        \<and> fst (folderAccess_Create (Some memSDK) accessPlan emptyResponse (start sharedFolder))
            = Returned \<lparr>State = Some (accessPlan\<lparr>fa_ID := Some ''8''\<rparr>), Diagnostics = []\<rparr>)"
    using create_on_shared by (simp add: issued_def start_def)
  have h1: "CreateContentMetadataAccess memSDK (accessBody accessPlan) False (remote (start emptyRemote))
     = (Inr (grant ''101'' ''f1'' ''g1'' ''view''),
        emptyRemote\<lparr>mr_grants := [grant ''101'' ''f1'' ''g1'' ''view''], mr_fresh := [''102'', ''103'']\<rparr>)"
    by (simp add: mem_defs accessBody_def accessPlan_def ValueString_def)
  have h2: "CreateContentMetadataAccess memSDK (accessBody accessPlan) False
       (emptyRemote\<lparr>mr_grants := [grant ''101'' ''f1'' ''g1'' ''view''], mr_fresh := [''102'', ''103'']\<rparr>)
     = (Inr (grant ''102'' ''f1'' ''g1'' ''view''),
        emptyRemote\<lparr>mr_grants := [grant ''101'' ''f1'' ''g1'' ''view'', grant ''102'' ''f1'' ''g1'' ''view''],
                    mr_fresh := [''103'']\<rparr>)"
    by (simp add: mem_defs accessBody_def accessPlan_def ValueString_def)
  let ?r1 = "emptyRemote\<lparr>mr_grants := [grant ''101'' ''f1'' ''g1'' ''view''], mr_fresh := [''102'', ''103'']\<rparr>"
  let ?w1 = "\<lparr>remote = ?r1, trace = trace (start emptyRemote)
                @ [(CreateContentMetadataAccessCall (accessBody accessPlan) False, error_of (Inr (grant ''101'' ''f1'' ''g1'' ''view'') :: ContentMetaGroupUser result))]\<rparr>"
  have s1: "snd (folderAccess_Create (Some memSDK) accessPlan emptyResponse (start emptyRemote)) = ?w1"
    by (simp add: folderAccess_Create_run[OF h1])
  have h2': "CreateContentMetadataAccess memSDK (accessBody accessPlan) False (remote ?w1)
     = (Inr (grant ''102'' ''f1'' ''g1'' ''view''),
        emptyRemote\<lparr>mr_grants := [grant ''101'' ''f1'' ''g1'' ''view'', grant ''102'' ''f1'' ''g1'' ''view''],
                    mr_fresh := [''103'']\<rparr>)"
    using h2 by simp
  have c: "\<not> length (filter (\<lambda>e. mutating (fst e))
          (trace (snd (folderAccess_Create (Some memSDK) accessPlan emptyResponse
             (snd (folderAccess_Create (Some memSDK) accessPlan emptyResponse (start emptyRemote))))))) \<le> 1"
  proof -
    have s2: "trace (snd (folderAccess_Create (Some memSDK) accessPlan emptyResponse ?w1))
       = trace ?w1 @ [(CreateContentMetadataAccessCall (accessBody accessPlan) False, None)]"
      using folderAccess_Create_run[OF h2'] by (simp add: error_of_def)
    show ?thesis unfolding s1 s2 by (simp add: start_def)
  qed
  from a b c show ?thesis by blast
qed

text \<open>
  Claim C2, amended. Every run of \<open>Create\<close> issues exactly one call, a create call with the
  planned folder, group and level, whether or not a grant of the group exists, and records the
  identifier the remote answers. The read path issues the list call only: when a grant of the
  group exists, the tracked state takes the identifier and the level of that grant; when none
  exists the tracked state is removed.
\<close>

theorem folderAccess_Create_always_creates:
  "(CreateContentMetadataAccess sdk (accessBody plan) False (remote w) = (res, r1) \<longrightarrow>
      issued w (snd (folderAccess_Create (Some sdk) plan emptyResponse w))
        = [(CreateContentMetadataAccessCall (accessBody plan) False, error_of res)]
      \<and> remote (snd (folderAccess_Create (Some sdk) plan emptyResponse w)) = r1
      \<and> (\<forall>g. res = Inr g \<longrightarrow> fst (folderAccess_Create (Some sdk) plan emptyResponse w)
             = Returned \<lparr>State = Some (plan\<lparr>fa_ID := cm_Id g\<rparr>), Diagnostics = []\<rparr>))
   \<and> (AllContentMetadataAccesses sdk (ValueString (fa_FolderID state)) [] (remote w) = (Inr results, r2) \<longrightarrow>
      folderAccess_Read (Some sdk) state (trackedResponse state) w
        = (Returned (case scanAccessGrants (ValueString (fa_GroupID state)) results of
                       None \<Rightarrow> emptyResponse
                     | Some g \<Rightarrow> trackedResponse (state\<lparr>fa_ID := cm_Id g, fa_AccessLevel := cm_PermissionType g\<rparr>)),
           \<lparr>remote = r2,
            trace = trace w @ [(AllContentMetadataAccessesCall (ValueString (fa_FolderID state)) [], None)]\<rparr>))"
  by (auto simp: folderAccess_Create_run folderAccess_Read_run)

theorem folderAccess_Create_always_creates_witness:
  "CreateContentMetadataAccess memSDK (accessBody accessPlan) False (remote (start sharedFolder))
     = (Inr (grant ''101'' ''f1'' ''g1'' ''view''),
        sharedFolder\<lparr>mr_grants := mr_grants sharedFolder @ [grant ''101'' ''f1'' ''g1'' ''view''],
                               mr_fresh := [''102'', ''103'']\<rparr>)
   \<and> issued (start sharedFolder)
        (snd (folderAccess_Create (Some memSDK) accessPlan emptyResponse (start sharedFolder)))
      = [(CreateContentMetadataAccessCall (accessBody accessPlan) False, None)]
   \<and> fst (folderAccess_Create (Some memSDK) accessPlan emptyResponse (start sharedFolder))
      = Returned \<lparr>State = Some (accessPlan\<lparr>fa_ID := Some ''101''\<rparr>), Diagnostics = []\<rparr>
   \<and> AllContentMetadataAccesses memSDK (ValueString (fa_FolderID accessPlan)) [] (remote (start sharedFolder))
      = (Inr [grant ''7'' ''f1'' ''g2'' ''view'', grant ''8'' ''f1'' ''g1'' ''view'',
              grant ''9'' ''f1'' ''g1'' ''edit''], sharedFolder)
   \<and> folderAccess_Read (Some memSDK) accessPlan (trackedResponse accessPlan) (start sharedFolder)
      = (Returned (trackedResponse (accessPlan\<lparr>fa_ID := Some ''8''\<rparr>)),
         \<lparr>remote = sharedFolder, trace = [(AllContentMetadataAccessesCall ''f1'' [], None)]\<rparr>)"
proof -
  have h: "CreateContentMetadataAccess memSDK (accessBody accessPlan) False (remote (start sharedFolder))
     = (Inr (grant ''101'' ''f1'' ''g1'' ''view''),
        sharedFolder\<lparr>mr_grants := mr_grants sharedFolder @ [grant ''101'' ''f1'' ''g1'' ''view''],
                               mr_fresh := [''102'', ''103'']\<rparr>)"
    by (simp add: mem_defs sharedFolder_def accessBody_def accessPlan_def ValueString_def)
  have l: "AllContentMetadataAccesses memSDK (ValueString (fa_FolderID accessPlan)) [] (remote (start sharedFolder))
      = (Inr [grant ''7'' ''f1'' ''g2'' ''view'', grant ''8'' ''f1'' ''g1'' ''view'',
              grant ''9'' ''f1'' ''g1'' ''edit''], sharedFolder)"
    by (simp add: mem_defs sharedFolder_def accessPlan_def ValueString_def)
  note t = folderAccess_Create_always_creates[of memSDK accessPlan "start sharedFolder" _ _ accessPlan]
  have a: "issued (start sharedFolder)
        (snd (folderAccess_Create (Some memSDK) accessPlan emptyResponse (start sharedFolder)))
      = [(CreateContentMetadataAccessCall (accessBody accessPlan) False, None)]
    \<and> fst (folderAccess_Create (Some memSDK) accessPlan emptyResponse (start sharedFolder))
      = Returned \<lparr>State = Some (accessPlan\<lparr>fa_ID := Some ''101''\<rparr>), Diagnostics = []\<rparr>"
    using t[THEN conjunct1, THEN mp, OF h] by (simp add: error_of_def grant_def)
  have b: "folderAccess_Read (Some memSDK) accessPlan (trackedResponse accessPlan) (start sharedFolder)
      = (Returned (trackedResponse (accessPlan\<lparr>fa_ID := Some ''8''\<rparr>)),
         \<lparr>remote = sharedFolder, trace = [(AllContentMetadataAccessesCall ''f1'' [], None)]\<rparr>)"
    using t[THEN conjunct2, THEN mp, OF l]
    by (simp add: accessPlan_def ValueString_def grant_def start_def)
  from h l a b show ?thesis by blast
qed

section \<open>Properties of groups\<close>

lemma resolve_loop_append:
  "resolveUserEmailsToIDs_loop sdk (pre @ rest) acc w
     = (case resolveUserEmailsToIDs_loop sdk pre acc w of
          (Returned (Inr ids1), w1) \<Rightarrow> resolveUserEmailsToIDs_loop sdk rest ids1 w1
        | other \<Rightarrow> other)"
proof (induction pre arbitrary: acc w)
  case Nil
  then show ?case by simp
next
  case (Cons email pre)
  obtain res w' where inv: "invoke (SearchUsersCall (Some email)) (SearchUsers sdk (Some email)) w = (res, w')"
    by (cases "invoke (SearchUsersCall (Some email)) (SearchUsers sdk (Some email)) w")
  show ?case
  proof (cases res)
    case (Inl err)
    with inv show ?thesis by simp
  next
    case (Inr results)
    with inv Cons.IH show ?thesis
      by (cases "user_Id (results ! 0)") (auto split: prod.splits outcome.splits sum.splits)
  qed
qed

lemma duplicated_empty: "duplicated xs = [] \<longleftrightarrow> distinct xs"
proof -
  have "duplicated xs = [] \<longleftrightarrow> (\<forall>x \<in> set xs. count_list xs x \<le> 1)"
    by (auto simp: duplicated_def filter_empty_conv not_less)
  also have "\<dots> \<longleftrightarrow> distinct xs"
  proof
    assume a: "\<forall>x \<in> set xs. count_list xs x \<le> 1"
    have "\<And>a. count (mset xs) a = (if a \<in> set xs then 1 else 0)"
    proof -
      fix a
      show "count (mset xs) a = (if a \<in> set xs then 1 else 0)"
      proof (cases "a \<in> set xs")
        case True
        with a have "count_list xs a \<le> 1" by blast
        moreover from True have "count_list xs a \<noteq> 0" by (simp add: count_list_0_iff)
        ultimately have "count_list xs a = 1" by arith
        with True show ?thesis by (simp add: count_mset)
      next
        case False
        then show ?thesis by (simp add: count_list_0_iff)
      qed
    qed
    then show "distinct xs" by (simp add: distinct_count_atmost_1)
  next
    assume "distinct xs"
    then have "\<And>a. count_list xs a = (if a \<in> set xs then 1 else 0)"
      using distinct_count_atmost_1[of xs] by (simp add: count_mset)
    then show "\<forall>x \<in> set xs. count_list xs x \<le> 1" by simp
  qed
  finally show ?thesis .
qed

lemma distinct_duplicated: "distinct (duplicated xs)"
  by (simp add: duplicated_def)

lemma Append_fresh:
  "distinct new \<Longrightarrow> set ds \<inter> set new = {} \<Longrightarrow> Append ds new = ds @ new"
proof (induction new arbitrary: ds)
  case Nil
  then show ?case by (simp add: Append_def)
next
  case (Cons d new)
  from Cons.prems have "d \<notin> set ds" "distinct new" "set (ds @ [d]) \<inter> set new = {}" by auto
  with Cons.IH[of "ds @ [d]"] show ?case by (simp add: Append_def)
qed

lemma set_Append: "set (Append ds new) = set ds \<union> set new"
proof (induction new arbitrary: ds)
  case Nil
  then show ?case by (simp add: Append_def)
next
  case (Cons d new)
  from Cons.IH[of "if d \<in> set ds then ds else ds @ [d]"] show ?case
    by (auto simp: Append_def)
qed

lemma HasError_Append: "HasError (Append ds new) \<longleftrightarrow> HasError ds \<or> HasError new"
  by (auto simp: HasError_def list_ex_iff set_Append)

lemma resolved_Some: "resolved res = Some i \<longleftrightarrow> (\<exists>u. res = Inr [u] \<and> user_Id u = Some i)"
  by (cases res rule: resolved.cases) auto

lemma resolve_loop_resolved:
  "map resolved (searchAnswers sdk emails (remote w)) = map Some new \<Longrightarrow>
   resolveUserEmailsToIDs_loop sdk emails acc w
     = (Returned (Inr (acc @ new)),
        \<lparr>remote = afterSearches sdk emails (remote w),
         trace = trace w @ map (\<lambda>e. (SearchUsersCall (Some e), None)) emails\<rparr>)"
proof (induction emails arbitrary: acc w new)
  case Nil
  then show ?case by simp
next
  case (Cons email emails)
  obtain res r' where s: "SearchUsers sdk (Some email) (remote w) = (res, r')"
    by (cases "SearchUsers sdk (Some email) (remote w)")
  from Cons.prems s obtain uid new' where n: "new = uid # new'" "resolved res = Some uid"
      "map resolved (searchAnswers sdk emails r') = map Some new'"
    by (cases new) auto
  from n(2) obtain u where u: "res = Inr [u]" "user_Id u = Some uid" by (auto simp: resolved_Some)
  let ?w1 = "\<lparr>remote = r', trace = trace w @ [(SearchUsersCall (Some email), None)]\<rparr>"
  have inv: "invoke (SearchUsersCall (Some email)) (SearchUsers sdk (Some email)) w = (Inr [u], ?w1)"
    using s u by (simp add: invoke_def error_of_def)
  from n(3) have "map resolved (searchAnswers sdk emails (remote ?w1)) = map Some new'" by simp
  from Cons.IH[OF this, of "acc @ [uid]"] inv u n(1) s show ?case by simp
qed

lemma resolve_loop_only_resolved:
  "resolveUserEmailsToIDs_loop sdk emails acc w = (Returned (Inr ids), w')
   \<Longrightarrow> \<exists>new. ids = acc @ new \<and> map resolved (searchAnswers sdk emails (remote w)) = map Some new"
proof (induction emails arbitrary: acc w)
  case Nil
  then show ?case by simp
next
  case (Cons email emails)
  obtain res r' where s: "SearchUsers sdk (Some email) (remote w) = (res, r')"
    by (cases "SearchUsers sdk (Some email) (remote w)")
  let ?w1 = "\<lparr>remote = r', trace = trace w @ [(SearchUsersCall (Some email), error_of res)]\<rparr>"
  have inv: "invoke (SearchUsersCall (Some email)) (SearchUsers sdk (Some email)) w = (res, ?w1)"
    using s by (simp add: invoke_def)
  from Cons.prems inv obtain results where res: "res = Inr results"
    by (cases res) auto
  with Cons.prems inv have len: "length results = 1"
    by (cases results) (auto split: if_splits)
  then obtain u where one: "results = [u]"
    by (cases results) auto
  from Cons.prems inv res one obtain userId where
    r: "res = Inr [u]" "user_Id u = Some userId"
       "resolveUserEmailsToIDs_loop sdk emails (acc @ [userId]) ?w1 = (Returned (Inr ids), w')"
    by (cases "user_Id u") auto
  from Cons.IH[OF r(3)] obtain new where
    "ids = (acc @ [userId]) @ new" "map resolved (searchAnswers sdk emails r') = map Some new" by auto
  with r s show ?case by (intro exI[of _ "userId # new"]) simp
qed

lemma answers_split:
  "(\<exists>ids. map resolved (searchAnswers sdk emails r) = map Some ids)
   \<or> (\<exists>pre email post ids1. emails = pre @ email # post
         \<and> map resolved (searchAnswers sdk pre r) = map Some ids1
         \<and> resolved (fst (SearchUsers sdk (Some email) (afterSearches sdk pre r))) = None)"
proof (induction emails arbitrary: r)
  case Nil
  then show ?case by simp
next
  case (Cons email emails)
  let ?res = "fst (SearchUsers sdk (Some email) r)"
  let ?r' = "snd (SearchUsers sdk (Some email) r)"
  show ?case
  proof (cases "resolved ?res")
    case None
    then have "email # emails = [] @ email # emails
         \<and> map resolved (searchAnswers sdk [] r) = map Some []
         \<and> resolved (fst (SearchUsers sdk (Some email) (afterSearches sdk [] r))) = None" by simp
    then show ?thesis by blast
  next
    case (Some uid)
    from Cons.IH[of ?r'] show ?thesis
    proof
      assume "\<exists>ids. map resolved (searchAnswers sdk emails ?r') = map Some ids"
      then obtain ids where "map resolved (searchAnswers sdk emails ?r') = map Some ids" ..
      with Some have "map resolved (searchAnswers sdk (email # emails) r) = map Some (uid # ids)" by simp
      then show ?thesis by blast
    next
      assume "\<exists>pre e post ids1. emails = pre @ e # post
         \<and> map resolved (searchAnswers sdk pre ?r') = map Some ids1
         \<and> resolved (fst (SearchUsers sdk (Some e) (afterSearches sdk pre ?r'))) = None"
      then obtain pre e post ids1 where p: "emails = pre @ e # post"
         "map resolved (searchAnswers sdk pre ?r') = map Some ids1"
         "resolved (fst (SearchUsers sdk (Some e) (afterSearches sdk pre ?r'))) = None" by blast
      with Some have "email # emails = (email # pre) @ e # post
         \<and> map resolved (searchAnswers sdk (email # pre) r) = map Some (uid # ids1)
         \<and> resolved (fst (SearchUsers sdk (Some e) (afterSearches sdk (email # pre) r))) = None" by simp
      then show ?thesis by blast
    qed
  qed
qed

text \<open>
  When searching leaves the remote as it is, the answers are those of the single searches,
  each made on the remote as it was at the start.
\<close>

lemma searchAnswers_pure:
  "(\<And>e r. snd (SearchUsers sdk e r) = r) \<Longrightarrow>
   searchAnswers sdk emails r = map (\<lambda>e. fst (SearchUsers sdk (Some e) r)) emails
   \<and> afterSearches sdk emails r = r"
  by (induction emails) simp_all


text \<open>
  Claim C7. Resolving emails searches them one at a time, in order. The run succeeds exactly
  when every answer of the remote lists one user, and then it returns the identifiers of
  these users, one per email and in the order of the emails, after one search per email. At the
  first email whose search fails, finds no user ("no user found") or finds more than one user
  ("multiple users found"), the run stops with that error: no later email is searched and no
  identifier is returned (a single match without identifier makes the run panic). Every list of
  emails is of one of these two kinds.
\<close>

theorem resolveUserEmailsToIDs_all_or_first_error:
  "(fst (resolveUserEmailsToIDs sdk emails w) = Returned (Inr ids)
      \<longleftrightarrow> map resolved (searchAnswers sdk emails (remote w)) = map Some ids)
   \<and> (map resolved (searchAnswers sdk emails (remote w)) = map Some ids \<longrightarrow>
        issued w (snd (resolveUserEmailsToIDs sdk emails w))
          = map (\<lambda>e. (SearchUsersCall (Some e), None)) emails)
   \<and> (map resolved (searchAnswers sdk pre (remote w)) = map Some found
        \<and> SearchUsers sdk (Some email) (afterSearches sdk pre (remote w)) = (res, r2)
        \<and> resolved res = None \<longrightarrow>
       resolveUserEmailsToIDs sdk (pre @ email # post) w =
         (case res of
            Inl err \<Rightarrow>
              Returned (Inl (''API error searching for user with email '' @ email @ '': '' @ err))
          | Inr [] \<Rightarrow> Returned (Inl (''no user found with email '' @ email))
          | Inr [u] \<Rightarrow> Panicked
          | Inr (u # v # others) \<Rightarrow> Returned (Inl (''multiple users found with email '' @ email)),
          \<lparr>remote = r2,
           trace = trace w @ map (\<lambda>e. (SearchUsersCall (Some e), None)) pre
                   @ [(SearchUsersCall (Some email), error_of res)]\<rparr>))
   \<and> ((\<exists>all. map resolved (searchAnswers sdk emails (remote w)) = map Some all)
       \<or> (\<exists>before e after some. emails = before @ e # after
             \<and> map resolved (searchAnswers sdk before (remote w)) = map Some some
             \<and> resolved (fst (SearchUsers sdk (Some e) (afterSearches sdk before (remote w)))) = None))"
proof (intro conjI impI)
  show "fst (resolveUserEmailsToIDs sdk emails w) = Returned (Inr ids)
      \<longleftrightarrow> map resolved (searchAnswers sdk emails (remote w)) = map Some ids"
  proof
    assume a: "fst (resolveUserEmailsToIDs sdk emails w) = Returned (Inr ids)"
    then have "resolveUserEmailsToIDs_loop sdk emails [] w
        = (Returned (Inr ids), snd (resolveUserEmailsToIDs sdk emails w))"
      by (simp add: resolveUserEmailsToIDs_def prod_eq_iff)
    from resolve_loop_only_resolved[OF this]
    show "map resolved (searchAnswers sdk emails (remote w)) = map Some ids" by simp
  next
    assume "map resolved (searchAnswers sdk emails (remote w)) = map Some ids"
    from resolve_loop_resolved[OF this, of "[]"]
    show "fst (resolveUserEmailsToIDs sdk emails w) = Returned (Inr ids)"
      by (simp add: resolveUserEmailsToIDs_def)
  qed
next
  assume "map resolved (searchAnswers sdk emails (remote w)) = map Some ids"
  from resolve_loop_resolved[OF this, of "[]"]
  show "issued w (snd (resolveUserEmailsToIDs sdk emails w))
          = map (\<lambda>e. (SearchUsersCall (Some e), None)) emails"
    by (simp add: resolveUserEmailsToIDs_def)
next
  assume a: "map resolved (searchAnswers sdk pre (remote w)) = map Some found
        \<and> SearchUsers sdk (Some email) (afterSearches sdk pre (remote w)) = (res, r2)
        \<and> resolved res = None"
  let ?w1 = "\<lparr>remote = afterSearches sdk pre (remote w),
              trace = trace w @ map (\<lambda>e. (SearchUsersCall (Some e), None)) pre\<rparr>"
  let ?w2 = "\<lparr>remote = r2,
              trace = trace w @ map (\<lambda>e. (SearchUsersCall (Some e), None)) pre
                      @ [(SearchUsersCall (Some email), error_of res)]\<rparr>"
  from a have p: "resolveUserEmailsToIDs_loop sdk pre [] w = (Returned (Inr found), ?w1)"
    using resolve_loop_resolved[of sdk pre w found "[]"] by simp
  from a have inv: "invoke (SearchUsersCall (Some email)) (SearchUsers sdk (Some email)) ?w1 = (res, ?w2)"
    by (simp add: invoke_def)
  have e: "resolveUserEmailsToIDs sdk (pre @ email # post) w
      = resolveUserEmailsToIDs_loop sdk (email # post) found ?w1"
    by (simp add: resolveUserEmailsToIDs_def resolve_loop_append p)
  show "resolveUserEmailsToIDs sdk (pre @ email # post) w =
         (case res of
            Inl err \<Rightarrow>
              Returned (Inl (''API error searching for user with email '' @ email @ '': '' @ err))
          | Inr [] \<Rightarrow> Returned (Inl (''no user found with email '' @ email))
          | Inr [u] \<Rightarrow> Panicked
          | Inr (u # v # others) \<Rightarrow> Returned (Inl (''multiple users found with email '' @ email)),
          ?w2)"
  proof (cases res)
    case (Inl err)
    with e inv show ?thesis by simp
  next
    case (Inr results)
    show ?thesis
    proof (cases results)
      case Nil
      with e inv Inr show ?thesis by simp
    next
      case (Cons u more)
      show ?thesis
      proof (cases more)
        case Nil
        with a Inr Cons have "user_Id u = None" by simp
        with e inv Inr Cons Nil show ?thesis by simp
      next
        case (Cons v others)
        with e inv Inr \<open>results = u # more\<close> show ?thesis by simp
      qed
    qed
  qed
next
  show "(\<exists>all. map resolved (searchAnswers sdk emails (remote w)) = map Some all)
       \<or> (\<exists>before e after some. emails = before @ e # after
             \<and> map resolved (searchAnswers sdk before (remote w)) = map Some some
             \<and> resolved (fst (SearchUsers sdk (Some e) (afterSearches sdk before (remote w)))) = None)"
    by (rule answers_split)
qed

theorem resolveUserEmailsToIDs_all_or_first_error_witness:
  "map resolved (searchAnswers memSDK [''a@x.io'', ''e@x.io''] (remote (start directory)))
     = map Some [''u2'', ''u5'']
   \<and> fst (resolveUserEmailsToIDs memSDK [''a@x.io'', ''e@x.io''] (start directory))
     = Returned (Inr [''u2'', ''u5''])
   \<and> issued (start directory) (snd (resolveUserEmailsToIDs memSDK [''a@x.io'', ''e@x.io''] (start directory)))
     = [(SearchUsersCall (Some ''a@x.io''), None), (SearchUsersCall (Some ''e@x.io''), None)]
   \<and> resolveUserEmailsToIDs memSDK ([''a@x.io''] @ ''b@x.io'' # [''e@x.io'']) (start directory)
     = (Returned (Inl ''multiple users found with email b@x.io''),
        \<lparr>remote = directory,
         trace = [(SearchUsersCall (Some ''a@x.io''), None), (SearchUsersCall (Some ''b@x.io''), None)]\<rparr>)
   \<and> resolveUserEmailsToIDs memSDK ([''a@x.io''] @ ''c@x.io'' # [''e@x.io'']) (start directory)
     = (Returned (Inl ''no user found with email c@x.io''),
        \<lparr>remote = directory,
         trace = [(SearchUsersCall (Some ''a@x.io''), None), (SearchUsersCall (Some ''c@x.io''), None)]\<rparr>)"
proof -
  have all: "map resolved (searchAnswers memSDK [''a@x.io'', ''e@x.io''] (remote (start directory)))
     = map Some [''u2'', ''u5'']"
    by (simp add: memSDK_def mem_SearchUsers_def directory_def emptyRemote_def start_def)
  have one: "map resolved (searchAnswers memSDK [''a@x.io''] (remote (start directory))) = map Some [''u2'']"
    by (simp add: memSDK_def mem_SearchUsers_def directory_def emptyRemote_def start_def)
  have b: "SearchUsers memSDK (Some ''b@x.io'') (afterSearches memSDK [''a@x.io''] (remote (start directory)))
     = (Inr [\<lparr>user_Id = Some ''u3'', user_Email = Some ''b@x.io''\<rparr>,
             \<lparr>user_Id = Some ''u4'', user_Email = Some ''b@x.io''\<rparr>], directory)"
    by (simp add: memSDK_def mem_SearchUsers_def directory_def emptyRemote_def start_def)
  have c: "SearchUsers memSDK (Some ''c@x.io'') (afterSearches memSDK [''a@x.io''] (remote (start directory)))
     = (Inr [], directory)"
    by (simp add: memSDK_def mem_SearchUsers_def directory_def emptyRemote_def start_def)
  note t = resolveUserEmailsToIDs_all_or_first_error[where sdk = memSDK and w = "start directory"
      and emails = "[''a@x.io'', ''e@x.io'']" and ids = "[''u2'', ''u5'']"
      and pre = "[''a@x.io'']" and found = "[''u2'']" and post = "[''e@x.io'']"]
  have ok: "fst (resolveUserEmailsToIDs memSDK [''a@x.io'', ''e@x.io''] (start directory))
     = Returned (Inr [''u2'', ''u5''])"
    using t[THEN conjunct1] all by simp
  have tr: "issued (start directory) (snd (resolveUserEmailsToIDs memSDK [''a@x.io'', ''e@x.io''] (start directory)))
     = [(SearchUsersCall (Some ''a@x.io''), None), (SearchUsersCall (Some ''e@x.io''), None)]"
    using t[THEN conjunct2, THEN conjunct1, THEN mp, OF all] by simp
  have mb: "resolveUserEmailsToIDs memSDK ([''a@x.io''] @ ''b@x.io'' # [''e@x.io'']) (start directory)
     = (Returned (Inl ''multiple users found with email b@x.io''),
        \<lparr>remote = directory,
         trace = [(SearchUsersCall (Some ''a@x.io''), None), (SearchUsersCall (Some ''b@x.io''), None)]\<rparr>)"
    using t[THEN conjunct2, THEN conjunct2, THEN conjunct1, THEN mp, OF conjI[OF one conjI[OF b]]]
    by (simp add: start_def error_of_def)
  have mc: "resolveUserEmailsToIDs memSDK ([''a@x.io''] @ ''c@x.io'' # [''e@x.io'']) (start directory)
     = (Returned (Inl ''no user found with email c@x.io''),
        \<lparr>remote = directory,
         trace = [(SearchUsersCall (Some ''a@x.io''), None), (SearchUsersCall (Some ''c@x.io''), None)]\<rparr>)"
    using t[THEN conjunct2, THEN conjunct2, THEN conjunct1, THEN mp, OF conjI[OF one conjI[OF c]]]
    by (simp add: start_def error_of_def)
  from all ok tr mb mc show ?thesis by blast
qed

lemma collectUserIds_ok:
  "collectUserIds users acc = Returned ids \<longleftrightarrow> map Some ids = map Some acc @ map user_Id users"
proof (induction users arbitrary: acc)
  case Nil
  then show ?case by (auto simp: inj_map_eq_map)
next
  case (Cons u users)
  show ?case
  proof (cases "user_Id u")
    case None
    then show ?thesis
      by (auto simp: map_eq_append_conv map_eq_Cons_conv)
  next
    case (Some i)
    with Cons.IH[of "acc @ [i]"] show ?thesis by simp
  qed
qed

lemma SetValueFrom_distinct:
  "distinct xs \<Longrightarrow> SetValueFrom xs = Inr (if xs = [] then SetNull else SetValue xs)"
  by (simp add: SetValueFrom_def duplicated_empty)

lemma SetValueFrom_repeated:
  "\<not> distinct xs \<Longrightarrow> SetValueFrom xs = Inl (duplicateErrors xs) \<and> HasError (duplicateErrors xs)"
proof -
  assume a: "\<not> distinct xs"
  then have d: "duplicated xs \<noteq> []" by (simp add: duplicated_empty)
  from a have "xs \<noteq> []" by auto
  with d have "SetValueFrom xs = Inl (duplicateErrors xs)" by (simp add: SetValueFrom_def)
  moreover from d have "HasError (duplicateErrors xs)"
    by (cases "duplicated xs") (simp_all add: HasError_def duplicateErrors_def)
  ultimately show ?thesis by simp
qed

lemma SetValueFrom_Inr:
  "SetValueFrom xs = Inr s \<Longrightarrow> ElementsAs s = xs \<and> distinct xs"
  by (cases "distinct xs") (auto simp: SetValueFrom_distinct SetValueFrom_repeated ElementsAs_def)

lemma Append_duplicateErrors: "Append [] (duplicateErrors xs) = duplicateErrors xs"
proof -
  have "inj (\<lambda>x. ErrorDiagnostic ''Duplicate Set Element''
                (''This attribute contains duplicate values of: '' @ [CHR 0x22] @ x @ [CHR 0x22]))"
    by (simp add: inj_def)
  then have "distinct (duplicateErrors xs)"
    unfolding duplicateErrors_def by (simp add: distinct_map distinct_duplicated inj_on_def inj_def)
  then show ?thesis using Append_fresh[of "duplicateErrors xs" "[]"] by simp
qed

text \<open>
  Claim C10. Every group read that keeps a state and reports no error went through both remote
  calls and stores in \<open>user_ids\<close> exactly the identifiers of the members the remote lists,
  with \<open>user_emails\<close> null, whatever the tracked state held before. Such reads exist: when
  both calls succeed and the listed identifiers are all different, the read succeeds with this
  state. When the remote lists an identifier twice, the set cannot be built and the read
  reports "Duplicate Set Element" and leaves the tracked state as it was.
\<close>

theorem group_Read_membership:
  "(GetGroup sdk (ValueString (g_ID state)) ''id,name'' (remote w) = (Inr grp, r1)
      \<and> AllGroupUsers sdk (ValueString (g_ID state)) r1 = (Inr users, r2)
      \<and> map user_Id users = map Some ids
    \<longrightarrow> group_Read (Some sdk) state (trackedResponse state) w
          = (Returned
               (if distinct ids
                then trackedResponse
                       (state\<lparr>g_Name := group_Name grp,
                              g_UserIDs := (if ids = [] then SetNull else SetValue ids),
                              g_UserEmails := SetNull\<rparr>)
                else (trackedResponse state)\<lparr>Diagnostics := duplicateErrors ids\<rparr>),
             \<lparr>remote = r2,
              trace = trace w @ [(GroupCall (ValueString (g_ID state)) ''id,name'', None),
                                 (AllGroupUsersCall (ValueString (g_ID state)), None)]\<rparr>)
        \<and> set ids = {i. \<exists>u \<in> set users. user_Id u = Some i}
        \<and> (\<not> distinct ids \<longrightarrow> HasError (duplicateErrors ids)))
   \<and> (group_Read r_sdk state (trackedResponse state) w = (Returned resp, w')
        \<and> \<not> HasError (Diagnostics resp) \<and> State resp = Some state'
    \<longrightarrow> g_UserEmails state' = SetNull
        \<and> distinct (ElementsAs (g_UserIDs state'))
        \<and> (\<exists>sdk' grp' r1' users' r2'. r_sdk = Some sdk'
              \<and> GetGroup sdk' (ValueString (g_ID state)) ''id,name'' (remote w) = (Inr grp', r1')
              \<and> AllGroupUsers sdk' (ValueString (g_ID state)) r1' = (Inr users', r2')
              \<and> map user_Id users' = map Some (ElementsAs (g_UserIDs state'))
              \<and> set (ElementsAs (g_UserIDs state')) = {i. \<exists>u \<in> set users'. user_Id u = Some i}))"
proof (intro conjI impI)
  assume a: "GetGroup sdk (ValueString (g_ID state)) ''id,name'' (remote w) = (Inr grp, r1)
      \<and> AllGroupUsers sdk (ValueString (g_ID state)) r1 = (Inr users, r2)
      \<and> map user_Id users = map Some ids"
  then have c: "collectUserIds users [] = Returned ids" by (simp add: collectUserIds_ok)
  show "group_Read (Some sdk) state (trackedResponse state) w
          = (Returned
               (if distinct ids
                then trackedResponse
                       (state\<lparr>g_Name := group_Name grp,
                              g_UserIDs := (if ids = [] then SetNull else SetValue ids),
                              g_UserEmails := SetNull\<rparr>)
                else (trackedResponse state)\<lparr>Diagnostics := duplicateErrors ids\<rparr>),
             \<lparr>remote = r2,
              trace = trace w @ [(GroupCall (ValueString (g_ID state)) ''id,name'', None),
                                 (AllGroupUsersCall (ValueString (g_ID state)), None)]\<rparr>)"
  proof (cases "distinct ids")
    case True
    with a c SetValueFrom_distinct[OF True] show ?thesis
      by (simp add: group_Read_def trackedResponse_def HasError_def Let_def invoke_def error_of_def
          State_Set_def StringPointerValue_def)
  next
    case False
    with a c SetValueFrom_repeated[OF False] show ?thesis
      by (simp add: group_Read_def trackedResponse_def HasError_def Let_def invoke_def error_of_def
          Append_duplicateErrors)
  qed
  from a have "Some ` set ids = user_Id ` set users" by (metis set_map)
  then show "set ids = {i. \<exists>u \<in> set users. user_Id u = Some i}"
    by (auto simp: image_iff) (metis imageI image_iff option.inject)+
  show "HasError (duplicateErrors ids)" if "\<not> distinct ids"
    using SetValueFrom_repeated[OF that] by simp
next
  assume a: "group_Read r_sdk state (trackedResponse state) w = (Returned resp, w')
        \<and> \<not> HasError (Diagnostics resp) \<and> State resp = Some state'"
  then obtain sdk' where s: "r_sdk = Some sdk'"
    by (cases r_sdk) (auto simp: group_Read_def AddError_def HasError_def)
  obtain gres r1' where g: "GetGroup sdk' (ValueString (g_ID state)) ''id,name'' (remote w) = (gres, r1')"
    by (cases "GetGroup sdk' (ValueString (g_ID state)) ''id,name'' (remote w)")
  obtain ures r2' where u: "AllGroupUsers sdk' (ValueString (g_ID state)) r1' = (ures, r2')"
    by (cases "AllGroupUsers sdk' (ValueString (g_ID state)) r1'")
  from a s g obtain grp' where gr: "gres = Inr grp'"
    by (cases gres) (auto simp: group_Read_def trackedResponse_def HasError_def Let_def invoke_def
        RemoveResource_def)
  from a s g u gr obtain users' where us: "ures = Inr users'"
    by (cases ures) (auto simp: group_Read_def trackedResponse_def HasError_def Let_def invoke_def
        AddError_def)
  from a s g u gr us obtain ids where c: "collectUserIds users' [] = Returned ids"
    by (cases "collectUserIds users' []")
       (auto simp: group_Read_def trackedResponse_def HasError_def Let_def invoke_def)
  have d: "distinct ids"
  proof (rule ccontr)
    assume n: "\<not> distinct ids"
    have "\<not> HasError []" by (simp add: HasError_def)
    with a s g u gr us c SetValueFrom_repeated[OF n] show False
      by (auto simp: group_Read_def trackedResponse_def Let_def invoke_def Append_duplicateErrors)
  qed
  from a s g u gr us c SetValueFrom_distinct[OF d]
  have st: "state' = state\<lparr>g_Name := group_Name grp',
              g_UserIDs := (if ids = [] then SetNull else SetValue ids), g_UserEmails := SetNull\<rparr>"
    by (auto simp: group_Read_def trackedResponse_def HasError_def Let_def invoke_def
        State_Set_def StringPointerValue_def)
  then have e: "ElementsAs (g_UserIDs state') = ids" by (simp add: ElementsAs_def)
  from st show "g_UserEmails state' = SetNull" by simp
  from e d show "distinct (ElementsAs (g_UserIDs state'))" by simp
  from c have m: "map user_Id users' = map Some ids" by (simp add: collectUserIds_ok)
  then have "Some ` set ids = user_Id ` set users'" by (metis set_map)
  then have "set ids = {i. \<exists>u \<in> set users'. user_Id u = Some i}"
    by (auto simp: image_iff) (metis imageI image_iff option.inject)+
  with s g u gr us m e
  show "\<exists>sdk' grp' r1' users' r2'. r_sdk = Some sdk'
              \<and> GetGroup sdk' (ValueString (g_ID state)) ''id,name'' (remote w) = (Inr grp', r1')
              \<and> AllGroupUsers sdk' (ValueString (g_ID state)) r1' = (Inr users', r2')
              \<and> map user_Id users' = map Some (ElementsAs (g_UserIDs state'))
              \<and> set (ElementsAs (g_UserIDs state')) = {i. \<exists>u \<in> set users'. user_Id u = Some i}"
    by simp
qed

theorem group_Read_membership_witness:
  "GetGroup memSDK (ValueString (g_ID devs)) ''id,name'' (remote (start devsRemote))
     = (Inr \<lparr>group_Id = Some ''5'', group_Name = Some ''developers''\<rparr>, devsRemote)
   \<and> AllGroupUsers memSDK (ValueString (g_ID devs)) devsRemote
     = (Inr [\<lparr>user_Id = Some ''u1'', user_Email = None\<rparr>, \<lparr>user_Id = Some ''u2'', user_Email = None\<rparr>],
        devsRemote)
   \<and> group_Read (Some memSDK) devs (trackedResponse devs) (start devsRemote)
     = (Returned (trackedResponse
          \<lparr>g_ID = Some ''5'', g_Name = Some ''developers'', g_UserIDs = SetValue [''u1'', ''u2''],
           g_UserEmails = SetNull\<rparr>),
        \<lparr>remote = devsRemote,
         trace = [(GroupCall ''5'' ''id,name'', None), (AllGroupUsersCall ''5'', None)]\<rparr>)
   \<and> AllGroupUsers memSDK (ValueString (g_ID devs)) listedTwice
     = (Inr [\<lparr>user_Id = Some ''u1'', user_Email = None\<rparr>, \<lparr>user_Id = Some ''u2'', user_Email = None\<rparr>,
             \<lparr>user_Id = Some ''u1'', user_Email = None\<rparr>], listedTwice)
   \<and> group_Read (Some memSDK) devs (trackedResponse devs) (start listedTwice)
     = (Returned \<lparr>State = Some devs, Diagnostics =
          [ErrorDiagnostic ''Duplicate Set Element''
             (''This attribute contains duplicate values of: '' @ [CHR 0x22] @ ''u1'' @ [CHR 0x22])]\<rparr>,
        \<lparr>remote = listedTwice,
         trace = [(GroupCall ''5'' ''id,name'', None), (AllGroupUsersCall ''5'', None)]\<rparr>)"
proof -
  have g: "GetGroup memSDK (ValueString (g_ID devs)) ''id,name'' (remote (start devsRemote))
     = (Inr \<lparr>group_Id = Some ''5'', group_Name = Some ''developers''\<rparr>, devsRemote)"
    by (simp add: memSDK_def mem_GetGroup_def devs_def devsRemote_def emptyRemote_def start_def
        ValueString_def)
  have u: "AllGroupUsers memSDK (ValueString (g_ID devs)) devsRemote
     = (Inr [\<lparr>user_Id = Some ''u1'', user_Email = None\<rparr>, \<lparr>user_Id = Some ''u2'', user_Email = None\<rparr>],
        devsRemote)"
    by (simp add: memSDK_def mem_AllGroupUsers_def devs_def devsRemote_def emptyRemote_def
        ValueString_def)
  have m: "map user_Id [\<lparr>user_Id = Some ''u1'', user_Email = None\<rparr>, \<lparr>user_Id = Some ''u2'', user_Email = None\<rparr>]
     = map Some [''u1'', ''u2'']" by simp
  have ok: "group_Read (Some memSDK) devs (trackedResponse devs) (start devsRemote)
     = (Returned (trackedResponse
          \<lparr>g_ID = Some ''5'', g_Name = Some ''developers'', g_UserIDs = SetValue [''u1'', ''u2''],
           g_UserEmails = SetNull\<rparr>),
        \<lparr>remote = devsRemote,
         trace = [(GroupCall ''5'' ''id,name'', None), (AllGroupUsersCall ''5'', None)]\<rparr>)"
    using group_Read_membership[THEN conjunct1, THEN mp, OF conjI[OF g conjI[OF u m]], THEN conjunct1]
    by (simp add: devs_def ValueString_def start_def)
  have g2: "GetGroup memSDK (ValueString (g_ID devs)) ''id,name'' (remote (start listedTwice))
     = (Inr \<lparr>group_Id = Some ''5'', group_Name = Some ''developers''\<rparr>, listedTwice)"
    by (simp add: memSDK_def mem_GetGroup_def devs_def listedTwice_def devsRemote_def emptyRemote_def
        start_def ValueString_def)
  have u2: "AllGroupUsers memSDK (ValueString (g_ID devs)) listedTwice
     = (Inr [\<lparr>user_Id = Some ''u1'', user_Email = None\<rparr>, \<lparr>user_Id = Some ''u2'', user_Email = None\<rparr>,
             \<lparr>user_Id = Some ''u1'', user_Email = None\<rparr>], listedTwice)"
    by (simp add: memSDK_def mem_AllGroupUsers_def devs_def listedTwice_def devsRemote_def
        emptyRemote_def ValueString_def)
  have m2: "map user_Id [\<lparr>user_Id = Some ''u1'', user_Email = None\<rparr>, \<lparr>user_Id = Some ''u2'', user_Email = None\<rparr>,
             \<lparr>user_Id = Some ''u1'', user_Email = None\<rparr>]
     = map Some [''u1'', ''u2'', ''u1'']" by simp
  have twice: "group_Read (Some memSDK) devs (trackedResponse devs) (start listedTwice)
     = (Returned \<lparr>State = Some devs, Diagnostics =
          [ErrorDiagnostic ''Duplicate Set Element''
             (''This attribute contains duplicate values of: '' @ [CHR 0x22] @ ''u1'' @ [CHR 0x22])]\<rparr>,
        \<lparr>remote = listedTwice,
         trace = [(GroupCall ''5'' ''id,name'', None), (AllGroupUsersCall ''5'', None)]\<rparr>)"
    using group_Read_membership[THEN conjunct1, THEN mp, OF conjI[OF g2 conjI[OF u2 m2]], THEN conjunct1]
    by (simp add: devs_def ValueString_def start_def trackedResponse_def duplicateErrors_def
        duplicated_def)
  from g u ok u2 twice show ?thesis by blast
qed

lemma fold_store_keys:
  "distinct (map fst m) \<Longrightarrow>
   distinct (map fst (fold (\<lambda>id m. map_store id True m) ids m))
   \<and> set (map fst (fold (\<lambda>id m. map_store id True m) ids m)) = set (map fst m) \<union> set ids
   \<and> (\<forall>k. map_index (fold (\<lambda>id m. map_store id True m) ids m) k = (map_index m k \<or> k \<in> set ids))"
proof (induction ids arbitrary: m)
  case Nil
  then show ?case by simp
next
  case (Cons i ids)
  have d: "distinct (map fst (map_store i True m))"
    using Cons.prems by (simp add: map_store_def distinct_update)
  have k: "set (map fst (map_store i True m)) = insert i (set (map fst m))"
    by (simp add: map_store_def dom_update)
  have x: "map_index (map_store i True m) k = (map_index m k \<or> k = i)" for k
    by (simp add: map_store_def map_index_def update_conv')
  from Cons.IH[OF d] k x show ?case by auto
qed

lemma make_users_props:
  "distinct (map fst (make_users ids))"
  "set (map fst (make_users ids)) = set ids"
  "map_index (make_users ids) k = (k \<in> set ids)"
  using fold_store_keys[of "[]" ids] by (simp_all add: make_users_def map_index_def)

lemma addMissing_loop_trace:
  "addMissing_loop sdk g stateUsers ks w = (res, w') \<Longrightarrow>
   \<exists>us rest evs. filter (\<lambda>u. \<not> map_index stateUsers u) ks = us @ rest
     \<and> trace w' = trace w @ evs
     \<and> map fst evs = map (\<lambda>u. AddGroupUserCall g (Some u)) us
     \<and> (res = None \<longrightarrow> rest = [])"
proof (induction ks arbitrary: w)
  case Nil
  then show ?case by simp
next
  case (Cons k ks)
  show ?case
  proof (cases "map_index stateUsers k")
    case True
    with Cons.prems have "addMissing_loop sdk g stateUsers ks w = (res, w')" by simp
    from Cons.IH[OF this] True show ?thesis by simp
  next
    case False
    obtain r w1 where inv: "invoke (AddGroupUserCall g (Some k)) (AddGroupUser sdk g (Some k)) w = (r, w1)"
      and tr: "trace w1 = trace w @ [(AddGroupUserCall g (Some k), error_of r)]"
      using invoke_trace by blast
    show ?thesis
    proof (cases r)
      case (Inl err)
      with False inv Cons.prems have "res = Some (k, err)" "w' = w1" by simp_all
      with tr False have
        "filter (\<lambda>u. \<not> map_index stateUsers u) (k # ks) = [k] @ filter (\<lambda>u. \<not> map_index stateUsers u) ks
         \<and> trace w' = trace w @ [(AddGroupUserCall g (Some k), error_of r)]
         \<and> map fst [(AddGroupUserCall g (Some k), error_of r)] = map (\<lambda>u. AddGroupUserCall g (Some u)) [k]
         \<and> (res = None \<longrightarrow> filter (\<lambda>u. \<not> map_index stateUsers u) ks = [])"
        by simp
      then show ?thesis by blast
    next
      case (Inr v)
      with False inv Cons.prems have "addMissing_loop sdk g stateUsers ks w1 = (res, w')" by simp
      from Cons.IH[OF this] obtain us rest evs where
        f: "filter (\<lambda>u. \<not> map_index stateUsers u) ks = us @ rest"
        and t: "trace w' = trace w1 @ evs"
        and m: "map fst evs = map (\<lambda>u. AddGroupUserCall g (Some u)) us"
        and n: "res = None \<longrightarrow> rest = []"
        by blast
      from f False have f': "filter (\<lambda>u. \<not> map_index stateUsers u) (k # ks) = (k # us) @ rest" by simp
      from t tr have t': "trace w' = trace w @ ((AddGroupUserCall g (Some k), error_of r) # evs)" by simp
      from m have m': "map fst ((AddGroupUserCall g (Some k), error_of r) # evs)
          = map (\<lambda>u. AddGroupUserCall g (Some u)) (k # us)" by simp
      from f' t' m' n show ?thesis by blast
    qed
  qed
qed

lemma removeExtra_loop_trace:
  "removeExtra_loop sdk g planUsers ks w = (res, w') \<Longrightarrow>
   \<exists>us rest evs. filter (\<lambda>u. \<not> map_index planUsers u) ks = us @ rest
     \<and> trace w' = trace w @ evs
     \<and> map fst evs = map (\<lambda>u. DeleteGroupUserCall g u) us
     \<and> (res = None \<longrightarrow> rest = [])"
proof (induction ks arbitrary: w)
  case Nil
  then show ?case by simp
next
  case (Cons k ks)
  show ?case
  proof (cases "map_index planUsers k")
    case True
    with Cons.prems have "removeExtra_loop sdk g planUsers ks w = (res, w')" by simp
    from Cons.IH[OF this] True show ?thesis by simp
  next
    case False
    obtain r w1 where inv: "invoke (DeleteGroupUserCall g k) (DeleteGroupUser sdk g k) w = (r, w1)"
      and tr: "trace w1 = trace w @ [(DeleteGroupUserCall g k, error_of r)]"
      using invoke_trace by blast
    show ?thesis
    proof (cases r)
      case (Inl err)
      with False inv Cons.prems have "res = Some (k, err)" "w' = w1" by simp_all
      with tr False have
        "filter (\<lambda>u. \<not> map_index planUsers u) (k # ks) = [k] @ filter (\<lambda>u. \<not> map_index planUsers u) ks
         \<and> trace w' = trace w @ [(DeleteGroupUserCall g k, error_of r)]
         \<and> map fst [(DeleteGroupUserCall g k, error_of r)] = map (\<lambda>u. DeleteGroupUserCall g u) [k]
         \<and> (res = None \<longrightarrow> filter (\<lambda>u. \<not> map_index planUsers u) ks = [])"
        by simp
      then show ?thesis by blast
    next
      case (Inr v)
      with False inv Cons.prems have "removeExtra_loop sdk g planUsers ks w1 = (res, w')" by simp
      from Cons.IH[OF this] obtain us rest evs where
        f: "filter (\<lambda>u. \<not> map_index planUsers u) ks = us @ rest"
        and t: "trace w' = trace w1 @ evs"
        and m: "map fst evs = map (\<lambda>u. DeleteGroupUserCall g u) us"
        and n: "res = None \<longrightarrow> rest = []"
        by blast
      from f False have f': "filter (\<lambda>u. \<not> map_index planUsers u) (k # ks) = (k # us) @ rest" by simp
      from t tr have t': "trace w' = trace w @ ((DeleteGroupUserCall g k, error_of r) # evs)" by simp
      from m have m': "map fst ((DeleteGroupUserCall g k, error_of r) # evs)
          = map (\<lambda>u. DeleteGroupUserCall g u) (k # us)" by simp
      from f' t' m' n show ?thesis by blast
    qed
  qed
qed

lemma added_adds: "map fst evs = map (\<lambda>u. AddGroupUserCall g (Some u)) us \<Longrightarrow> added evs = us \<and> removed evs = []"
proof (induction evs arbitrary: us)
  case Nil
  then show ?case by simp
next
  case (Cons e evs)
  then obtain u us' where "us = u # us'" "fst e = AddGroupUserCall g (Some u)"
    "map fst evs = map (\<lambda>u. AddGroupUserCall g (Some u)) us'" by (cases us) auto
  with Cons.IH[of us'] show ?case by (cases e) simp
qed

lemma removed_removes: "map fst evs = map (\<lambda>u. DeleteGroupUserCall g u) us \<Longrightarrow> removed evs = us \<and> added evs = []"
proof (induction evs arbitrary: us)
  case Nil
  then show ?case by simp
next
  case (Cons e evs)
  then obtain u us' where "us = u # us'" "fst e = DeleteGroupUserCall g u"
    "map fst evs = map (\<lambda>u. DeleteGroupUserCall g u) us'" by (cases us) auto
  with Cons.IH[of us'] show ?case by (cases e) simp
qed

lemma added_append: "added (xs @ ys) = added xs @ added ys"
  by (induction xs rule: added.induct) simp_all

lemma removed_append: "removed (xs @ ys) = removed xs @ removed ys"
  by (induction xs rule: removed.induct) simp_all


lemma range_props:
  assumes po: "\<And>ks. mset (order ks) = mset ks"
  shows "distinct (map_range order (make_users ids))" "set (map_range order (make_users ids)) = set ids"
proof -
  have "distinct (order (map fst (make_users ids))) = distinct (map fst (make_users ids))"
    by (rule mset_eq_imp_distinct_iff) (rule po)
  then show "distinct (map_range order (make_users ids))"
    by (simp add: map_range_def make_users_props(1))
  have "set (order (map fst (make_users ids))) = set (map fst (make_users ids))"
    by (rule mset_eq_setD) (rule po)
  then show "set (map_range order (make_users ids)) = set ids"
    by (simp only: map_range_def make_users_props(2))
qed

lemma prefix_of_filter:
  assumes "distinct ks" "filter (\<lambda>u. u \<notin> B) ks = us @ rest"
  shows "distinct us" "set us \<subseteq> set ks - B" "rest = [] \<Longrightarrow> set us = set ks - B"
proof -
  have "distinct (filter (\<lambda>u. u \<notin> B) ks)" using assms(1) by simp
  then show "distinct us" unfolding assms(2) by simp
  have s: "set (filter (\<lambda>u. u \<notin> B) ks) = set ks - B" by auto
  have "set us \<subseteq> set (us @ rest)" by simp
  then show "set us \<subseteq> set ks - B" unfolding assms(2)[symmetric] s .
  assume "rest = []"
  then have "set us = set (filter (\<lambda>u. u \<notin> B) ks)" using assms(2) by simp
  then show "set us = set ks - B" unfolding s .
qed


lemma loops_skip:
  "filter (\<lambda>u. \<not> map_index S u) ks = [] \<Longrightarrow> addMissing_loop sdk g S ks w0 = (None, w0)"
  "filter (\<lambda>u. \<not> map_index S u) ks = [] \<Longrightarrow> removeExtra_loop sdk g S ks w0 = (None, w0)"
  by (induction ks) (simp_all split: if_splits)

lemma diffMembership_cases:
  fixes sdk :: "'r LookerSDK"
  assumes po: "\<And>ks. mset (planOrder ks) = mset ks" and so: "\<And>ks. mset (stateOrder ks) = mset ks"
  shows "map fst (issued w (snd (diffMembership sdk planOrder stateOrder g desired observed w)))
        = map (\<lambda>u. AddGroupUserCall g (Some u))
            (added (issued w (snd (diffMembership sdk planOrder stateOrder g desired observed w))))
          @ map (\<lambda>u. DeleteGroupUserCall g u)
            (removed (issued w (snd (diffMembership sdk planOrder stateOrder g desired observed w))))
    \<and> distinct (added (issued w (snd (diffMembership sdk planOrder stateOrder g desired observed w))))
    \<and> distinct (removed (issued w (snd (diffMembership sdk planOrder stateOrder g desired observed w))))
    \<and> set (added (issued w (snd (diffMembership sdk planOrder stateOrder g desired observed w))))
         \<subseteq> set desired - set observed
    \<and> set (removed (issued w (snd (diffMembership sdk planOrder stateOrder g desired observed w))))
         \<subseteq> set observed - set desired
    \<and> (fst (diffMembership sdk planOrder stateOrder g desired observed w) = None
          \<longrightarrow> set (added (issued w (snd (diffMembership sdk planOrder stateOrder g desired observed w))))
                = set desired - set observed
            \<and> set (removed (issued w (snd (diffMembership sdk planOrder stateOrder g desired observed w))))
                = set observed - set desired)"
proof -
  let ?P = "make_users desired" and ?S = "make_users observed"
  let ?pk = "map_range planOrder ?P" and ?sk = "map_range stateOrder ?S"
  note pk = range_props[of planOrder desired, OF po]
  note sk = range_props[of stateOrder observed, OF so]
  have fa: "filter (\<lambda>u. \<not> map_index ?S u) ?pk = filter (\<lambda>u. u \<notin> set observed) ?pk"
    by (simp add: make_users_props(3))
  have fr: "filter (\<lambda>u. \<not> map_index ?P u) ?sk = filter (\<lambda>u. u \<notin> set desired) ?sk"
    by (simp add: make_users_props(3))
  obtain ra w1 where a: "addMissing_loop sdk g ?S ?pk w = (ra, w1)"
    by (cases "addMissing_loop sdk g ?S ?pk w")
  from addMissing_loop_trace[OF a] obtain us rest eva where
    ua0: "filter (\<lambda>u. \<not> map_index ?S u) ?pk = us @ rest"
    and ta: "trace w1 = trace w @ eva"
    and ma: "map fst eva = map (\<lambda>u. AddGroupUserCall g (Some u)) us"
    and na: "ra = None \<longrightarrow> rest = []"
    by blast
  from ua0 fa have ua: "filter (\<lambda>u. u \<notin> set observed) ?pk = us @ rest" by simp
  note pa = prefix_of_filter[OF pk(1) ua, unfolded pk(2)]
  from added_adds[OF ma] have aa: "added eva = us" "removed eva = []" by simp_all
  show ?thesis
  proof (cases ra)
    case (Some f)
    obtain u err where "f = (u, err)" by (cases f)
    with Some a have d: "diffMembership sdk planOrder stateOrder g desired observed w = (Some (AddFailed u err), w1)"
      by (simp add: diffMembership_def Let_def)
    have i: "issued w (snd (diffMembership sdk planOrder stateOrder g desired observed w)) = eva"
      unfolding d using ta by simp
    show ?thesis
      unfolding i using ma pa(1,2) by (simp add: aa d)
  next
    case None
    obtain rr w2 where r: "removeExtra_loop sdk g ?P ?sk w1 = (rr, w2)"
      by (cases "removeExtra_loop sdk g ?P ?sk w1")
    from removeExtra_loop_trace[OF r] obtain ur rest2 evr where
      ur0: "filter (\<lambda>u. \<not> map_index ?P u) ?sk = ur @ rest2"
      and tr: "trace w2 = trace w1 @ evr"
      and mr: "map fst evr = map (\<lambda>u. DeleteGroupUserCall g u) ur"
      and nr: "rr = None \<longrightarrow> rest2 = []"
      by blast
    from ur0 fr have ur: "filter (\<lambda>u. u \<notin> set desired) ?sk = ur @ rest2" by simp
    note pr = prefix_of_filter[OF sk(1) ur, unfolded sk(2)]
    from removed_removes[OF mr] have rr': "removed evr = ur" "added evr = []" by simp_all
    have d1: "snd (diffMembership sdk planOrder stateOrder g desired observed w) = w2"
      using a r None by (cases rr) (auto simp: diffMembership_def Let_def)
    have d2: "fst (diffMembership sdk planOrder stateOrder g desired observed w) = None \<longrightarrow> rr = None"
      using a r None by (cases rr) (auto simp: diffMembership_def Let_def)
    have i: "issued w (snd (diffMembership sdk planOrder stateOrder g desired observed w)) = eva @ evr"
      unfolding d1 using ta tr by simp
    have full: "rr = None \<longrightarrow> set us = set desired - set observed \<and> set ur = set observed - set desired"
      using pa(3) pr(3) na nr None by simp
    show ?thesis
      unfolding i using ma mr pa(1,2) pr(1,2) full d2
      by (simp add: added_append removed_append aa rr')
  qed
qed

lemma diff_on_team:
  "diffMembership memSDK rev (\<lambda>ks. ks) ''5'' [''u1'', ''u2'', ''u3''] [''u1'', ''u4''] (start teamRemote)
     = (None,
        \<lparr>remote = teamRemote\<lparr>mr_members := [(''5'', ''u1''), (''5'', ''u3''), (''5'', ''u2'')]\<rparr>,
         trace = [(AddGroupUserCall ''5'' (Some ''u3''), None), (AddGroupUserCall ''5'' (Some ''u2''), None),
                  (DeleteGroupUserCall ''5'' ''u4'', None)]\<rparr>)"
  by (simp add: diffMembership_def make_users_def map_store_def map_range_def map_index_def
      invoke_def error_of_def memSDK_def mem_AddGroupUser_def mem_DeleteGroupUser_def
      teamRemote_def emptyRemote_def start_def)

text \<open>
  Claim C8. With \<open>D\<close> the desired and \<open>O\<close> the observed member identifiers, the diffing of
  group \<open>Update\<close> issues add calls only for members of \<open>D - O\<close> and remove calls only for
  members of \<open>O - D\<close>, each at most once, all adds before all removes, in whatever order the
  runtime iterates the two maps. When no call fails, the adds are exactly \<open>D - O\<close>, the
  removes exactly \<open>O - D\<close>, and applying them to \<open>O\<close> gives \<open>D\<close>. When \<open>D\<close> and \<open>O\<close>
  are the same set, no call is issued.
\<close>

theorem diffMembership_exact:
  fixes sdk :: "'r LookerSDK"
  assumes po: "\<And>ks. mset (planOrder ks) = mset ks" and so: "\<And>ks. mset (stateOrder ks) = mset ks"
  shows "set (added (issued w (snd (diffMembership sdk planOrder stateOrder g desired observed w))))
           \<subseteq> set desired - set observed
    \<and> set (removed (issued w (snd (diffMembership sdk planOrder stateOrder g desired observed w))))
           \<subseteq> set observed - set desired
    \<and> distinct (added (issued w (snd (diffMembership sdk planOrder stateOrder g desired observed w))))
    \<and> distinct (removed (issued w (snd (diffMembership sdk planOrder stateOrder g desired observed w))))
    \<and> map fst (issued w (snd (diffMembership sdk planOrder stateOrder g desired observed w)))
        = map (\<lambda>u. AddGroupUserCall g (Some u))
            (added (issued w (snd (diffMembership sdk planOrder stateOrder g desired observed w))))
          @ map (\<lambda>u. DeleteGroupUserCall g u)
            (removed (issued w (snd (diffMembership sdk planOrder stateOrder g desired observed w))))
    \<and> (fst (diffMembership sdk planOrder stateOrder g desired observed w) = None \<longrightarrow>
          set (added (issued w (snd (diffMembership sdk planOrder stateOrder g desired observed w))))
            = set desired - set observed
        \<and> set (removed (issued w (snd (diffMembership sdk planOrder stateOrder g desired observed w))))
            = set observed - set desired
        \<and> (set observed
             \<union> set (added (issued w (snd (diffMembership sdk planOrder stateOrder g desired observed w)))))
            - set (removed (issued w (snd (diffMembership sdk planOrder stateOrder g desired observed w))))
            = set desired)
    \<and> (set desired = set observed \<longrightarrow>
          issued w (snd (diffMembership sdk planOrder stateOrder g desired observed w)) = []
        \<and> fst (diffMembership sdk planOrder stateOrder g desired observed w) = None)"
proof -
  let ?run = "diffMembership sdk planOrder stateOrder g desired observed w"
  let ?evs = "issued w (snd ?run)"
  let ?us = "added ?evs" and ?ur = "removed ?evs"
  note c = diffMembership_cases[OF po so, of w sdk g desired observed]
  from c have m: "map fst ?evs = map (\<lambda>u. AddGroupUserCall g (Some u)) ?us @ map (\<lambda>u. DeleteGroupUserCall g u) ?ur"
    by (rule conjunct1)
  from c have d: "distinct ?us" "distinct ?ur" by simp_all
  from c have s: "set ?us \<subseteq> set desired - set observed" "set ?ur \<subseteq> set observed - set desired"
    by simp_all
  from c have f: "fst ?run = None \<longrightarrow> set ?us = set desired - set observed \<and> set ?ur = set observed - set desired"
    by simp
  have alg: "fst ?run = None \<longrightarrow>
      set ?us = set desired - set observed \<and> set ?ur = set observed - set desired
      \<and> (set observed \<union> set ?us) - set ?ur = set desired"
  proof
    assume "fst ?run = None"
    with f have e: "set ?us = set desired - set observed" "set ?ur = set observed - set desired" by simp_all
    have "(set observed \<union> (set desired - set observed)) - (set observed - set desired) = set desired"
      by blast
    with e show "set ?us = set desired - set observed \<and> set ?ur = set observed - set desired
      \<and> (set observed \<union> set ?us) - set ?ur = set desired" by simp
  qed
  have e: "set desired = set observed \<longrightarrow> ?evs = [] \<and> fst ?run = None"
  proof
    assume eq: "set desired = set observed"
    with s have "?us = []" "?ur = []" by simp_all
    with m have ev: "?evs = []" by simp
    note pk = range_props[of planOrder desired, OF po]
    note sk = range_props[of stateOrder observed, OF so]
    have fl: "filter (\<lambda>u. \<not> map_index (make_users observed) u) (map_range planOrder (make_users desired)) = []"
      unfolding filter_empty_conv using pk(2) eq by (simp add: make_users_props(3))
    have fl2: "filter (\<lambda>u. \<not> map_index (make_users desired) u) (map_range stateOrder (make_users observed)) = []"
      unfolding filter_empty_conv using sk(2) eq by (simp add: make_users_props(3))
    have "fst ?run = None"
      by (simp add: diffMembership_def Let_def loops_skip(1)[OF fl] loops_skip(2)[OF fl2])
    with ev show "?evs = [] \<and> fst ?run = None" by simp
  qed
  from s d m alg e show ?thesis by (intro conjI) assumption+
qed

theorem diffMembership_exact_witness:
  "(\<forall>ks :: string list. mset (rev ks) = mset ks)
   \<and> diffMembership memSDK rev (\<lambda>ks. ks) ''5'' [''u1'', ''u2'', ''u3''] [''u1'', ''u4''] (start teamRemote)
     = (None,
        \<lparr>remote = teamRemote\<lparr>mr_members := [(''5'', ''u1''), (''5'', ''u3''), (''5'', ''u2'')]\<rparr>,
         trace = [(AddGroupUserCall ''5'' (Some ''u3''), None), (AddGroupUserCall ''5'' (Some ''u2''), None),
                  (DeleteGroupUserCall ''5'' ''u4'', None)]\<rparr>)
   \<and> set (added [(AddGroupUserCall ''5'' (Some ''u3''), None), (AddGroupUserCall ''5'' (Some ''u2''), None),
                  (DeleteGroupUserCall ''5'' ''u4'', None)]) = {''u2'', ''u3''}
   \<and> set (removed [(AddGroupUserCall ''5'' (Some ''u3''), None), (AddGroupUserCall ''5'' (Some ''u2''), None),
                  (DeleteGroupUserCall ''5'' ''u4'', None)]) = {''u4''}"
proof -
  have p: "\<And>ks :: string list. mset (rev ks) = mset ks" by simp
  have q: "\<And>ks :: string list. mset ((\<lambda>ks. ks) ks) = mset ks" by simp
  have i: "issued (start teamRemote)
      (snd (diffMembership memSDK rev (\<lambda>ks. ks) ''5'' [''u1'', ''u2'', ''u3''] [''u1'', ''u4''] (start teamRemote)))
     = [(AddGroupUserCall ''5'' (Some ''u3''), None), (AddGroupUserCall ''5'' (Some ''u2''), None),
        (DeleteGroupUserCall ''5'' ''u4'', None)]"
    using diff_on_team by (simp add: issued_def start_def)
  have n: "fst (diffMembership memSDK rev (\<lambda>ks. ks) ''5'' [''u1'', ''u2'', ''u3''] [''u1'', ''u4''] (start teamRemote)) = None"
    by (simp add: diff_on_team)
  note t = diffMembership_exact[of rev "\<lambda>ks. ks" "start teamRemote" memSDK "''5''"
      "[''u1'', ''u2'', ''u3'']" "[''u1'', ''u4'']", OF p q, unfolded i]
  from t n have
    "set (added [(AddGroupUserCall ''5'' (Some ''u3''), None), (AddGroupUserCall ''5'' (Some ''u2''), None),
                  (DeleteGroupUserCall ''5'' ''u4'', None)]) = set [''u1'', ''u2'', ''u3''] - set [''u1'', ''u4'']"
    "set (removed [(AddGroupUserCall ''5'' (Some ''u3''), None), (AddGroupUserCall ''5'' (Some ''u2''), None),
                  (DeleteGroupUserCall ''5'' ''u4'', None)]) = set [''u1'', ''u4''] - set [''u1'', ''u2'', ''u3'']"
    by blast+
  then have
    "set (added [(AddGroupUserCall ''5'' (Some ''u3''), None), (AddGroupUserCall ''5'' (Some ''u2''), None),
                  (DeleteGroupUserCall ''5'' ''u4'', None)]) = {''u2'', ''u3''}"
    "set (removed [(AddGroupUserCall ''5'' (Some ''u3''), None), (AddGroupUserCall ''5'' (Some ''u2''), None),
                  (DeleteGroupUserCall ''5'' ''u4'', None)]) = {''u4''}"
    by auto
  with p diff_on_team show ?thesis by blast
qed

section \<open>How remote errors reach the caller\<close>

lemma clean_simps [simp]:
  "clean []" "clean (e # evs) = (snd e = None \<and> clean evs)" "clean (xs @ ys) = (clean xs \<and> clean ys)"
  by (simp_all add: clean_def)

lemma failed_last_single [simp]: "failed_last [e] = (snd e \<noteq> None)"
  by (simp add: failed_last_def)

lemma failed_last_append: "clean xs \<Longrightarrow> failed_last ys \<Longrightarrow> failed_last (xs @ ys)"
  by (simp add: failed_last_def butlast_append)

lemma failed_last_Cons: "snd e = None \<Longrightarrow> failed_last ys \<Longrightarrow> failed_last (e # ys)"
  using failed_last_append[of "[e]" ys] by simp

lemma last_append_failed: "failed_last ys \<Longrightarrow> last (xs @ ys) = last ys"
  by (simp add: failed_last_def)

lemma error_of_simps [simp]: "error_of (Inl e) = Some e" "error_of (Inr v) = None"
  by (simp_all add: error_of_def)

lemma HasError_AddError [simp]: "HasError (AddError s d ds)"
  by (simp add: HasError_def AddError_def)

lemma surfaces_clean: "clean evs \<Longrightarrow> surfaces evs out"
  by (simp add: surfaces_def)

lemma invoke_issued:
  "\<exists>res w1. invoke c f w = (res, w1) \<and> issued w w1 = [(c, error_of res)]
      \<and> trace w1 = trace w @ [(c, error_of res)]"
  using invoke_trace[of c f w] by auto

lemma folderAccess_Create_surfaces:
  "surfaces (issued w (snd (folderAccess_Create r_sdk plan resp w))) (fst (folderAccess_Create r_sdk plan resp w))"
proof (cases "HasError (Diagnostics resp) \<or> r_sdk = None")
  case True
  then show ?thesis by (auto simp: folderAccess_Create_def surfaces_clean)
next
  case False
  then obtain sdk where s: "r_sdk = Some sdk" "\<not> HasError (Diagnostics resp)" by auto
  let ?body = "emptyContentMetaGroupUser
                     \<lparr>cm_ContentMetadataId := ValueStringPointer (fa_FolderID plan),
                      cm_PermissionType := Some (ValueString (fa_AccessLevel plan)),
                      cm_GroupId := ValueStringPointer (fa_GroupID plan)\<rparr>"
  obtain res w1 where inv: "invoke (CreateContentMetadataAccessCall ?body False)
        (CreateContentMetadataAccess sdk ?body False) w = (res, w1)"
    and i: "issued w w1 = [(CreateContentMetadataAccessCall ?body False, error_of res)]"
    using invoke_issued by blast
  show ?thesis
    using s inv i by (cases res) (simp_all add: folderAccess_Create_def Let_def surfaces_def)
qed

lemma folderAccess_Update_surfaces:
  "surfaces (issued w (snd (folderAccess_Update r_sdk plan state resp w)))
     (fst (folderAccess_Update r_sdk plan state resp w))"
proof (cases "HasError (Diagnostics resp) \<or> r_sdk = None")
  case True
  then show ?thesis by (auto simp: folderAccess_Update_def surfaces_clean)
next
  case False
  then obtain sdk where s: "r_sdk = Some sdk" "\<not> HasError (Diagnostics resp)" by auto
  let ?body = "emptyContentMetaGroupUser\<lparr>cm_PermissionType := Some (ValueString (fa_AccessLevel plan))\<rparr>"
  let ?c = "UpdateContentMetadataAccessCall (ValueString (fa_ID state)) ?body"
  obtain res w1 where inv: "invoke ?c (UpdateContentMetadataAccess sdk (ValueString (fa_ID state)) ?body) w = (res, w1)"
    and i: "issued w w1 = [(?c, error_of res)]"
    using invoke_issued by blast
  show ?thesis
    using s inv i by (cases res) (simp_all add: folderAccess_Update_def Let_def surfaces_def)
qed

lemma folderAccess_Delete_surfaces:
  "surfaces (issued w (snd (folderAccess_Delete r_sdk state resp w)))
     (fst (folderAccess_Delete r_sdk state resp w))"
proof (cases "HasError (Diagnostics resp) \<or> r_sdk = None")
  case True
  then show ?thesis by (auto simp: folderAccess_Delete_def surfaces_clean)
next
  case False
  then obtain sdk where s: "r_sdk = Some sdk" "\<not> HasError (Diagnostics resp)" by auto
  let ?c = "DeleteContentMetadataAccessCall (ValueString (fa_ID state))"
  obtain res w1 where inv: "invoke ?c (DeleteContentMetadataAccess sdk (ValueString (fa_ID state))) w = (res, w1)"
    and i: "issued w w1 = [(?c, error_of res)]"
    using invoke_issued by blast
  show ?thesis
    using s inv i by (cases res) (simp_all add: folderAccess_Delete_def surfaces_def)
qed

lemma find_surfaces:
  "\<exists>res w1. folderAccess_findAccessGrant sdk f g w = (res, w1)
     \<and> folderPermissionOverride_findAccessGrant sdk f g w = (res, w1)
     \<and> (\<exists>er. issued w w1 = [(AllContentMetadataAccessesCall f [], er)]
            \<and> trace w1 = trace w @ [(AllContentMetadataAccessesCall f [], er)]
            \<and> (er = None) = (\<exists>v. res = Inr v))"
proof -
  obtain r w1 where inv: "invoke (AllContentMetadataAccessesCall f []) (AllContentMetadataAccesses sdk f []) w = (r, w1)"
    and i: "issued w w1 = [(AllContentMetadataAccessesCall f [], error_of r)]"
    and t: "trace w1 = trace w @ [(AllContentMetadataAccessesCall f [], error_of r)]"
    using invoke_issued by blast
  show ?thesis
    using inv i t
    by (cases r) (simp_all add: folderAccess_findAccessGrant_def folderPermissionOverride_findAccessGrant_def)
qed

lemma folderAccess_Read_surfaces:
  "surfaces (issued w (snd (folderAccess_Read r_sdk state resp w)))
     (fst (folderAccess_Read r_sdk state resp w))"
proof (cases "HasError (Diagnostics resp) \<or> r_sdk = None")
  case True
  then show ?thesis by (auto simp: folderAccess_Read_def surfaces_clean)
next
  case False
  then obtain sdk where s: "r_sdk = Some sdk" "\<not> HasError (Diagnostics resp)" by auto
  from find_surfaces[of sdk "ValueString (fa_FolderID state)" "ValueString (fa_GroupID state)" w]
  obtain res w1 er where f: "folderAccess_findAccessGrant sdk (ValueString (fa_FolderID state))
        (ValueString (fa_GroupID state)) w = (res, w1)"
    and i: "issued w w1 = [(AllContentMetadataAccessesCall (ValueString (fa_FolderID state)) [], er)]"
    and e: "(er = None) = (\<exists>v. res = Inr v)"
    by blast
  show ?thesis
  proof (cases res)
    case (Inl err)
    with e have "er \<noteq> None" by simp
    with s f i Inl show ?thesis by (simp add: folderAccess_Read_def surfaces_def)
  next
    case (Inr v)
    with e have "er = None" by simp
    with s f i Inr show ?thesis
      by (cases v) (simp_all add: folderAccess_Read_def surfaces_def)
  qed
qed

lemma override_Read_surfaces:
  "surfaces (issued w (snd (folderPermissionOverride_Read r_sdk state resp w)))
     (fst (folderPermissionOverride_Read r_sdk state resp w))"
proof (cases "HasError (Diagnostics resp) \<or> r_sdk = None")
  case True
  then show ?thesis by (auto simp: folderPermissionOverride_Read_def surfaces_clean)
next
  case False
  then obtain sdk where s: "r_sdk = Some sdk" "\<not> HasError (Diagnostics resp)" by auto
  from find_surfaces[of sdk "ValueString (fpo_FolderID state)" "ValueString (fpo_GroupID state)" w]
  obtain res w1 er where f: "folderPermissionOverride_findAccessGrant sdk (ValueString (fpo_FolderID state))
        (ValueString (fpo_GroupID state)) w = (res, w1)"
    and i: "issued w w1 = [(AllContentMetadataAccessesCall (ValueString (fpo_FolderID state)) [], er)]"
    and e: "(er = None) = (\<exists>v. res = Inr v)"
    by blast
  show ?thesis
  proof (cases res)
    case (Inl err)
    with e have "er \<noteq> None" by simp
    with s f i Inl show ?thesis by (simp add: folderPermissionOverride_Read_def surfaces_def)
  next
    case (Inr v)
    with e have "er = None" by simp
    with s f i Inr show ?thesis
      by (cases v) (simp_all add: folderPermissionOverride_Read_def surfaces_def)
  qed
qed

lemma override_Create_surfaces:
  "surfaces (issued w (snd (folderPermissionOverride_Create r_sdk plan resp w)))
     (fst (folderPermissionOverride_Create r_sdk plan resp w))"
proof (cases "HasError (Diagnostics resp) \<or> r_sdk = None")
  case True
  then show ?thesis by (auto simp: folderPermissionOverride_Create_def surfaces_clean)
next
  case False
  then obtain sdk where s: "r_sdk = Some sdk" "\<not> HasError (Diagnostics resp)" by auto
  let ?f = "ValueString (fpo_FolderID plan)"
  from find_surfaces[of sdk ?f "ValueString (fpo_GroupID plan)" w]
  obtain res w1 er where f: "folderPermissionOverride_findAccessGrant sdk ?f
        (ValueString (fpo_GroupID plan)) w = (res, w1)"
    and i: "issued w w1 = [(AllContentMetadataAccessesCall ?f [], er)]"
    and t: "trace w1 = trace w @ [(AllContentMetadataAccessesCall ?f [], er)]"
    and e: "(er = None) = (\<exists>v. res = Inr v)"
    by blast
  show ?thesis
  proof (cases res)
    case (Inl err)
    with e have "er \<noteq> None" by simp
    with s f i Inl show ?thesis by (simp add: folderPermissionOverride_Create_def Let_def surfaces_def)
  next
    case (Inr v)
    with e have en: "er = None" by simp
    show ?thesis
    proof (cases v)
      case None
      with s f i Inr en show ?thesis by (simp add: folderPermissionOverride_Create_def Let_def surfaces_def)
    next
      case (Some grant)
      show ?thesis
      proof (cases "cm_Id grant")
        case None
        with Some s f i Inr en show ?thesis
          by (simp add: folderPermissionOverride_Create_def Let_def surfaces_def)
      next
        case (Some grantId)
        let ?body = "emptyContentMetaGroupUser\<lparr>cm_PermissionType := Some (ValueString (fpo_AccessLevel plan))\<rparr>"
        obtain ur w2 where inv: "invoke (UpdateContentMetadataAccessCall grantId ?body)
              (UpdateContentMetadataAccess sdk grantId ?body) w1 = (ur, w2)"
          and t2: "trace w2 = trace w1 @ [(UpdateContentMetadataAccessCall grantId ?body, error_of ur)]"
          using invoke_issued by blast
        from t t2 en have i2: "issued w w2 = [(AllContentMetadataAccessesCall ?f [], None),
              (UpdateContentMetadataAccessCall grantId ?body, error_of ur)]"
          by simp
        show ?thesis
          using Some \<open>v = Some grant\<close> s f Inr inv i2
          by (cases ur) (simp_all add: folderPermissionOverride_Create_def Let_def surfaces_def failed_last_def)
      qed
    qed
  qed
qed


lemma surfaces_fail:
  "clean pre \<Longrightarrow> failed_last evs \<Longrightarrow> \<not> root_get (fst (last evs)) \<Longrightarrow> HasError (Diagnostics resp)
   \<Longrightarrow> surfaces (pre @ evs) (Returned resp)"
  by (simp add: surfaces_def failed_last_append last_append_failed)

lemma resolve_loop_surfaces:
  "resolveUserEmailsToIDs_loop sdk emails acc w = (out, w') \<Longrightarrow>
   \<exists>evs. trace w' = trace w @ evs
     \<and> (clean evs \<or> (failed_last evs \<and> \<not> root_get (fst (last evs)) \<and> (\<exists>e. out = Returned (Inl e))))"
proof (induction emails arbitrary: acc w)
  case Nil
  then show ?case by simp
next
  case (Cons email emails)
  let ?c = "SearchUsersCall (Some email)"
  obtain r w1 where inv: "invoke ?c (SearchUsers sdk (Some email)) w = (r, w1)"
    and t: "trace w1 = trace w @ [(?c, error_of r)]"
    using invoke_issued by blast
  show ?case
  proof (cases r)
    case (Inl err)
    with inv Cons.prems have "out = Returned (Inl (''API error searching for user with email '' @ email @ '': '' @ err))"
      "w' = w1" by simp_all
    with t Inl have "trace w' = trace w @ [(?c, Some err)] \<and> failed_last [(?c, Some err)]
        \<and> \<not> root_get (fst (last [(?c, Some err)])) \<and> (\<exists>e. out = Returned (Inl e))"
      by simp
    then show ?thesis by blast
  next
    case (Inr results)
    show ?thesis
    proof (cases "length results = 0 \<or> length results > 1 \<or> user_Id (results ! 0) = None")
      case True
      with inv Inr Cons.prems have "w' = w1" by (auto split: if_splits)
      with t Inr have "trace w' = trace w @ [(?c, None)] \<and> clean [(?c, None)]" by simp
      then show ?thesis by blast
    next
      case False
      then obtain userId where u: "user_Id (results ! 0) = Some userId" by auto
      with False inv Inr Cons.prems
      have "resolveUserEmailsToIDs_loop sdk emails (acc @ [userId]) w1 = (out, w')" by simp
      from Cons.IH[OF this] obtain evs where
        t2: "trace w' = trace w1 @ evs"
        and c: "clean evs \<or> (failed_last evs \<and> \<not> root_get (fst (last evs)) \<and> (\<exists>e. out = Returned (Inl e)))"
        by blast
      from t t2 Inr have t3: "trace w' = trace w @ ((?c, None) # evs)" by simp
      from c have "clean ((?c, None) # evs)
          \<or> (failed_last ((?c, None) # evs) \<and> \<not> root_get (fst (last ((?c, None) # evs)))
              \<and> (\<exists>e. out = Returned (Inl e)))"
        by (auto simp: failed_last_Cons)
      with t3 show ?thesis by blast
    qed
  qed
qed

lemma addGroupUsers_loop_surfaces:
  "addGroupUsers_loop sdk g ks w = (res, w') \<Longrightarrow>
   \<exists>evs. trace w' = trace w @ evs
     \<and> (if res = None then clean evs else failed_last evs \<and> \<not> root_get (fst (last evs)))"
proof (induction ks arbitrary: w)
  case Nil
  then show ?case by simp
next
  case (Cons k ks)
  let ?c = "AddGroupUserCall g (Some k)"
  obtain r w1 where inv: "invoke ?c (AddGroupUser sdk g (Some k)) w = (r, w1)"
    and t: "trace w1 = trace w @ [(?c, error_of r)]"
    using invoke_issued by blast
  show ?case
  proof (cases r)
    case (Inl err)
    with inv Cons.prems have "res = Some (k, err)" "w' = w1" by simp_all
    with t Inl have "trace w' = trace w @ [(?c, Some err)]
       \<and> (if res = None then clean [(?c, Some err)]
           else failed_last [(?c, Some err)] \<and> \<not> root_get (fst (last [(?c, Some err)])))"
      by simp
    then show ?thesis by blast
  next
    case (Inr v)
    with inv Cons.prems have "addGroupUsers_loop sdk g ks w1 = (res, w')" by simp
    from Cons.IH[OF this] obtain evs where
      t2: "trace w' = trace w1 @ evs"
      and c: "if res = None then clean evs else failed_last evs \<and> \<not> root_get (fst (last evs))"
      by blast
    from t t2 Inr have t3: "trace w' = trace w @ ((?c, None) # evs)" by simp
    from c have "if res = None then clean ((?c, None) # evs)
         else failed_last ((?c, None) # evs) \<and> \<not> root_get (fst (last ((?c, None) # evs)))"
      by (auto simp: failed_last_Cons split: if_splits)
    with t3 show ?thesis by blast
  qed
qed

lemma addMissing_loop_surfaces:
  "addMissing_loop sdk g S ks w = (res, w') \<Longrightarrow>
   \<exists>evs. trace w' = trace w @ evs
     \<and> (if res = None then clean evs else failed_last evs \<and> \<not> root_get (fst (last evs)))"
proof (induction ks arbitrary: w)
  case Nil
  then show ?case by simp
next
  case (Cons k ks)
  show ?case
  proof (cases "map_index S k")
    case True
    with Cons.prems have "addMissing_loop sdk g S ks w = (res, w')" by simp
    from Cons.IH[OF this] show ?thesis .
  next
    case False
    let ?c = "AddGroupUserCall g (Some k)"
    obtain r w1 where inv: "invoke ?c (AddGroupUser sdk g (Some k)) w = (r, w1)"
      and t: "trace w1 = trace w @ [(?c, error_of r)]"
      using invoke_issued by blast
    show ?thesis
    proof (cases r)
      case (Inl err)
      with False inv Cons.prems have "res = Some (k, err)" "w' = w1" by simp_all
      with t Inl have "trace w' = trace w @ [(?c, Some err)]
         \<and> (if res = None then clean [(?c, Some err)]
             else failed_last [(?c, Some err)] \<and> \<not> root_get (fst (last [(?c, Some err)])))"
        by simp
      then show ?thesis by blast
    next
      case (Inr v)
      with False inv Cons.prems have "addMissing_loop sdk g S ks w1 = (res, w')" by simp
      from Cons.IH[OF this] obtain evs where
        t2: "trace w' = trace w1 @ evs"
        and c: "if res = None then clean evs else failed_last evs \<and> \<not> root_get (fst (last evs))"
        by blast
      from t t2 Inr have t3: "trace w' = trace w @ ((?c, None) # evs)" by simp
      from c have "if res = None then clean ((?c, None) # evs)
           else failed_last ((?c, None) # evs) \<and> \<not> root_get (fst (last ((?c, None) # evs)))"
        by (auto simp: failed_last_Cons split: if_splits)
      with t3 show ?thesis by blast
    qed
  qed
qed

lemma removeExtra_loop_surfaces:
  "removeExtra_loop sdk g S ks w = (res, w') \<Longrightarrow>
   \<exists>evs. trace w' = trace w @ evs
     \<and> (if res = None then clean evs else failed_last evs \<and> \<not> root_get (fst (last evs)))"
proof (induction ks arbitrary: w)
  case Nil
  then show ?case by simp
next
  case (Cons k ks)
  show ?case
  proof (cases "map_index S k")
    case True
    with Cons.prems have "removeExtra_loop sdk g S ks w = (res, w')" by simp
    from Cons.IH[OF this] show ?thesis .
  next
    case False
    let ?c = "DeleteGroupUserCall g k"
    obtain r w1 where inv: "invoke ?c (DeleteGroupUser sdk g k) w = (r, w1)"
      and t: "trace w1 = trace w @ [(?c, error_of r)]"
      using invoke_issued by blast
    show ?thesis
    proof (cases r)
      case (Inl err)
      with False inv Cons.prems have "res = Some (k, err)" "w' = w1" by simp_all
      with t Inl have "trace w' = trace w @ [(?c, Some err)]
         \<and> (if res = None then clean [(?c, Some err)]
             else failed_last [(?c, Some err)] \<and> \<not> root_get (fst (last [(?c, Some err)])))"
        by simp
      then show ?thesis by blast
    next
      case (Inr v)
      with False inv Cons.prems have "removeExtra_loop sdk g S ks w1 = (res, w')" by simp
      from Cons.IH[OF this] obtain evs where
        t2: "trace w' = trace w1 @ evs"
        and c: "if res = None then clean evs else failed_last evs \<and> \<not> root_get (fst (last evs))"
        by blast
      from t t2 Inr have t3: "trace w' = trace w @ ((?c, None) # evs)" by simp
      from c have "if res = None then clean ((?c, None) # evs)
           else failed_last ((?c, None) # evs) \<and> \<not> root_get (fst (last ((?c, None) # evs)))"
        by (auto simp: failed_last_Cons split: if_splits)
      with t3 show ?thesis by blast
    qed
  qed
qed

lemma diffMembership_surfaces:
  "diffMembership sdk planOrder stateOrder g desired observed w = (res, w') \<Longrightarrow>
   \<exists>evs. trace w' = trace w @ evs
     \<and> (if res = None then clean evs else failed_last evs \<and> \<not> root_get (fst (last evs)))"
proof -
  assume d: "diffMembership sdk planOrder stateOrder g desired observed w = (res, w')"
  let ?P = "make_users desired" and ?S = "make_users observed"
  obtain ra w1 where a: "addMissing_loop sdk g ?S (map_range planOrder ?P) w = (ra, w1)"
    by (cases "addMissing_loop sdk g ?S (map_range planOrder ?P) w")
  from addMissing_loop_surfaces[OF a] obtain eva where
    ta: "trace w1 = trace w @ eva"
    and ca: "if ra = None then clean eva else failed_last eva \<and> \<not> root_get (fst (last eva))"
    by blast
  show ?thesis
  proof (cases ra)
    case (Some f)
    obtain u err where "f = (u, err)" by (cases f)
    with Some a d have "res = Some (AddFailed u err)" "w' = w1"
      by (simp_all add: diffMembership_def Let_def)
    with ta ca Some show ?thesis by auto
  next
    case None
    obtain rr w2 where r: "removeExtra_loop sdk g ?P (map_range stateOrder ?S) w1 = (rr, w2)"
      by (cases "removeExtra_loop sdk g ?P (map_range stateOrder ?S) w1")
    from removeExtra_loop_surfaces[OF r] obtain evr where
      tr: "trace w2 = trace w1 @ evr"
      and cr: "if rr = None then clean evr else failed_last evr \<and> \<not> root_get (fst (last evr))"
      by blast
    from a r None d have w: "w' = w2" and rs: "(res = None) = (rr = None)"
      by (cases rr; auto simp: diffMembership_def Let_def)+
    from ta tr w have t: "trace w' = trace w @ (eva @ evr)" by simp
    from ca None have cl: "clean eva" by simp
    have "if res = None then clean (eva @ evr)
          else failed_last (eva @ evr) \<and> \<not> root_get (fst (last (eva @ evr)))"
      using cl cr rs by (auto simp: failed_last_append last_append_failed split: if_splits)
    with t show ?thesis by blast
  qed
qed


lemma group_Delete_surfaces:
  "surfaces (issued w (snd (group_Delete r_sdk state resp w))) (fst (group_Delete r_sdk state resp w))"
proof (cases "HasError (Diagnostics resp) \<or> r_sdk = None")
  case True
  then show ?thesis by (cases r_sdk) (auto simp: group_Delete_def surfaces_clean)
next
  case False
  then obtain sdk where s: "r_sdk = Some sdk" "\<not> HasError (Diagnostics resp)" by auto
  let ?c = "DeleteGroupCall (ValueString (g_ID state))"
  obtain res w1 where inv: "invoke ?c (DeleteGroup sdk (ValueString (g_ID state))) w = (res, w1)"
    and i: "issued w w1 = [(?c, error_of res)]"
    using invoke_issued by blast
  show ?thesis
    using s inv i by (cases res) (simp_all add: group_Delete_def Let_def surfaces_def)
qed

lemma group_Read_surfaces:
  "surfaces (issued w (snd (group_Read r_sdk state resp w))) (fst (group_Read r_sdk state resp w))"
proof (cases "HasError (Diagnostics resp) \<or> r_sdk = None")
  case True
  then show ?thesis by (cases r_sdk) (auto simp: group_Read_def surfaces_clean)
next
  case False
  then obtain sdk where s: "r_sdk = Some sdk" "\<not> HasError (Diagnostics resp)" by auto
  let ?g = "ValueString (g_ID state)"
  obtain res w1 where inv: "invoke (GroupCall ?g ''id,name'') (GetGroup sdk ?g ''id,name'') w = (res, w1)"
    and t: "trace w1 = trace w @ [(GroupCall ?g ''id,name'', error_of res)]"
    using invoke_issued by blast
  show ?thesis
  proof (cases res)
    case (Inl err)
    with s inv t show ?thesis
      by (simp add: group_Read_def Let_def surfaces_def RemoveResource_def)
  next
    case (Inr grp)
    obtain ur w2 where inv2: "invoke (AllGroupUsersCall ?g) (AllGroupUsers sdk ?g) w1 = (ur, w2)"
      and t2: "trace w2 = trace w1 @ [(AllGroupUsersCall ?g, error_of ur)]"
      using invoke_issued by blast
    from t t2 Inr have i2: "issued w w2 = [(GroupCall ?g ''id,name'', None), (AllGroupUsersCall ?g, error_of ur)]"
      by simp
    show ?thesis
    proof (cases ur)
      case (Inl err)
      with s inv Inr inv2 i2 show ?thesis
        by (simp add: group_Read_def Let_def surfaces_def failed_last_def)
    next
      case (Inr users)
      with s inv \<open>res = Inr grp\<close> inv2 i2 show ?thesis
        by (cases "collectUserIds users []")
           (simp_all add: group_Read_def Let_def surfaces_def split: sum.splits)
    qed
  qed
qed

lemma group_Create_step:
  assumes "invoke (CreateGroupCall (ValueStringPointer (g_Name plan)))
             (CreateGroup sdk (ValueStringPointer (g_Name plan))) w = (Inr grp, w1)"
    and "\<not> HasError (Diagnostics resp)" and "group_Id grp = Some groupID"
  shows "\<exists>ro w2 ev2. trace w2 = trace w1 @ ev2
     \<and> (clean ev2 \<or> (failed_last ev2 \<and> \<not> root_get (fst (last ev2)) \<and> (\<exists>e. ro = Returned (Inl e))))
     \<and> group_Create (Some sdk) plan resp w
        = (case ro of
             Panicked \<Rightarrow> (Panicked, w2)
           | Returned (Inl err) \<Rightarrow>
               (Returned (resp\<lparr>Diagnostics := AddError ''User resolution failed'' err (Diagnostics resp)\<rparr>), w2)
           | Returned (Inr resolvedIDs) \<Rightarrow>
               (case addGroupUsers_loop sdk groupID (ElementsAs (g_UserIDs plan) @ resolvedIDs) w2 of
                  (Some (userID, err), w3) \<Rightarrow>
                    (Returned (resp\<lparr>Diagnostics := AddError ''API error''
                       (''Failed to add user '' @ userID @ '' to group '' @ groupID @ '': '' @ err)
                       (Diagnostics resp)\<rparr>), w3)
                | (None, w3) \<Rightarrow> (Returned (State_Set (plan\<lparr>g_ID := Some groupID\<rparr>) resp), w3)))"
proof -
  have e: "(if \<not> IsNull (g_UserIDs plan) then ElementsAs (g_UserIDs plan) else []) = ElementsAs (g_UserIDs plan)"
    by (cases "g_UserIDs plan") (simp_all add: IsNull_def ElementsAs_def)
  show ?thesis
  proof (cases "IsNull (g_UserEmails plan)")
    case True
    have "trace w1 = trace w1 @ [] \<and> (clean [] \<or> (failed_last [] \<and> \<not> root_get (fst (last []))
            \<and> (\<exists>e. (Returned (Inr []) :: string list result outcome) = Returned (Inl e))))
      \<and> group_Create (Some sdk) plan resp w
        = (case (Returned (Inr []) :: string list result outcome) of
             Panicked \<Rightarrow> (Panicked, w1)
           | Returned (Inl err) \<Rightarrow>
               (Returned (resp\<lparr>Diagnostics := AddError ''User resolution failed'' err (Diagnostics resp)\<rparr>), w1)
           | Returned (Inr resolvedIDs) \<Rightarrow>
               (case addGroupUsers_loop sdk groupID (ElementsAs (g_UserIDs plan) @ resolvedIDs) w1 of
                  (Some (userID, err), w3) \<Rightarrow>
                    (Returned (resp\<lparr>Diagnostics := AddError ''API error''
                       (''Failed to add user '' @ userID @ '' to group '' @ groupID @ '': '' @ err)
                       (Diagnostics resp)\<rparr>), w3)
                | (None, w3) \<Rightarrow> (Returned (State_Set (plan\<lparr>g_ID := Some groupID\<rparr>) resp), w3)))"
      using assms True
      by (cases "g_UserIDs plan")
         (simp_all add: group_Create_def Let_def IsNull_def ElementsAs_def StringPointerValue_def
            split: prod.splits option.splits)
    then show ?thesis by blast
  next
    case False
    obtain ro w2 where r: "resolveUserEmailsToIDs_loop sdk (ElementsAs (g_UserEmails plan)) [] w1 = (ro, w2)"
      by (cases "resolveUserEmailsToIDs_loop sdk (ElementsAs (g_UserEmails plan)) [] w1")
    from resolve_loop_surfaces[OF r] obtain ev2 where
      t2: "trace w2 = trace w1 @ ev2"
      and c2: "clean ev2 \<or> (failed_last ev2 \<and> \<not> root_get (fst (last ev2)) \<and> (\<exists>e. ro = Returned (Inl e)))"
      by blast
    have "group_Create (Some sdk) plan resp w
        = (case ro of
             Panicked \<Rightarrow> (Panicked, w2)
           | Returned (Inl err) \<Rightarrow>
               (Returned (resp\<lparr>Diagnostics := AddError ''User resolution failed'' err (Diagnostics resp)\<rparr>), w2)
           | Returned (Inr resolvedIDs) \<Rightarrow>
               (case addGroupUsers_loop sdk groupID (ElementsAs (g_UserIDs plan) @ resolvedIDs) w2 of
                  (Some (userID, err), w3) \<Rightarrow>
                    (Returned (resp\<lparr>Diagnostics := AddError ''API error''
                       (''Failed to add user '' @ userID @ '' to group '' @ groupID @ '': '' @ err)
                       (Diagnostics resp)\<rparr>), w3)
                | (None, w3) \<Rightarrow> (Returned (State_Set (plan\<lparr>g_ID := Some groupID\<rparr>) resp), w3)))"
      using assms False r
      by (cases "g_UserIDs plan"; cases "g_UserEmails plan")
         (simp_all add: group_Create_def Let_def IsNull_def ElementsAs_def StringPointerValue_def
            resolveUserEmailsToIDs_def split: prod.splits option.splits outcome.splits sum.splits)
    with t2 c2 show ?thesis by blast
  qed
qed

lemma group_Create_surfaces:
  "surfaces (issued w (snd (group_Create r_sdk plan resp w))) (fst (group_Create r_sdk plan resp w))"
proof (cases "HasError (Diagnostics resp) \<or> r_sdk = None")
  case True
  then show ?thesis by (cases r_sdk) (auto simp: group_Create_def surfaces_clean)
next
  case False
  then obtain sdk where s: "r_sdk = Some sdk" "\<not> HasError (Diagnostics resp)" by auto
  let ?c = "CreateGroupCall (ValueStringPointer (g_Name plan))"
  obtain res w1 where inv: "invoke ?c (CreateGroup sdk (ValueStringPointer (g_Name plan))) w = (res, w1)"
    and t: "trace w1 = trace w @ [(?c, error_of res)]"
    using invoke_issued by blast
  show ?thesis
  proof (cases res)
    case (Inl err)
    with s inv t show ?thesis by (simp add: group_Create_def Let_def surfaces_def)
  next
    case (Inr grp)
    show ?thesis
    proof (cases "group_Id grp")
      case None
      with s inv t Inr show ?thesis by (simp add: group_Create_def Let_def surfaces_def)
    next
      case (Some groupID)
      from group_Create_step[OF inv[unfolded Inr] s(2) Some] obtain ro w2 ev2 where
        t2: "trace w2 = trace w1 @ ev2"
        and c2: "clean ev2 \<or> (failed_last ev2 \<and> \<not> root_get (fst (last ev2)) \<and> (\<exists>e. ro = Returned (Inl e)))"
        and g: "group_Create (Some sdk) plan resp w
        = (case ro of
             Panicked \<Rightarrow> (Panicked, w2)
           | Returned (Inl err) \<Rightarrow>
               (Returned (resp\<lparr>Diagnostics := AddError ''User resolution failed'' err (Diagnostics resp)\<rparr>), w2)
           | Returned (Inr resolvedIDs) \<Rightarrow>
               (case addGroupUsers_loop sdk groupID (ElementsAs (g_UserIDs plan) @ resolvedIDs) w2 of
                  (Some (userID, err), w3) \<Rightarrow>
                    (Returned (resp\<lparr>Diagnostics := AddError ''API error''
                       (''Failed to add user '' @ userID @ '' to group '' @ groupID @ '': '' @ err)
                       (Diagnostics resp)\<rparr>), w3)
                | (None, w3) \<Rightarrow> (Returned (State_Set (plan\<lparr>g_ID := Some groupID\<rparr>) resp), w3)))"
        by blast
      from t t2 Inr have tt2: "trace w2 = trace w @ ([(?c, None)] @ ev2)" by simp
      show ?thesis
      proof (cases ro)
        case Panicked
        with c2 have cl: "clean ev2" by auto
        from Panicked g s have "group_Create r_sdk plan resp w = (Panicked, w2)" by simp
        with tt2 cl show ?thesis by (simp add: surfaces_def)
      next
        case (Returned rr)
        show ?thesis
        proof (cases rr)
          case (Inl err)
          from Returned Inl g s
          have g': "group_Create r_sdk plan resp w
             = (Returned (resp\<lparr>Diagnostics := AddError ''User resolution failed'' err (Diagnostics resp)\<rparr>), w2)"
            by simp
          from c2 show ?thesis
          proof
            assume "clean ev2"
            with tt2 g' show ?thesis by (simp add: surfaces_def)
          next
            assume f: "failed_last ev2 \<and> \<not> root_get (fst (last ev2)) \<and> (\<exists>e. ro = Returned (Inl e))"
            have "surfaces ([(?c, None)] @ ev2)
               (Returned (resp\<lparr>Diagnostics := AddError ''User resolution failed'' err (Diagnostics resp)\<rparr>))"
              using f by (intro surfaces_fail) simp_all
            with tt2 g' show ?thesis by simp
          qed
        next
          case (Inr resolvedIDs)
          with Returned c2 have cl: "clean ev2" by auto
          let ?ids = "ElementsAs (g_UserIDs plan) @ resolvedIDs"
          obtain ar w3 where a: "addGroupUsers_loop sdk groupID ?ids w2 = (ar, w3)"
            by (cases "addGroupUsers_loop sdk groupID ?ids w2")
          from addGroupUsers_loop_surfaces[OF a] obtain ev3 where
            t3: "trace w3 = trace w2 @ ev3"
            and c3: "if ar = None then clean ev3 else failed_last ev3 \<and> \<not> root_get (fst (last ev3))"
            by blast
          from tt2 t3 have tt3: "trace w3 = trace w @ (([(?c, None)] @ ev2) @ ev3)" by simp
          show ?thesis
          proof (cases ar)
            case None
            with c3 cl tt3 have "clean (issued w w3)" by simp
            moreover from None a Returned Inr g s
            have "snd (group_Create r_sdk plan resp w) = w3" by simp
            ultimately show ?thesis by (simp add: surfaces_clean)
          next
            case (Some f)
            obtain u err where fe: "f = (u, err)" by (cases f)
            from Some fe a Returned Inr g s
            have g': "group_Create r_sdk plan resp w
               = (Returned (resp\<lparr>Diagnostics := AddError ''API error''
                    (''Failed to add user '' @ u @ '' to group '' @ groupID @ '': '' @ err)
                    (Diagnostics resp)\<rparr>), w3)"
              by simp
            have "surfaces (([(?c, None)] @ ev2) @ ev3)
               (Returned (resp\<lparr>Diagnostics := AddError ''API error''
                    (''Failed to add user '' @ u @ '' to group '' @ groupID @ '': '' @ err)
                    (Diagnostics resp)\<rparr>))"
              using c3 Some cl by (intro surfaces_fail) simp_all
            with tt3 g' show ?thesis by simp
          qed
        qed
      qed
    qed
  qed
qed


lemma group_Update_rename:
  "\<exists>e1 w1 ev1. (if g_Name plan \<noteq> g_Name state
        then (case invoke (UpdateGroupCall groupID (ValueStringPointer (g_Name plan)))
                     (UpdateGroup sdk groupID (ValueStringPointer (g_Name plan))) w of
                (Inl err, w1) \<Rightarrow> (Some err, w1)
              | (Inr _, w1) \<Rightarrow> (None, w1))
        else (None, w)) = (e1, w1)
     \<and> trace w1 = trace w @ ev1
     \<and> (if e1 = None then clean ev1 else failed_last ev1 \<and> \<not> root_get (fst (last ev1)))"
proof (cases "g_Name plan \<noteq> g_Name state")
  case False
  then have "(if g_Name plan \<noteq> g_Name state
        then (case invoke (UpdateGroupCall groupID (ValueStringPointer (g_Name plan)))
                     (UpdateGroup sdk groupID (ValueStringPointer (g_Name plan))) w of
                (Inl err, w1) \<Rightarrow> (Some err, w1)
              | (Inr _, w1) \<Rightarrow> (None, w1))
        else (None, w)) = (None, w) \<and> trace w = trace w @ []
       \<and> (if (None :: string option) = None then clean [] else failed_last [] \<and> \<not> root_get (fst (last [])))"
    by simp
  then show ?thesis by blast
next
  case True
  let ?c = "UpdateGroupCall groupID (ValueStringPointer (g_Name plan))"
  obtain r w1 where inv: "invoke ?c (UpdateGroup sdk groupID (ValueStringPointer (g_Name plan))) w = (r, w1)"
    and t: "trace w1 = trace w @ [(?c, error_of r)]"
    using invoke_issued by blast
  show ?thesis
  proof (cases r)
    case (Inl err)
    with True inv t have "(if g_Name plan \<noteq> g_Name state
        then (case invoke ?c (UpdateGroup sdk groupID (ValueStringPointer (g_Name plan))) w of
                (Inl err, w1) \<Rightarrow> (Some err, w1)
              | (Inr _, w1) \<Rightarrow> (None, w1))
        else (None, w)) = (Some err, w1) \<and> trace w1 = trace w @ [(?c, Some err)]
       \<and> (if Some err = None then clean [(?c, Some err)]
           else failed_last [(?c, Some err)] \<and> \<not> root_get (fst (last [(?c, Some err)])))"
      by simp
    then show ?thesis by blast
  next
    case (Inr v)
    with True inv t have "(if g_Name plan \<noteq> g_Name state
        then (case invoke ?c (UpdateGroup sdk groupID (ValueStringPointer (g_Name plan))) w of
                (Inl err, w1) \<Rightarrow> (Some err, w1)
              | (Inr _, w1) \<Rightarrow> (None, w1))
        else (None, w)) = (None, w1) \<and> trace w1 = trace w @ [(?c, None)]
       \<and> (if (None :: string option) = None then clean [(?c, None)]
           else failed_last [(?c, None)] \<and> \<not> root_get (fst (last [(?c, None)])))"
      by simp
    then show ?thesis by blast
  qed
qed

lemma group_resolve_part:
  "\<exists>ro w2 ev2. (if \<not> IsNull emails then resolveUserEmailsToIDs sdk (ElementsAs emails) w1
                 else (Returned (Inr []), w1)) = (ro, w2)
     \<and> trace w2 = trace w1 @ ev2
     \<and> (clean ev2 \<or> (failed_last ev2 \<and> \<not> root_get (fst (last ev2)) \<and> (\<exists>e. ro = Returned (Inl e))))"
proof (cases "IsNull emails")
  case True
  then have "(if \<not> IsNull emails then resolveUserEmailsToIDs sdk (ElementsAs emails) w1
                 else (Returned (Inr []), w1)) = (Returned (Inr []), w1)
     \<and> trace w1 = trace w1 @ []
     \<and> (clean [] \<or> (failed_last [] \<and> \<not> root_get (fst (last []))
          \<and> (\<exists>e. (Returned (Inr []) :: string list result outcome) = Returned (Inl e))))"
    by simp
  then show ?thesis by blast
next
  case False
  obtain ro w2 where r: "resolveUserEmailsToIDs_loop sdk (ElementsAs emails) [] w1 = (ro, w2)"
    by (cases "resolveUserEmailsToIDs_loop sdk (ElementsAs emails) [] w1")
  from resolve_loop_surfaces[OF r] obtain ev2 where
    "trace w2 = trace w1 @ ev2"
    "clean ev2 \<or> (failed_last ev2 \<and> \<not> root_get (fst (last ev2)) \<and> (\<exists>e. ro = Returned (Inl e)))"
    by blast
  with False r have "(if \<not> IsNull emails then resolveUserEmailsToIDs sdk (ElementsAs emails) w1
                 else (Returned (Inr []), w1)) = (ro, w2)
     \<and> trace w2 = trace w1 @ ev2
     \<and> (clean ev2 \<or> (failed_last ev2 \<and> \<not> root_get (fst (last ev2)) \<and> (\<exists>e. ro = Returned (Inl e))))"
    by (simp add: resolveUserEmailsToIDs_def)
  then show ?thesis by blast
qed

lemma group_Update_surfaces:
  "surfaces (issued w (snd (group_Update r_sdk planOrder stateOrder plan state resp w)))
     (fst (group_Update r_sdk planOrder stateOrder plan state resp w))"
proof (cases "HasError (Diagnostics resp) \<or> r_sdk = None")
  case True
  then show ?thesis by (cases r_sdk) (auto simp: group_Update_def surfaces_clean)
next
  case False
  then obtain sdk where s: "r_sdk = Some sdk" "\<not> HasError (Diagnostics resp)" by auto
  let ?g = "ValueString (g_ID state)"
  let ?ids1 = "if \<not> IsNull (g_UserIDs plan) then ElementsAs (g_UserIDs plan) else []"
  from group_Update_rename[of plan state ?g sdk w] obtain e1 w1 ev1 where
    n: "(if g_Name plan \<noteq> g_Name state
        then (case invoke (UpdateGroupCall ?g (ValueStringPointer (g_Name plan)))
                     (UpdateGroup sdk ?g (ValueStringPointer (g_Name plan))) w of
                (Inl err, w1) \<Rightarrow> (Some err, w1)
              | (Inr _, w1) \<Rightarrow> (None, w1))
        else (None, w)) = (e1, w1)"
    and t1: "trace w1 = trace w @ ev1"
    and c1: "if e1 = None then clean ev1 else failed_last ev1 \<and> \<not> root_get (fst (last ev1))"
    by blast
  from group_resolve_part[of "g_UserEmails plan" sdk w1] obtain ro w2 ev2 where
    r: "(if \<not> IsNull (g_UserEmails plan) then resolveUserEmailsToIDs sdk (ElementsAs (g_UserEmails plan)) w1
                 else (Returned (Inr []), w1)) = (ro, w2)"
    and t2: "trace w2 = trace w1 @ ev2"
    and c2: "clean ev2 \<or> (failed_last ev2 \<and> \<not> root_get (fst (last ev2)) \<and> (\<exists>e. ro = Returned (Inl e)))"
    by blast
  have u: "group_Update r_sdk planOrder stateOrder plan state resp w
     = (case e1 of
          Some err \<Rightarrow>
            (Returned (resp\<lparr>Diagnostics := AddError ''API error''
               (''Failed to update group name for '' @ ?g @ '': '' @ err) (Diagnostics resp)\<rparr>), w1)
        | None \<Rightarrow>
           (case ro of
              Panicked \<Rightarrow> (Panicked, w2)
            | Returned (Inl err) \<Rightarrow>
                (Returned (resp\<lparr>Diagnostics := AddError ''User resolution failed'' err (Diagnostics resp)\<rparr>), w2)
            | Returned (Inr resolvedIDs) \<Rightarrow>
                (case diffMembership sdk planOrder stateOrder ?g (?ids1 @ resolvedIDs)
                        (ElementsAs (g_UserIDs state)) w2 of
                   (Some (AddFailed userID err), w3) \<Rightarrow>
                     (Returned (resp\<lparr>Diagnostics := AddError ''API error''
                        (''Failed to add user '' @ userID @ '' to group '' @ ?g @ '': '' @ err)
                        (Diagnostics resp)\<rparr>), w3)
                 | (Some (RemoveFailed userID err), w3) \<Rightarrow>
                     (Returned (resp\<lparr>Diagnostics := AddError ''API error''
                        (''Failed to remove user '' @ userID @ '' from group '' @ ?g @ '': '' @ err)
                        (Diagnostics resp)\<rparr>), w3)
                 | (None, w3) \<Rightarrow> (Returned (State_Set plan resp), w3))))"
    unfolding group_Update_def Let_def using s by (simp only: n r option.case if_False prod.case)
  show ?thesis
  proof (cases e1)
    case (Some err)
    with c1 have f: "failed_last ev1" "\<not> root_get (fst (last ev1))" by simp_all
    have "surfaces ([] @ ev1) (Returned (resp\<lparr>Diagnostics := AddError ''API error''
               (''Failed to update group name for '' @ ?g @ '': '' @ err) (Diagnostics resp)\<rparr>))"
      using f by (intro surfaces_fail) simp_all
    with Some u t1 show ?thesis by simp
  next
    case None
    with c1 have cl1: "clean ev1" by simp
    from t1 t2 have tt2: "trace w2 = trace w @ (ev1 @ ev2)" by simp
    show ?thesis
    proof (cases ro)
      case Panicked
      with c2 have "clean ev2" by auto
      with cl1 tt2 have "clean (issued w w2)" by simp
      with None Panicked u show ?thesis by (simp add: surfaces_clean)
    next
      case (Returned rr)
      show ?thesis
      proof (cases rr)
        case (Inl err)
        from None Returned Inl u
        have u': "group_Update r_sdk planOrder stateOrder plan state resp w
           = (Returned (resp\<lparr>Diagnostics := AddError ''User resolution failed'' err (Diagnostics resp)\<rparr>), w2)"
          by simp
        from c2 show ?thesis
        proof
          assume "clean ev2"
          with cl1 tt2 u' show ?thesis by (simp add: surfaces_clean)
        next
          assume f: "failed_last ev2 \<and> \<not> root_get (fst (last ev2)) \<and> (\<exists>e. ro = Returned (Inl e))"
          have "surfaces (ev1 @ ev2)
             (Returned (resp\<lparr>Diagnostics := AddError ''User resolution failed'' err (Diagnostics resp)\<rparr>))"
            using f cl1 by (intro surfaces_fail) simp_all
          with tt2 u' show ?thesis by simp
        qed
      next
        case (Inr resolvedIDs)
        with Returned c2 have cl2: "clean ev2" by auto
        obtain dr w3 where d: "diffMembership sdk planOrder stateOrder ?g (?ids1 @ resolvedIDs)
                        (ElementsAs (g_UserIDs state)) w2 = (dr, w3)"
          by (cases "diffMembership sdk planOrder stateOrder ?g (?ids1 @ resolvedIDs)
                        (ElementsAs (g_UserIDs state)) w2")
        from diffMembership_surfaces[OF d] obtain ev3 where
          t3: "trace w3 = trace w2 @ ev3"
          and c3: "if dr = None then clean ev3 else failed_last ev3 \<and> \<not> root_get (fst (last ev3))"
          by blast
        from tt2 t3 have tt3: "trace w3 = trace w @ ((ev1 @ ev2) @ ev3)" by simp
        show ?thesis
        proof (cases dr)
          case None
          with c3 cl1 cl2 tt3 have "clean (issued w w3)" by simp
          moreover from None d Returned Inr \<open>e1 = None\<close> u
          have "snd (group_Update r_sdk planOrder stateOrder plan state resp w) = w3" by simp
          ultimately show ?thesis by (simp add: surfaces_clean)
        next
          case (Some f)
          with c3 have fl: "failed_last ev3" "\<not> root_get (fst (last ev3))" by simp_all
          have sf: "HasError (Diagnostics r') \<Longrightarrow> surfaces ((ev1 @ ev2) @ ev3) (Returned r')" for r' :: "groupResourceModel response"
            using fl cl1 cl2 by (intro surfaces_fail) simp_all
          show ?thesis
          proof (cases f)
            case (AddFailed userID err)
            with Some d Returned Inr \<open>e1 = None\<close> u
            have "group_Update r_sdk planOrder stateOrder plan state resp w
               = (Returned (resp\<lparr>Diagnostics := AddError ''API error''
                        (''Failed to add user '' @ userID @ '' to group '' @ ?g @ '': '' @ err)
                        (Diagnostics resp)\<rparr>), w3)" by simp
            with tt3 sf show ?thesis by simp
          next
            case (RemoveFailed userID err)
            with Some d Returned Inr \<open>e1 = None\<close> u
            have "group_Update r_sdk planOrder stateOrder plan state resp w
               = (Returned (resp\<lparr>Diagnostics := AddError ''API error''
                        (''Failed to remove user '' @ userID @ '' from group '' @ ?g @ '': '' @ err)
                        (Diagnostics resp)\<rparr>), w3)" by simp
            with tt3 sf show ?thesis by simp
          qed
        qed
      qed
    qed
  qed
qed


lemma folder_Delete_surfaces:
  "surfaces (issued w (snd (folder_Delete r_sdk state resp w))) (fst (folder_Delete r_sdk state resp w))"
proof (cases "HasError (Diagnostics resp) \<or> r_sdk = None")
  case True
  then show ?thesis by (cases r_sdk) (auto simp: folder_Delete_def surfaces_clean)
next
  case False
  then obtain sdk where s: "r_sdk = Some sdk" "\<not> HasError (Diagnostics resp)" by auto
  let ?c = "DeleteFolderCall (ValueString (f_ID state))"
  obtain res w1 where inv: "invoke ?c (DeleteFolder sdk (ValueString (f_ID state))) w = (res, w1)"
    and i: "issued w w1 = [(?c, error_of res)]"
    using invoke_issued by blast
  show ?thesis
    using s inv i
    by (cases res) (simp_all add: folder_Delete_def Let_def surfaces_def RemoveResource_def)
qed

lemma permissionSet_Create_surfaces:
  "surfaces (issued w (snd (permissionSet_Create r_sdk plan resp w))) (fst (permissionSet_Create r_sdk plan resp w))"
proof (cases "HasError (Diagnostics resp) \<or> r_sdk = None")
  case True
  then show ?thesis by (cases r_sdk) (auto simp: permissionSet_Create_def surfaces_clean)
next
  case False
  then obtain sdk where s: "r_sdk = Some sdk" "\<not> HasError (Diagnostics resp)" by auto
  let ?c = "CreatePermissionSetCall (ValueStringPointer (p_Name plan)) (ElementsAs (p_Permissions plan))"
  obtain res w1 where inv: "invoke ?c (CreatePermissionSet sdk (ValueStringPointer (p_Name plan)) (ElementsAs (p_Permissions plan))) w = (res, w1)"
    and i: "issued w w1 = [(?c, error_of res)]"
    using invoke_issued by blast
  show ?thesis
    using s inv i
    by (cases res) (simp_all add: permissionSet_Create_def Let_def surfaces_def RemoveResource_def)
qed

lemma permissionSet_Read_surfaces:
  "surfaces (issued w (snd (permissionSet_Read r_sdk state resp w))) (fst (permissionSet_Read r_sdk state resp w))"
proof (cases "HasError (Diagnostics resp) \<or> r_sdk = None")
  case True
  then show ?thesis by (cases r_sdk) (auto simp: permissionSet_Read_def surfaces_clean)
next
  case False
  then obtain sdk where s: "r_sdk = Some sdk" "\<not> HasError (Diagnostics resp)" by auto
  let ?c = "PermissionSetCall (ValueString (p_ID state)) []"
  obtain res w1 where inv: "invoke ?c (GetPermissionSet sdk (ValueString (p_ID state)) []) w = (res, w1)"
    and i: "issued w w1 = [(?c, error_of res)]"
    using invoke_issued by blast
  show ?thesis
    using s inv i
    by (cases res)
       (simp_all add: permissionSet_Read_def Let_def surfaces_def RemoveResource_def split: sum.splits)
qed

lemma permissionSet_Update_surfaces:
  "surfaces (issued w (snd (permissionSet_Update r_sdk plan state resp w))) (fst (permissionSet_Update r_sdk plan state resp w))"
proof (cases "HasError (Diagnostics resp) \<or> r_sdk = None")
  case True
  then show ?thesis by (cases r_sdk) (auto simp: permissionSet_Update_def surfaces_clean)
next
  case False
  then obtain sdk where s: "r_sdk = Some sdk" "\<not> HasError (Diagnostics resp)" by auto
  let ?c = "UpdatePermissionSetCall (ValueString (p_ID state)) (ValueStringPointer (p_Name plan)) (ElementsAs (p_Permissions plan))"
  obtain res w1 where inv: "invoke ?c (UpdatePermissionSet sdk (ValueString (p_ID state)) (ValueStringPointer (p_Name plan)) (ElementsAs (p_Permissions plan))) w = (res, w1)"
    and i: "issued w w1 = [(?c, error_of res)]"
    using invoke_issued by blast
  show ?thesis
    using s inv i
    by (cases res) (simp_all add: permissionSet_Update_def Let_def surfaces_def RemoveResource_def)
qed

lemma permissionSet_Delete_surfaces:
  "surfaces (issued w (snd (permissionSet_Delete r_sdk state resp w))) (fst (permissionSet_Delete r_sdk state resp w))"
proof (cases "HasError (Diagnostics resp) \<or> r_sdk = None")
  case True
  then show ?thesis by (cases r_sdk) (auto simp: permissionSet_Delete_def surfaces_clean)
next
  case False
  then obtain sdk where s: "r_sdk = Some sdk" "\<not> HasError (Diagnostics resp)" by auto
  let ?c = "DeletePermissionSetCall (ValueString (p_ID state))"
  obtain res w1 where inv: "invoke ?c (DeletePermissionSet sdk (ValueString (p_ID state))) w = (res, w1)"
    and i: "issued w w1 = [(?c, error_of res)]"
    using invoke_issued by blast
  show ?thesis
    using s inv i
    by (cases res) (simp_all add: permissionSet_Delete_def Let_def surfaces_def RemoveResource_def)
qed

lemma modelSet_Create_surfaces:
  "surfaces (issued w (snd (modelSet_Create r_sdk plan resp w))) (fst (modelSet_Create r_sdk plan resp w))"
proof (cases "HasError (Diagnostics resp) \<or> r_sdk = None")
  case True
  then show ?thesis by (cases r_sdk) (auto simp: modelSet_Create_def surfaces_clean)
next
  case False
  then obtain sdk where s: "r_sdk = Some sdk" "\<not> HasError (Diagnostics resp)" by auto
  let ?c = "CreateModelSetCall (ValueStringPointer (m_Name plan)) (ElementsAs (m_Models plan))"
  obtain res w1 where inv: "invoke ?c (CreateModelSet sdk (ValueStringPointer (m_Name plan)) (ElementsAs (m_Models plan))) w = (res, w1)"
    and i: "issued w w1 = [(?c, error_of res)]"
    using invoke_issued by blast
  show ?thesis
    using s inv i
    by (cases res) (simp_all add: modelSet_Create_def Let_def surfaces_def RemoveResource_def)
qed

lemma modelSet_Read_surfaces:
  "surfaces (issued w (snd (modelSet_Read r_sdk state resp w))) (fst (modelSet_Read r_sdk state resp w))"
proof (cases "HasError (Diagnostics resp) \<or> r_sdk = None")
  case True
  then show ?thesis by (cases r_sdk) (auto simp: modelSet_Read_def surfaces_clean)
next
  case False
  then obtain sdk where s: "r_sdk = Some sdk" "\<not> HasError (Diagnostics resp)" by auto
  let ?c = "ModelSetCall (ValueString (m_ID state)) []"
  obtain res w1 where inv: "invoke ?c (GetModelSet sdk (ValueString (m_ID state)) []) w = (res, w1)"
    and i: "issued w w1 = [(?c, error_of res)]"
    using invoke_issued by blast
  show ?thesis
    using s inv i
    by (cases res)
       (simp_all add: modelSet_Read_def Let_def surfaces_def RemoveResource_def split: sum.splits)
qed

lemma modelSet_Update_surfaces:
  "surfaces (issued w (snd (modelSet_Update r_sdk plan state resp w))) (fst (modelSet_Update r_sdk plan state resp w))"
proof (cases "HasError (Diagnostics resp) \<or> r_sdk = None")
  case True
  then show ?thesis by (cases r_sdk) (auto simp: modelSet_Update_def surfaces_clean)
next
  case False
  then obtain sdk where s: "r_sdk = Some sdk" "\<not> HasError (Diagnostics resp)" by auto
  let ?c = "UpdateModelSetCall (ValueString (m_ID state)) (ValueStringPointer (m_Name plan)) (ElementsAs (m_Models plan))"
  obtain res w1 where inv: "invoke ?c (UpdateModelSet sdk (ValueString (m_ID state)) (ValueStringPointer (m_Name plan)) (ElementsAs (m_Models plan))) w = (res, w1)"
    and i: "issued w w1 = [(?c, error_of res)]"
    using invoke_issued by blast
  show ?thesis
    using s inv i
    by (cases res) (simp_all add: modelSet_Update_def Let_def surfaces_def RemoveResource_def)
qed

lemma modelSet_Delete_surfaces:
  "surfaces (issued w (snd (modelSet_Delete r_sdk state resp w))) (fst (modelSet_Delete r_sdk state resp w))"
proof (cases "HasError (Diagnostics resp) \<or> r_sdk = None")
  case True
  then show ?thesis by (cases r_sdk) (auto simp: modelSet_Delete_def surfaces_clean)
next
  case False
  then obtain sdk where s: "r_sdk = Some sdk" "\<not> HasError (Diagnostics resp)" by auto
  let ?c = "DeleteModelSetCall (ValueString (m_ID state))"
  obtain res w1 where inv: "invoke ?c (DeleteModelSet sdk (ValueString (m_ID state))) w = (res, w1)"
    and i: "issued w w1 = [(?c, error_of res)]"
    using invoke_issued by blast
  show ?thesis
    using s inv i
    by (cases res) (simp_all add: modelSet_Delete_def Let_def surfaces_def RemoveResource_def)
qed

lemma role_Create_surfaces:
  "surfaces (issued w (snd (role_Create r_sdk plan resp w))) (fst (role_Create r_sdk plan resp w))"
proof (cases "HasError (Diagnostics resp) \<or> r_sdk = None")
  case True
  then show ?thesis by (cases r_sdk) (auto simp: role_Create_def surfaces_clean)
next
  case False
  then obtain sdk where s: "r_sdk = Some sdk" "\<not> HasError (Diagnostics resp)" by auto
  let ?c = "CreateRoleCall (ValueStringPointer (r_Name plan)) (ValueStringPointer (r_PermissionSetID plan)) (ValueStringPointer (r_ModelSetID plan))"
  obtain res w1 where inv: "invoke ?c (CreateRole sdk (ValueStringPointer (r_Name plan)) (ValueStringPointer (r_PermissionSetID plan)) (ValueStringPointer (r_ModelSetID plan))) w = (res, w1)"
    and i: "issued w w1 = [(?c, error_of res)]"
    using invoke_issued by blast
  show ?thesis
    using s inv i
    by (cases res) (simp_all add: role_Create_def Let_def surfaces_def RemoveResource_def)
qed

lemma role_Read_surfaces:
  "surfaces (issued w (snd (role_Read r_sdk state resp w))) (fst (role_Read r_sdk state resp w))"
proof (cases "HasError (Diagnostics resp) \<or> r_sdk = None")
  case True
  then show ?thesis by (cases r_sdk) (auto simp: role_Read_def surfaces_clean)
next
  case False
  then obtain sdk where s: "r_sdk = Some sdk" "\<not> HasError (Diagnostics resp)" by auto
  let ?c = "RoleCall (ValueString (r_ID state))"
  obtain res w1 where inv: "invoke ?c (GetRole sdk (ValueString (r_ID state))) w = (res, w1)"
    and i: "issued w w1 = [(?c, error_of res)]"
    using invoke_issued by blast
  show ?thesis
    using s inv i
    by (cases res) (simp_all add: role_Read_def Let_def surfaces_def RemoveResource_def)
qed

lemma role_Update_surfaces:
  "surfaces (issued w (snd (role_Update r_sdk plan state resp w))) (fst (role_Update r_sdk plan state resp w))"
proof (cases "HasError (Diagnostics resp) \<or> r_sdk = None")
  case True
  then show ?thesis by (cases r_sdk) (auto simp: role_Update_def surfaces_clean)
next
  case False
  then obtain sdk where s: "r_sdk = Some sdk" "\<not> HasError (Diagnostics resp)" by auto
  let ?c = "UpdateRoleCall (ValueString (r_ID state)) (ValueStringPointer (r_Name plan)) (ValueStringPointer (r_PermissionSetID plan)) (ValueStringPointer (r_ModelSetID plan))"
  obtain res w1 where inv: "invoke ?c (UpdateRole sdk (ValueString (r_ID state)) (ValueStringPointer (r_Name plan)) (ValueStringPointer (r_PermissionSetID plan)) (ValueStringPointer (r_ModelSetID plan))) w = (res, w1)"
    and i: "issued w w1 = [(?c, error_of res)]"
    using invoke_issued by blast
  show ?thesis
    using s inv i
    by (cases res) (simp_all add: role_Update_def Let_def surfaces_def RemoveResource_def)
qed

lemma role_Delete_surfaces:
  "surfaces (issued w (snd (role_Delete r_sdk state resp w))) (fst (role_Delete r_sdk state resp w))"
proof (cases "HasError (Diagnostics resp) \<or> r_sdk = None")
  case True
  then show ?thesis by (cases r_sdk) (auto simp: role_Delete_def surfaces_clean)
next
  case False
  then obtain sdk where s: "r_sdk = Some sdk" "\<not> HasError (Diagnostics resp)" by auto
  let ?c = "DeleteRoleCall (ValueString (r_ID state))"
  obtain res w1 where inv: "invoke ?c (DeleteRole sdk (ValueString (r_ID state))) w = (res, w1)"
    and i: "issued w w1 = [(?c, error_of res)]"
    using invoke_issued by blast
  show ?thesis
    using s inv i
    by (cases res) (simp_all add: role_Delete_def Let_def surfaces_def RemoveResource_def)
qed

lemma roleGroups_Create_surfaces:
  "surfaces (issued w (snd (roleGroups_Create r_sdk plan resp w))) (fst (roleGroups_Create r_sdk plan resp w))"
proof (cases "HasError (Diagnostics resp) \<or> r_sdk = None")
  case True
  then show ?thesis by (cases r_sdk) (auto simp: roleGroups_Create_def surfaces_clean)
next
  case False
  then obtain sdk where s: "r_sdk = Some sdk" "\<not> HasError (Diagnostics resp)" by auto
  let ?c = "SetRoleGroupsCall (ValueString (rg_RoleID plan)) (ElementsAs (rg_GroupIDs plan))"
  obtain res w1 where inv: "invoke ?c (SetRoleGroups sdk (ValueString (rg_RoleID plan)) (ElementsAs (rg_GroupIDs plan))) w = (res, w1)"
    and i: "issued w w1 = [(?c, error_of res)]"
    using invoke_issued by blast
  show ?thesis
    using s inv i
    by (cases res) (simp_all add: roleGroups_Create_def setRoleGroups_def Let_def surfaces_def RemoveResource_def)
qed

lemma roleGroups_Update_surfaces:
  "surfaces (issued w (snd (roleGroups_Update r_sdk plan resp w))) (fst (roleGroups_Update r_sdk plan resp w))"
proof (cases "HasError (Diagnostics resp) \<or> r_sdk = None")
  case True
  then show ?thesis by (cases r_sdk) (auto simp: roleGroups_Update_def surfaces_clean)
next
  case False
  then obtain sdk where s: "r_sdk = Some sdk" "\<not> HasError (Diagnostics resp)" by auto
  let ?c = "SetRoleGroupsCall (ValueString (rg_RoleID plan)) (ElementsAs (rg_GroupIDs plan))"
  obtain res w1 where inv: "invoke ?c (SetRoleGroups sdk (ValueString (rg_RoleID plan)) (ElementsAs (rg_GroupIDs plan))) w = (res, w1)"
    and i: "issued w w1 = [(?c, error_of res)]"
    using invoke_issued by blast
  show ?thesis
    using s inv i
    by (cases res) (simp_all add: roleGroups_Update_def setRoleGroups_def Let_def surfaces_def RemoveResource_def)
qed

lemma roleGroups_Delete_surfaces:
  "surfaces (issued w (snd (roleGroups_Delete r_sdk state resp w))) (fst (roleGroups_Delete r_sdk state resp w))"
proof (cases "HasError (Diagnostics resp) \<or> r_sdk = None")
  case True
  then show ?thesis by (cases r_sdk) (auto simp: roleGroups_Delete_def surfaces_clean)
next
  case False
  then obtain sdk where s: "r_sdk = Some sdk" "\<not> HasError (Diagnostics resp)" by auto
  let ?c = "SetRoleGroupsCall (ValueString (rg_RoleID state)) []"
  obtain res w1 where inv: "invoke ?c (SetRoleGroups sdk (ValueString (rg_RoleID state)) []) w = (res, w1)"
    and i: "issued w w1 = [(?c, error_of res)]"
    using invoke_issued by blast
  show ?thesis
    using s inv i
    by (cases res) (simp_all add: roleGroups_Delete_def Let_def surfaces_def RemoveResource_def)
qed

lemma roleGroups_Read_surfaces:
  "surfaces (issued w (snd (roleGroups_Read r_sdk state resp w))) (fst (roleGroups_Read r_sdk state resp w))"
proof (cases "HasError (Diagnostics resp) \<or> r_sdk = None")
  case True
  then show ?thesis by (cases r_sdk) (auto simp: roleGroups_Read_def surfaces_clean)
next
  case False
  then obtain sdk where s: "r_sdk = Some sdk" "\<not> HasError (Diagnostics resp)" by auto
  let ?c = "RoleGroupsCall (ValueString (rg_RoleID state)) ''id''"
  obtain res w1 where inv: "invoke ?c (RoleGroups sdk (ValueString (rg_RoleID state)) ''id'') w = (res, w1)"
    and i: "issued w w1 = [(?c, error_of res)]"
    using invoke_issued by blast
  show ?thesis
  proof (cases res)
    case (Inl err)
    with s inv i show ?thesis by (simp add: roleGroups_Read_def Let_def surfaces_def)
  next
    case (Inr groups)
    with s inv i show ?thesis
      by (cases "collectGroupIds groups []")
         (simp_all add: roleGroups_Read_def Let_def surfaces_def split: sum.splits)
  qed
qed

lemma folder_Read_surfaces:
  "surfaces (issued w (snd (folder_Read r_sdk state resp w))) (fst (folder_Read r_sdk state resp w))"
proof (cases "HasError (Diagnostics resp) \<or> r_sdk = None")
  case True
  then show ?thesis by (cases r_sdk) (auto simp: folder_Read_def surfaces_clean)
next
  case False
  then obtain sdk where s: "r_sdk = Some sdk" "\<not> HasError (Diagnostics resp)" by auto
  let ?c = "FolderCall (ValueString (f_ID state)) ''id,name,parent_id,content_metadata_id''"
  obtain res w1 where inv: "invoke ?c
        (GetFolder sdk (ValueString (f_ID state)) ''id,name,parent_id,content_metadata_id'') w = (res, w1)"
    and t: "trace w1 = trace w @ [(?c, error_of res)]"
    using invoke_issued by blast
  show ?thesis
  proof (cases res)
    case (Inl err)
    with s inv t show ?thesis
      by (simp add: folder_Read_def surfaces_def RemoveResource_def)
  next
    case (Inr folder)
    show ?thesis
    proof (cases "folder_ContentMetadataId folder")
      case None
      with s inv t Inr show ?thesis by (simp add: folder_Read_def surfaces_def)
    next
      case (Some cm)
      obtain mr w2 where inv2: "invoke (ContentMetadataCall cm ''inherits'')
            (ContentMetadata sdk cm ''inherits'') w1 = (mr, w2)"
        and t2: "trace w2 = trace w1 @ [(ContentMetadataCall cm ''inherits'', error_of mr)]"
        using invoke_issued by blast
      from t t2 Inr have i2: "issued w w2 = [(?c, None), (ContentMetadataCall cm ''inherits'', error_of mr)]"
        by simp
      show ?thesis
        using s inv Inr Some inv2 i2
        by (cases mr) (simp_all add: folder_Read_def surfaces_def failed_last_def)
    qed
  qed
qed

lemma folder_Update_inherits_surfaces:
  assumes "\<not> HasError (Diagnostics resp)"
  shows "\<exists>evs. trace (snd (folder_Update_inherits r_sdk plan state resp w)) = trace w @ evs
     \<and> (clean evs \<or> (failed_last evs \<and> \<not> root_get (fst (last evs))
          \<and> (\<exists>r. fst (folder_Update_inherits r_sdk plan state resp w) = Returned r
                   \<and> HasError (Diagnostics r))))"
proof (cases "f_InheritsPermissions plan \<noteq> f_InheritsPermissions state \<and> r_sdk \<noteq> None")
  case False
  then have "snd (folder_Update_inherits r_sdk plan state resp w) = w"
    by (cases r_sdk) (auto simp: folder_Update_inherits_def)
  then show ?thesis by simp
next
  case True
  then obtain sdk where s: "r_sdk = Some sdk" "f_InheritsPermissions plan \<noteq> f_InheritsPermissions state"
    by auto
  let ?c = "UpdateContentMetadataCall (ValueString (f_ContentMetadataID plan))
              (ValueBoolPointer (f_InheritsPermissions plan))"
  obtain res w1 where inv: "invoke ?c (UpdateContentMetadata sdk (ValueString (f_ContentMetadataID plan))
              (ValueBoolPointer (f_InheritsPermissions plan))) w = (res, w1)"
    and t: "trace w1 = trace w @ [(?c, error_of res)]"
    using invoke_issued by blast
  show ?thesis
  proof (cases res)
    case (Inl err)
    with s inv t have "trace (snd (folder_Update_inherits r_sdk plan state resp w)) = trace w @ [(?c, Some err)]"
      and "\<exists>r. fst (folder_Update_inherits r_sdk plan state resp w) = Returned r \<and> HasError (Diagnostics r)"
      by (simp_all add: folder_Update_inherits_def)
    then show ?thesis by (intro exI[of _ "[(?c, Some err)]"]) simp
  next
    case (Inr m)
    with s inv t have "trace (snd (folder_Update_inherits r_sdk plan state resp w)) = trace w @ [(?c, None)]"
      by (simp add: folder_Update_inherits_def)
    then show ?thesis by (intro exI[of _ "[(?c, None)]"]) simp
  qed
qed

lemma folder_Update_inherits_surfaces':
  assumes "\<not> HasError (Diagnostics resp)" and "clean pre" and "trace w1 = trace w @ pre"
  shows "surfaces (issued w (snd (folder_Update_inherits r_sdk plan state resp w1)))
           (fst (folder_Update_inherits r_sdk plan state resp w1))"
proof -
  let ?r = "folder_Update_inherits r_sdk plan state resp w1"
  obtain evs where t: "trace (snd ?r) = trace w1 @ evs"
    and d: "clean evs \<or> (failed_last evs \<and> \<not> root_get (fst (last evs))
          \<and> (\<exists>r. fst ?r = Returned r \<and> HasError (Diagnostics r)))"
    using folder_Update_inherits_surfaces[OF assms(1)] by blast
  from t assms(3) have i: "issued w (snd ?r) = pre @ evs" by (simp add: issued_def)
  from d show ?thesis
  proof
    assume "clean evs"
    with assms(2) i show ?thesis by (simp add: surfaces_clean clean_def)
  next
    assume f: "failed_last evs \<and> \<not> root_get (fst (last evs))
          \<and> (\<exists>r. fst ?r = Returned r \<and> HasError (Diagnostics r))"
    then obtain r where r: "fst ?r = Returned r" "HasError (Diagnostics r)" by blast
    from surfaces_fail[OF assms(2), of evs r] f r i show ?thesis by simp
  qed
qed

lemma folder_Update_surfaces:
  "surfaces (issued w (snd (folder_Update r_sdk plan state resp w))) (fst (folder_Update r_sdk plan state resp w))"
proof (cases "HasError (Diagnostics resp)")
  case True
  then show ?thesis by (simp add: folder_Update_def surfaces_clean)
next
  case ne: False
  show ?thesis
  proof (cases "f_Name plan \<noteq> f_Name state \<or> f_ParentID plan \<noteq> f_ParentID state")
    case False
    with ne have "folder_Update r_sdk plan state resp w = folder_Update_inherits r_sdk plan state resp w"
      by (simp add: folder_Update_def)
    with folder_Update_inherits_surfaces'[OF ne, of "[]" w w] show ?thesis by simp
  next
    case ch: True
    show ?thesis
    proof (cases r_sdk)
      case None
      with ne ch show ?thesis by (simp add: folder_Update_def surfaces_clean)
    next
      case (Some sdk)
      let ?c = "UpdateFolderCall (ValueString (f_ID plan)) (ValueStringPointer (f_Name plan))
                  (ValueStringPointer (f_ParentID plan))"
      obtain res w1 where inv: "invoke ?c (UpdateFolder sdk (ValueString (f_ID plan))
                  (ValueStringPointer (f_Name plan)) (ValueStringPointer (f_ParentID plan))) w = (res, w1)"
        and i: "issued w w1 = [(?c, error_of res)]"
        and t: "trace w1 = trace w @ [(?c, error_of res)]"
        using invoke_issued by blast
      show ?thesis
      proof (cases res)
        case (Inl err)
        with ne ch Some inv i show ?thesis by (simp add: folder_Update_def surfaces_def)
      next
        case (Inr f)
        with ne ch Some inv
        have e: "folder_Update r_sdk plan state resp w = folder_Update_inherits r_sdk plan state resp w1"
          by (simp add: folder_Update_def)
        from t Inr have t': "trace w1 = trace w @ [(?c, None)]" by simp
        from folder_Update_inherits_surfaces'[OF ne _ t', of r_sdk plan state] e show ?thesis by simp
      qed
    qed
  qed
qed

lemma folder_Create_surfaces:
  "fst (folder_Create r_sdk plan resp w) = Panicked
   \<or> surfaces (issued w (snd (folder_Create r_sdk plan resp w))) (fst (folder_Create r_sdk plan resp w))"
proof (cases "HasError (Diagnostics resp) \<or> r_sdk = None")
  case True
  then show ?thesis by (cases r_sdk) (auto simp: folder_Create_def surfaces_clean)
next
  case False
  then obtain sdk where s: "r_sdk = Some sdk" "\<not> HasError (Diagnostics resp)" by auto
  let ?c = "CreateFolderCall (ValueString (f_Name plan)) (ValueString (f_ParentID plan))"
  obtain res w1 where inv: "invoke ?c
        (CreateFolder sdk (ValueString (f_Name plan)) (ValueString (f_ParentID plan))) w = (res, w1)"
    and t: "trace w1 = trace w @ [(?c, error_of res)]"
    using invoke_issued by blast
  show ?thesis
  proof (cases res)
    case (Inl err)
    with s inv t show ?thesis by (simp add: folder_Create_def surfaces_def)
  next
    case (Inr folder)
    show ?thesis
    proof (cases "\<not> BoolIsNull (f_InheritsPermissions plan)
                  \<and> \<not> ValueBool (f_InheritsPermissions plan)")
      case False
      with s inv t Inr show ?thesis by (auto simp: folder_Create_def surfaces_def Let_def)
    next
      case own: True
      show ?thesis
      proof (cases "folder_ContentMetadataId folder")
        case None
        with s inv Inr own show ?thesis by (simp add: folder_Create_def Let_def)
      next
        case (Some cm)
        let ?u = "UpdateContentMetadataCall cm (ValueBoolPointer (BoolValue False))"
        obtain mr w2 where inv2: "invoke ?u
              (UpdateContentMetadata sdk cm (ValueBoolPointer (BoolValue False))) w1 = (mr, w2)"
          and t2: "trace w2 = trace w1 @ [(?u, error_of mr)]"
          using invoke_issued by blast
        from t t2 Inr have i2: "issued w w2 = [(?c, None), (?u, error_of mr)]" by simp
        show ?thesis
        proof (cases mr)
          case (Inl err)
          with s inv \<open>res = Inr folder\<close> own Some inv2 i2 show ?thesis
            by (cases "folder_Id folder")
               (simp_all add: folder_Create_def Let_def surfaces_def failed_last_def)
        next
          case (Inr m)
          with s inv \<open>res = Inr folder\<close> own Some inv2 i2 show ?thesis
            by (simp add: folder_Create_def Let_def surfaces_def)
        qed
      qed
    qed
  qed
qed

lemma override_Update_keeps_response:
  "fst (folderPermissionOverride_Update r_sdk plan state resp w) = Returned r \<Longrightarrow> r = resp"
  by (auto simp: folderPermissionOverride_Update_def split: if_splits prod.splits outcome.splits)

lemma override_Delete_surfaces:
  "surfaces (issued w (snd (folderPermissionOverride_Delete r_sdk state resp w)))
     (fst (folderPermissionOverride_Delete r_sdk state resp w))"
  by (simp add: folderPermissionOverride_Delete_def surfaces_clean)

lemma delete_on_outage:
  "group_Delete (Some memSDK) devs (trackedResponse devs) (start outage)
     = (Returned \<lparr>State = Some devs, Diagnostics =
          [ErrorDiagnostic ''API error'' ''Failed to delete group 5: 503 Service Unavailable'']\<rparr>,
        \<lparr>remote = outage, trace = [(DeleteGroupCall ''5'', Some ''503 Service Unavailable'')]\<rparr>)"
  by (simp add: group_Delete_def invoke_def memSDK_def mem_DeleteGroup_def unavailable_def outage_def
      devsRemote_def emptyRemote_def devs_def start_def trackedResponse_def HasError_def Let_def
      ValueString_def AddError_def)

text \<open>
  Where a failed call is reported. In every operation of every resource (\<open>Update\<close> of the
  folder permission override left aside), a remote call that fails is the last call the
  operation issues, and the response carries an error, with one exception: after a failure of
  the get call that opens the \<open>Read\<close> of a group, a folder, a permission set, a model set or
  a role, the tracked state is removed and no error is reported. \<open>Create\<close> of a folder is
  covered as long as it does not panic.
\<close>

lemma failed_call_ends_operation:
  "surfaces (issued w (snd (group_Create r_sdk gplan gresp w)))
        (fst (group_Create r_sdk gplan gresp w))
   \<and> surfaces (issued w (snd (group_Read r_sdk gstate gresp w)))
        (fst (group_Read r_sdk gstate gresp w))
   \<and> surfaces (issued w (snd (group_Update r_sdk planOrder stateOrder gplan gstate gresp w)))
        (fst (group_Update r_sdk planOrder stateOrder gplan gstate gresp w))
   \<and> surfaces (issued w (snd (group_Delete r_sdk gstate gresp w)))
        (fst (group_Delete r_sdk gstate gresp w))
   \<and> surfaces (issued w (snd (folderAccess_Create r_sdk aplan aresp w)))
        (fst (folderAccess_Create r_sdk aplan aresp w))
   \<and> surfaces (issued w (snd (folderAccess_Read r_sdk astate aresp w)))
        (fst (folderAccess_Read r_sdk astate aresp w))
   \<and> surfaces (issued w (snd (folderAccess_Update r_sdk aplan astate aresp w)))
        (fst (folderAccess_Update r_sdk aplan astate aresp w))
   \<and> surfaces (issued w (snd (folderAccess_Delete r_sdk astate aresp w)))
        (fst (folderAccess_Delete r_sdk astate aresp w))
   \<and> surfaces (issued w (snd (folderPermissionOverride_Create r_sdk oplan oresp w)))
        (fst (folderPermissionOverride_Create r_sdk oplan oresp w))
   \<and> surfaces (issued w (snd (folderPermissionOverride_Read r_sdk ostate oresp w)))
        (fst (folderPermissionOverride_Read r_sdk ostate oresp w))
   \<and> surfaces (issued w (snd (folderPermissionOverride_Delete r_sdk ostate oresp w)))
        (fst (folderPermissionOverride_Delete r_sdk ostate oresp w))
   \<and> (fst (folder_Create r_sdk fplan fresp w) = Panicked
      \<or> surfaces (issued w (snd (folder_Create r_sdk fplan fresp w)))
        (fst (folder_Create r_sdk fplan fresp w)))
   \<and> surfaces (issued w (snd (folder_Read r_sdk fstate fresp w)))
        (fst (folder_Read r_sdk fstate fresp w))
   \<and> surfaces (issued w (snd (folder_Update r_sdk fplan fstate fresp w)))
        (fst (folder_Update r_sdk fplan fstate fresp w))
   \<and> surfaces (issued w (snd (folder_Delete r_sdk fstate fresp w)))
        (fst (folder_Delete r_sdk fstate fresp w))
   \<and> surfaces (issued w (snd (permissionSet_Create r_sdk pplan presp w)))
        (fst (permissionSet_Create r_sdk pplan presp w))
   \<and> surfaces (issued w (snd (permissionSet_Read r_sdk pstate presp w)))
        (fst (permissionSet_Read r_sdk pstate presp w))
   \<and> surfaces (issued w (snd (permissionSet_Update r_sdk pplan pstate presp w)))
        (fst (permissionSet_Update r_sdk pplan pstate presp w))
   \<and> surfaces (issued w (snd (permissionSet_Delete r_sdk pstate presp w)))
        (fst (permissionSet_Delete r_sdk pstate presp w))
   \<and> surfaces (issued w (snd (modelSet_Create r_sdk mplan mresp w)))
        (fst (modelSet_Create r_sdk mplan mresp w))
   \<and> surfaces (issued w (snd (modelSet_Read r_sdk mstate mresp w)))
        (fst (modelSet_Read r_sdk mstate mresp w))
   \<and> surfaces (issued w (snd (modelSet_Update r_sdk mplan mstate mresp w)))
        (fst (modelSet_Update r_sdk mplan mstate mresp w))
   \<and> surfaces (issued w (snd (modelSet_Delete r_sdk mstate mresp w)))
        (fst (modelSet_Delete r_sdk mstate mresp w))
   \<and> surfaces (issued w (snd (role_Create r_sdk rplan rresp w)))
        (fst (role_Create r_sdk rplan rresp w))
   \<and> surfaces (issued w (snd (role_Read r_sdk rstate rresp w)))
        (fst (role_Read r_sdk rstate rresp w))
   \<and> surfaces (issued w (snd (role_Update r_sdk rplan rstate rresp w)))
        (fst (role_Update r_sdk rplan rstate rresp w))
   \<and> surfaces (issued w (snd (role_Delete r_sdk rstate rresp w)))
        (fst (role_Delete r_sdk rstate rresp w))
   \<and> surfaces (issued w (snd (roleGroups_Create r_sdk rgplan rgresp w)))
        (fst (roleGroups_Create r_sdk rgplan rgresp w))
   \<and> surfaces (issued w (snd (roleGroups_Read r_sdk rgstate rgresp w)))
        (fst (roleGroups_Read r_sdk rgstate rgresp w))
   \<and> surfaces (issued w (snd (roleGroups_Update r_sdk rgplan rgresp w)))
        (fst (roleGroups_Update r_sdk rgplan rgresp w))
   \<and> surfaces (issued w (snd (roleGroups_Delete r_sdk rgstate rgresp w)))
        (fst (roleGroups_Delete r_sdk rgstate rgresp w))"
  by (intro conjI
        group_Create_surfaces group_Read_surfaces group_Update_surfaces group_Delete_surfaces
        folderAccess_Create_surfaces folderAccess_Read_surfaces folderAccess_Update_surfaces
        folderAccess_Delete_surfaces override_Create_surfaces override_Read_surfaces
        override_Delete_surfaces folder_Create_surfaces folder_Read_surfaces
        folder_Update_surfaces folder_Delete_surfaces permissionSet_Create_surfaces
        permissionSet_Read_surfaces permissionSet_Update_surfaces permissionSet_Delete_surfaces
        modelSet_Create_surfaces modelSet_Read_surfaces modelSet_Update_surfaces
        modelSet_Delete_surfaces role_Create_surfaces role_Read_surfaces role_Update_surfaces
        role_Delete_surfaces roleGroups_Create_surfaces roleGroups_Read_surfaces
        roleGroups_Update_surfaces roleGroups_Delete_surfaces)

lemma failed_call_reported_on_outage:
  "issued (start outage) (snd (group_Delete (Some memSDK) devs (trackedResponse devs) (start outage)))
     = [(DeleteGroupCall ''5'', Some ''503 Service Unavailable'')]
   \<and> \<not> clean [(DeleteGroupCall ''5'', Some ''503 Service Unavailable'')]
   \<and> surfaces [(DeleteGroupCall ''5'', Some ''503 Service Unavailable'')]
        (fst (group_Delete (Some memSDK) devs (trackedResponse devs) (start outage)))
   \<and> fst (group_Delete (Some memSDK) devs (trackedResponse devs) (start outage))
     = Returned \<lparr>State = Some devs, Diagnostics =
          [ErrorDiagnostic ''API error'' ''Failed to delete group 5: 503 Service Unavailable'']\<rparr>"
proof -
  have i: "issued (start outage) (snd (group_Delete (Some memSDK) devs (trackedResponse devs) (start outage)))
     = [(DeleteGroupCall ''5'', Some ''503 Service Unavailable'')]"
    using delete_on_outage by (simp add: issued_def start_def)
  have s: "surfaces [(DeleteGroupCall ''5'', Some ''503 Service Unavailable'')]
        (fst (group_Delete (Some memSDK) devs (trackedResponse devs) (start outage)))"
    using failed_call_ends_operation[where w = "start outage" and r_sdk = "Some memSDK" and gstate = devs
          and gresp = "trackedResponse devs",
        THEN conjunct2, THEN conjunct2, THEN conjunct2, THEN conjunct1]
    unfolding i .
  have c: "\<not> clean [(DeleteGroupCall ''5'', Some ''503 Service Unavailable'')]" by simp
  from i s c delete_on_outage show ?thesis by simp
qed

lemma override_Update_on_outage:
  "folderPermissionOverride_Create (Some memSDK) plannedEditor
       \<lparr>State = Some trackedViewer, Diagnostics = []\<rparr> (start folderOutage)
     = (Returned \<lparr>State = Some trackedViewer, Diagnostics =
          [ErrorDiagnostic ''API Error on Find''
             ''API error searching for access grants on folder f1: 503 Service Unavailable'']\<rparr>,
        \<lparr>remote = folderOutage,
         trace = [(AllContentMetadataAccessesCall ''f1'' [], Some ''503 Service Unavailable'')]\<rparr>)"
  by (simp add: folderPermissionOverride_Create_def folderPermissionOverride_findAccessGrant_def
      invoke_def memSDK_def mem_AllContentMetadataAccesses_def unavailable_def folderOutage_def
      sharedFolder_def emptyRemote_def plannedEditor_def trackedViewer_def start_def HasError_def
      Let_def ValueString_def AddError_def error_of_def)

text \<open>
  Claim C4 says that every error outcome of a remote call surfaces as a failure of the
  operation, and that a remote error on a read is not taken for a vanished object. The code
  departs from it in two places. While the remote answers every call with "503 Service
  Unavailable", \<open>Read\<close> of a tracked group removes the tracked state and reports no error:
  the very response it gives when the group is gone and the remote answers "404 Not Found".
  And \<open>Update\<close> of a tracked override returns the response it was given, with no error,
  although the one call it issued failed.
\<close>

theorem remote_error_read_as_vanished:
  "group_Read (Some memSDK) devs (trackedResponse devs) (start outage)
     = (Returned \<lparr>State = None, Diagnostics = []\<rparr>,
        \<lparr>remote = outage, trace = [(GroupCall ''5'' ''id,name'', Some ''503 Service Unavailable'')]\<rparr>)
   \<and> group_Read (Some memSDK) devs (trackedResponse devs) (start deleted)
     = (Returned \<lparr>State = None, Diagnostics = []\<rparr>,
        \<lparr>remote = deleted, trace = [(GroupCall ''5'' ''id,name'', Some ''404 Not Found'')]\<rparr>)
   \<and> folderPermissionOverride_Update (Some memSDK) plannedEditor trackedViewer
        (trackedResponse trackedViewer) (start folderOutage)
     = (Returned \<lparr>State = Some trackedViewer, Diagnostics = []\<rparr>,
        \<lparr>remote = folderOutage,
         trace = [(AllContentMetadataAccessesCall ''f1'' [], Some ''503 Service Unavailable'')]\<rparr>)"
proof (intro conjI)
  show "group_Read (Some memSDK) devs (trackedResponse devs) (start outage)
     = (Returned \<lparr>State = None, Diagnostics = []\<rparr>,
        \<lparr>remote = outage, trace = [(GroupCall ''5'' ''id,name'', Some ''503 Service Unavailable'')]\<rparr>)"
    by (simp add: group_Read_def invoke_def memSDK_def mem_GetGroup_def unavailable_def outage_def
        devsRemote_def emptyRemote_def devs_def start_def trackedResponse_def HasError_def Let_def
        ValueString_def RemoveResource_def)
  show "group_Read (Some memSDK) devs (trackedResponse devs) (start deleted)
     = (Returned \<lparr>State = None, Diagnostics = []\<rparr>,
        \<lparr>remote = deleted, trace = [(GroupCall ''5'' ''id,name'', Some ''404 Not Found'')]\<rparr>)"
    by (simp add: group_Read_def invoke_def memSDK_def mem_GetGroup_def deleted_def
        devsRemote_def emptyRemote_def devs_def start_def trackedResponse_def HasError_def Let_def
        ValueString_def RemoveResource_def error_of_def)
  show "folderPermissionOverride_Update (Some memSDK) plannedEditor trackedViewer
        (trackedResponse trackedViewer) (start folderOutage)
     = (Returned \<lparr>State = Some trackedViewer, Diagnostics = []\<rparr>,
        \<lparr>remote = folderOutage,
         trace = [(AllContentMetadataAccessesCall ''f1'' [], Some ''503 Service Unavailable'')]\<rparr>)"
    using override_Update_on_outage
    by (simp add: folderPermissionOverride_Update_def trackedResponse_def HasError_def)
qed


end
